theory Spec2Isabelle
  imports Main
begin

section \<open>Values, objects and the record table\<close>

text \<open>
  The control plane keeps projects, applications, pipelines and plugins in one DynamoDB
  table whose primary key is the pair of attributes \<open>id\<close> (partition) and \<open>type\<close> (sort).
  A JavaScript value and a DynamoDB attribute value are modelled by one datatype; a
  JavaScript object and a table item are partial maps from attribute names to values,
  where \<open>None\<close> is JavaScript's \<open>undefined\<close>.  The numbers in records are integers.
\<close>

datatype attr =
    S string
  | N int
  | BOOL bool
  | NULL
  | L "attr list"
  | M "(string \<times> attr) list"

type_synonym item = "string \<rightharpoonup> attr"

type_synonym table = "item list"

text \<open>
  Every rejected command is a value.  \<open>TypeError\<close> stands for a JavaScript exception or a
  serialisation failure raised before a command reaches the table, because a value does
  not have the type its TypeScript declaration promises.
\<close>

datatype error =
    ConditionalCheckFailed
  | TransactionCanceled
  | ValidationException
  | TypeError

text \<open>JavaScript truthiness, as used by \<open>!x\<close> and \<open>if (x)\<close>.\<close>

fun truthy :: "attr option \<Rightarrow> bool" where
  "truthy None = False"
| "truthy (Some (S s)) = (s \<noteq> [])"
| "truthy (Some (N n)) = (n \<noteq> 0)"
| "truthy (Some (BOOL b)) = b"
| "truthy (Some NULL) = False"
| "truthy (Some (L xs)) = True"
| "truthy (Some (M kvs)) = True"

text \<open>\<open>Date.now().toString()\<close>: the decimal digits of a clock reading.\<close>

function toString :: "nat \<Rightarrow> string" where
  "toString n =
     (if n < 10 then [''0123456789'' ! n]
      else toString (n div 10) @ [''0123456789'' ! (n mod 10)])"
  by pat_completeness auto
termination
  by (relation "measure id") auto

declare toString.simps [simp del]

text \<open>
  The string that a template string and \<open>toString()\<close> make of a value: a number in
  decimal digits, an array as its elements joined by commas with \<open>null\<close> as the empty
  string, any other object as \<open>[object Object]\<close>.
\<close>

definition showInt :: "int \<Rightarrow> string" where
  "showInt n = (if n < 0 then ''-'' @ toString (nat (- n)) else toString (nat n))"

fun joinComma :: "string list \<Rightarrow> string" where
  "joinComma [] = []"
| "joinComma [s] = s"
| "joinComma (s # t # ss) = s @ '','' @ joinComma (t # ss)"

primrec jsString :: "attr \<Rightarrow> string" where
  "jsString (S s) = s"
| "jsString (N n) = showInt n"
| "jsString (BOOL b) = (if b then ''true'' else ''false'')"
| "jsString NULL = ''null''"
| "jsString (L xs) =
     joinComma (map (\<lambda>(x, s). if x = NULL then [] else s) (zip xs (map jsString xs)))"
| "jsString (M kvs) = ''[object Object]''"


text \<open>
  The integer that a string denotes for the table's number type: an optional minus sign
  and decimal digits.
\<close>

definition digitOf :: "char \<Rightarrow> nat option" where
  "digitOf c = map_of (zip ''0123456789'' [0, 1, 2, 3, 4, 5, 6, 7, 8, 9]) c"

fun parseDigits :: "nat \<Rightarrow> string \<Rightarrow> nat option" where
  "parseDigits acc [] = Some acc"
| "parseDigits acc (c # cs) =
     (case digitOf c of None \<Rightarrow> None | Some d \<Rightarrow> parseDigits (10 * acc + d) cs)"

definition parseInt :: "string \<Rightarrow> int option" where
  "parseInt s =
     (case s of
        [] \<Rightarrow> None
      | c # cs \<Rightarrow>
          if c = CHR ''-'' then (if cs = [] then None else map_option (\<lambda>n. - int n) (parseDigits 0 cs))
          else map_option int (parseDigits 0 s))"

subsection \<open>Marshalling\<close>

text \<open>
  \<open>marshall(obj, {convertEmptyValues: true, removeUndefinedValues: true, ...})\<close> converts
  every defined member of the object; with \<open>convertEmptyValues\<close> an empty string becomes
  the NULL attribute, at every depth.
\<close>

primrec convertToAttr :: "attr \<Rightarrow> attr" where
  "convertToAttr (S s) = (if s = [] then NULL else S s)"
| "convertToAttr (N n) = N n"
| "convertToAttr (BOOL b) = BOOL b"
| "convertToAttr NULL = NULL"
| "convertToAttr (L xs) = L (map convertToAttr xs)"
| "convertToAttr (M kvs) = M (map (map_prod id convertToAttr) kvs)"

definition marshall :: "item \<Rightarrow> item" where
  "marshall obj = (\<lambda>k. map_option convertToAttr (obj k))"

text \<open>
  Members written into a low-level command as \<open>{ S: x }\<close>, \<open>{ N: x.toString() }\<close> or
  \<open>{ BOOL: x }\<close>: the command can be serialised only when \<open>x\<close> has the declared type; for
  \<open>N\<close>, when \<open>x.toString()\<close> exists and denotes a number.
\<close>

definition strField :: "item \<Rightarrow> string \<Rightarrow> attr option" where
  "strField obj k = (case obj k of Some (S s) \<Rightarrow> Some (S s) | _ \<Rightarrow> None)"

definition numField :: "item \<Rightarrow> string \<Rightarrow> attr option" where
  "numField obj k =
     (case obj k of
        None \<Rightarrow> None
      | Some NULL \<Rightarrow> None
      | Some (N n) \<Rightarrow> Some (N n)
      | Some v \<Rightarrow> map_option N (parseInt (jsString v)))"

definition boolField :: "item \<Rightarrow> string \<Rightarrow> attr option" where
  "boolField obj k = (case obj k of Some (BOOL b) \<Rightarrow> Some (BOOL b) | _ \<Rightarrow> None)"

text \<open>\<open>{ S: x ?? '' }\<close>: \<open>undefined\<close> and \<open>null\<close> are replaced by the empty string.\<close>

definition strOrEmpty :: "item \<Rightarrow> string \<Rightarrow> attr option" where
  "strOrEmpty obj k =
     (case obj k of None \<Rightarrow> Some (S [])
      | Some NULL \<Rightarrow> Some (S [])
      | Some (S s) \<Rightarrow> Some (S s)
      | _ \<Rightarrow> None)"

text \<open>\<open>marshalled.workflow ?? { M: {} }\<close>: a marshalled member is never \<open>null\<close>.\<close>

definition workflowOrEmpty :: "item \<Rightarrow> attr option" where
  "workflowOrEmpty obj =
     (case marshall obj ''workflow'' of None \<Rightarrow> Some (M []) | Some w \<Rightarrow> Some w)"

text \<open>The template string \<open>PIPELINE#${pipelineId}#${version}\<close>.\<close>

definition pipelineType :: "string \<Rightarrow> string \<Rightarrow> string" where
  "pipelineType pipelineId version = ''PIPELINE#'' @ pipelineId @ ''#'' @ version"

text \<open>
  An object literal given as a list of members.  A member whose value cannot be
  produced makes the whole literal unusable.
\<close>

fun buildItem :: "(string \<times> attr option) list \<Rightarrow> item option" where
  "buildItem [] = Some Map.empty"
| "buildItem ((k, None) # kvs) = None"
| "buildItem ((k, Some v) # kvs) =
     (case buildItem kvs of None \<Rightarrow> None | Some m \<Rightarrow> Some (m(k \<mapsto> v)))"

subsection \<open>Conditions and filters\<close>

datatype cond =
    AttributeNotExists string
  | Equals string attr
  | BeginsWith string string
  | AndC cond cond
  | NoCond

fun holds :: "cond \<Rightarrow> item \<Rightarrow> bool" where
  "holds (AttributeNotExists k) it = (it k = None)"
| "holds (Equals k v) it = (it k = Some v)"
| "holds (BeginsWith k p) it =
     (case it k of Some (S s) \<Rightarrow> take (length p) s = p | _ \<Rightarrow> False)"
| "holds (AndC a b) it = (holds a it \<and> holds b it)"
| "holds NoCond it = True"

subsection \<open>The table commands\<close>

definition hasKey :: "string \<Rightarrow> string \<Rightarrow> item \<Rightarrow> bool" where
  "hasKey i t it = (it ''id'' = Some (S i) \<and> it ''type'' = Some (S t))"

text \<open>GetItem.\<close>

definition getItem :: "table \<Rightarrow> string \<Rightarrow> string \<Rightarrow> item option" where
  "getItem tb i t = find (hasKey i t) tb"

text \<open>A condition is evaluated on the stored item, or on an item without attributes.\<close>

definition existing :: "table \<Rightarrow> string \<Rightarrow> string \<Rightarrow> item" where
  "existing tb i t = (case getItem tb i t of None \<Rightarrow> Map.empty | Some it \<Rightarrow> it)"

text \<open>
  The write of a Put replaces the item of that key or adds it; the write of an Update
  sets the given attributes on the item of that key, creating the item when the key is
  new.  DynamoDB keeps one item per key; on such a table \<open>map\<close> changes one item.
\<close>

definition writePut :: "string \<Rightarrow> string \<Rightarrow> item \<Rightarrow> table \<Rightarrow> table" where
  "writePut i t it tb =
     (if getItem tb i t = None then tb @ [it]
      else map (\<lambda>x. if hasKey i t x then it else x) tb)"

definition writeUpdate :: "string \<Rightarrow> string \<Rightarrow> item \<Rightarrow> table \<Rightarrow> table" where
  "writeUpdate i t sets tb =
     (if getItem tb i t = None then tb @ [[''id'' \<mapsto> S i, ''type'' \<mapsto> S t] ++ sets]
      else map (\<lambda>x. if hasKey i t x then x ++ sets else x) tb)"

datatype writeOp =
    Put item cond
  | Update string string cond item

fun opKey :: "writeOp \<Rightarrow> (string \<times> string) option" where
  "opKey (Put it c) =
     (case (it ''id'', it ''type'') of
        (Some (S i), Some (S t)) \<Rightarrow> Some (i, t)
      | _ \<Rightarrow> None)"
| "opKey (Update i t c sets) =
     (if sets ''id'' = None \<and> sets ''type'' = None then Some (i, t) else None)"

fun opCond :: "writeOp \<Rightarrow> cond" where
  "opCond (Put it c) = c"
| "opCond (Update i t c sets) = c"

fun applyOp :: "table \<Rightarrow> writeOp \<Rightarrow> table" where
  "applyOp tb (Put it c) =
     (case opKey (Put it c) of None \<Rightarrow> tb | Some (i, t) \<Rightarrow> writePut i t it tb)"
| "applyOp tb (Update i t c sets) = writeUpdate i t sets tb"

definition condPasses :: "table \<Rightarrow> writeOp \<Rightarrow> bool" where
  "condPasses tb op =
     (case opKey op of None \<Rightarrow> False
      | Some (i, t) \<Rightarrow> holds (opCond op) (existing tb i t))"

text \<open>
  PutItem and UpdateItem: a command without a well-formed key, or an update of a key
  attribute, is invalid; a failed condition leaves the table as it was.
\<close>

definition sendWrite :: "writeOp \<Rightarrow> table \<Rightarrow> error option \<times> table" where
  "sendWrite op tb =
     (if opKey op = None then (Some ValidationException, tb)
      else if condPasses tb op then (None, applyOp tb op)
      else (Some ConditionalCheckFailed, tb))"

text \<open>
  TransactWriteItems: the request is invalid when an operation is invalid or two
  operations address one item; all conditions are evaluated on the table as it is; when
  one fails the transaction is cancelled and nothing is written.
\<close>

definition transactWriteItems :: "writeOp list \<Rightarrow> table \<Rightarrow> error option \<times> table" where
  "transactWriteItems ops tb =
     (if list_ex (\<lambda>op. opKey op = None) ops \<or> \<not> distinct (map opKey ops)
      then (Some ValidationException, tb)
      else if list_all (condPasses tb) ops then (None, foldl applyOp tb ops)
      else (Some TransactionCanceled, tb))"

text \<open>Scan with a filter: every item that passes, in table order.\<close>

definition scan :: "cond \<Rightarrow> table \<Rightarrow> item list" where
  "scan flt tb = filter (holds flt) tb"

section \<open>The store: pipelines\<close>

text \<open>\<open>getPipeline(projectId, pipelineId, version?)\<close>.\<close>

definition getPipeline :: "string \<Rightarrow> string \<Rightarrow> string option \<Rightarrow> table \<Rightarrow> item option" where
  "getPipeline projectId pipelineId version tb =
     (let skVersion = (case version of None \<Rightarrow> ''latest'' | Some v \<Rightarrow> v) in
      case getItem tb projectId (pipelineType pipelineId skVersion) of
        None \<Rightarrow> None
      | Some pipeline \<Rightarrow> if \<not> truthy (pipeline ''deleted'') then Some pipeline else None)"

text \<open>
  \<open>updatePipeline(pipeline, curPipeline)\<close>: one transaction of two operations.  The first
  puts a copy of \<open>curPipeline\<close> under the sort key of its version, provided no item of
  that key exists.
\<close>

definition snapshotMembers :: "item \<Rightarrow> item \<Rightarrow> nat \<Rightarrow> (string \<times> attr option) list" where
  "snapshotMembers pipeline curPipeline now =
     [(''id'', strField curPipeline ''id''),
      (''type'',
         (case (curPipeline ''pipelineId'', curPipeline ''version'') of
            (Some (S p), Some (S v)) \<Rightarrow> Some (S (pipelineType p v))
          | _ \<Rightarrow> None)),
      (''prefix'', strField curPipeline ''prefix''),
      (''pipelineId'', strField curPipeline ''pipelineId''),
      (''projectId'', strField curPipeline ''projectId''),
      (''name'', strField curPipeline ''name''),
      (''description'', strField curPipeline ''description''),
      (''region'', strField curPipeline ''region''),
      (''dataCollectionSDK'', strField curPipeline ''dataCollectionSDK''),
      (''status'', marshall curPipeline ''status''),
      (''tags'', marshall curPipeline ''tags''),
      (''network'', marshall curPipeline ''network''),
      (''bucket'', marshall curPipeline ''bucket''),
      (''ingestionServer'', marshall curPipeline ''ingestionServer''),
      (''etl'', marshall curPipeline ''etl''),
      (''dataAnalytics'', marshall curPipeline ''dataAnalytics''),
      (''report'', marshall curPipeline ''report''),
      (''workflow'', workflowOrEmpty curPipeline),
      (''executionName'', strOrEmpty curPipeline ''executionName''),
      (''executionArn'', strOrEmpty curPipeline ''executionArn''),
      (''version'', strField curPipeline ''version''),
      (''versionTag'', strField curPipeline ''version''),
      (''createAt'', numField curPipeline ''createAt''),
      (''updateAt'', Some (N (int now))),
      (''operator'', strField pipeline ''operator''),
      (''deleted'', boolField pipeline ''deleted'')]"

definition snapshotItem :: "item \<Rightarrow> item \<Rightarrow> nat \<Rightarrow> item option" where
  "snapshotItem pipeline curPipeline now = buildItem (snapshotMembers pipeline curPipeline now)"

text \<open>
  The second operation sets these attributes on the item with sort key
  \<open>PIPELINE#<pipelineId>#latest\<close>, provided its stored \<open>version\<close> equals
  \<open>pipeline.version\<close>.
\<close>

definition latestMembers :: "item \<Rightarrow> item \<Rightarrow> nat \<Rightarrow> (string \<times> attr option) list" where
  "latestMembers pipeline curPipeline now =
     [(''prefix'', strField pipeline ''prefix''),
      (''name'', strField pipeline ''name''),
      (''description'', strField pipeline ''description''),
      (''region'', strField pipeline ''region''),
      (''dataCollectionSDK'', strField pipeline ''dataCollectionSDK''),
      (''status'', marshall pipeline ''status''),
      (''tags'', marshall pipeline ''tags''),
      (''network'', marshall pipeline ''network''),
      (''bucket'', marshall pipeline ''bucket''),
      (''ingestionServer'', marshall pipeline ''ingestionServer''),
      (''etl'', marshall pipeline ''etl''),
      (''dataAnalytics'', marshall pipeline ''dataAnalytics''),
      (''report'', marshall pipeline ''report''),
      (''workflow'', workflowOrEmpty pipeline),
      (''executionName'', strOrEmpty curPipeline ''executionName''),
      (''executionArn'', strOrEmpty curPipeline ''executionArn''),
      (''version'', Some (S (toString now))),
      (''versionTag'', Some (S ''latest'')),
      (''updateAt'', Some (N (int now))),
      (''operator'', Some (S ''''))]"

definition latestSets :: "item \<Rightarrow> item \<Rightarrow> nat \<Rightarrow> item option" where
  "latestSets pipeline curPipeline now = buildItem (latestMembers pipeline curPipeline now)"

text \<open>The value bound to \<open>:ConditionVersionValue\<close>.\<close>

definition conditionVersionValue :: "item \<Rightarrow> item \<Rightarrow> attr option" where
  "conditionVersionValue pipeline curPipeline = strField pipeline ''version''"

definition updatePipelineOps :: "item \<Rightarrow> item \<Rightarrow> nat \<Rightarrow> writeOp list option" where
  "updatePipelineOps pipeline curPipeline now =
     (case (snapshotItem pipeline curPipeline now,
            pipeline ''id'', pipeline ''pipelineId'',
            conditionVersionValue pipeline curPipeline,
            latestSets pipeline curPipeline now) of
        (Some snapshot, Some (S i), Some (S p), Some v, Some sets) \<Rightarrow>
          Some [Put snapshot (AttributeNotExists ''type''),
                Update i (pipelineType p ''latest'') (Equals ''version'' v) sets]
      | _ \<Rightarrow> None)"

definition updatePipeline :: "item \<Rightarrow> item \<Rightarrow> nat \<Rightarrow> table \<Rightarrow> error option \<times> table" where
  "updatePipeline pipeline curPipeline now tb =
     (case updatePipelineOps pipeline curPipeline now of
        None \<Rightarrow> (Some TypeError, tb)
      | Some ops \<Rightarrow> transactWriteItems ops tb)"

subsection \<open>Observing the stored pipeline records\<close>

text \<open>
  The attribute of a record that may be absent; the stored item addressed by the Update of
  \<open>updatePipeline\<close>; and the stored item under the sort key of the version of
  \<open>curPipeline\<close>.
\<close>

definition attrOf :: "item option \<Rightarrow> string \<Rightarrow> attr option" where
  "attrOf r k = (case r of None \<Rightarrow> None | Some it \<Rightarrow> it k)"

definition latestRecord :: "item \<Rightarrow> table \<Rightarrow> item option" where
  "latestRecord pipeline tb =
     (case (pipeline ''id'', pipeline ''pipelineId'') of
        (Some (S i), Some (S p)) \<Rightarrow> getItem tb i (pipelineType p ''latest'')
      | _ \<Rightarrow> None)"

definition snapshotRecord :: "item \<Rightarrow> table \<Rightarrow> item option" where
  "snapshotRecord curPipeline tb =
     (case (curPipeline ''id'', curPipeline ''pipelineId'', curPipeline ''version'') of
        (Some (S i), Some (S p), Some (S v)) \<Rightarrow> getItem tb i (pipelineType p v)
      | _ \<Rightarrow> None)"

text \<open>The attributes named by the statements about the two records.\<close>

definition copiedFields :: "string list" where
  "copiedFields = [''id'', ''prefix'', ''pipelineId'', ''projectId'', ''name'', ''description'',
     ''region'', ''dataCollectionSDK'', ''version'']"

definition marshalledFields :: "string list" where
  "marshalledFields = [''status'', ''tags'', ''network'', ''bucket'', ''ingestionServer'', ''etl'',
     ''dataAnalytics'', ''report'']"

definition replacedFields :: "string list" where
  "replacedFields = [''prefix'', ''name'', ''description'', ''region'', ''dataCollectionSDK'']"

definition executionFields :: "string list" where
  "executionFields = [''executionName'', ''executionArn'']"

text \<open>The attributes of a snapshot, and the attributes that the Update sets.\<close>

definition snapshotFields :: "string list" where
  "snapshotFields = [''id'', ''type'', ''prefix'', ''pipelineId'', ''projectId'', ''name'',
     ''description'', ''region'', ''dataCollectionSDK'', ''status'', ''tags'', ''network'',
     ''bucket'', ''ingestionServer'', ''etl'', ''dataAnalytics'', ''report'', ''workflow'',
     ''executionName'', ''executionArn'', ''version'', ''versionTag'', ''createAt'', ''updateAt'',
     ''operator'', ''deleted'']"

definition setFields :: "string list" where
  "setFields = [''prefix'', ''name'', ''description'', ''region'', ''dataCollectionSDK'', ''status'',
     ''tags'', ''network'', ''bucket'', ''ingestionServer'', ''etl'', ''dataAnalytics'', ''report'',
     ''workflow'', ''executionName'', ''executionArn'', ''version'', ''versionTag'', ''updateAt'',
     ''operator'']"

text \<open>
  The marshalled form of a member, stated apart from \<open>marshall\<close>: every empty string in it
  has become NULL.  A value without an empty string is its own marshalled form.
\<close>

primrec blankFree :: "attr \<Rightarrow> bool" where
  "blankFree (S s) = (s \<noteq> [])"
| "blankFree (N n) = True"
| "blankFree (BOOL b) = True"
| "blankFree NULL = True"
| "blankFree (L xs) = list_all id (map blankFree xs)"
| "blankFree (M kvs) = list_all id (map (\<lambda>kv. snd kv) (map (map_prod id blankFree) kvs))"

section \<open>Example data\<close>

text \<open>
  A stored latest pipeline record as \<open>addPipeline\<close> writes it, and an update request for
  it that carries the version it was read at, a new name, another operator and other
  execution identifiers.
\<close>

definition exStored :: item where
  "exStored =
     [''id'' \<mapsto> S ''proj1'', ''type'' \<mapsto> S ''PIPELINE#pl1#latest'',
      ''prefix'' \<mapsto> S ''PIPELINE'', ''pipelineId'' \<mapsto> S ''pl1'',
      ''projectId'' \<mapsto> S ''proj1'', ''name'' \<mapsto> S ''clicks'',
      ''description'' \<mapsto> S ''first'', ''region'' \<mapsto> S ''us-east-1'',
      ''dataCollectionSDK'' \<mapsto> S ''sdk'', ''status'' \<mapsto> S ''RUNNING'',
      ''tags'' \<mapsto> L [], ''network'' \<mapsto> M [], ''bucket'' \<mapsto> M [],
      ''ingestionServer'' \<mapsto> M [], ''etl'' \<mapsto> M [],
      ''dataAnalytics'' \<mapsto> M [], ''report'' \<mapsto> M [],
      ''workflow'' \<mapsto> M [], ''executionName'' \<mapsto> S ''main-1'',
      ''executionArn'' \<mapsto> S ''arn:1'', ''version'' \<mapsto> S ''100'',
      ''versionTag'' \<mapsto> S ''latest'', ''createAt'' \<mapsto> N 100,
      ''updateAt'' \<mapsto> N 100, ''operator'' \<mapsto> S ''alice'',
      ''deleted'' \<mapsto> BOOL False]"

definition exRequest :: item where
  "exRequest =
     exStored(''name'' \<mapsto> S ''clicks2'', ''executionArn'' \<mapsto> S ''arn:other'',
       ''operator'' \<mapsto> S ''bob'')"

text \<open>
  A stored record that has an empty string inside a configuration member and neither
  workflow nor execution name, and a request for it that also carries another creation
  time and \<open>deleted: true\<close>.  A stored record whose creation time is the text of a number.
\<close>

definition exBlank :: item where
  "exBlank =
     exStored(''network'' \<mapsto> M [(''vpcId'', S []), (''subnets'', L [S ''a'', S []])],
       ''workflow'' := None, ''executionName'' := None)"

definition exBlankRequest :: item where
  "exBlankRequest = exBlank(''createAt'' \<mapsto> N 999, ''deleted'' \<mapsto> BOOL True)"

definition exTextual :: item where
  "exTextual = exStored(''createAt'' \<mapsto> S ''100'')"

text \<open>The tables after the three updates.\<close>

definition exAfter :: table where
  "exAfter = snd (updatePipeline exRequest exStored 200 [exStored])"

definition exBlankAfter :: table where
  "exBlankAfter = snd (updatePipeline exBlankRequest exBlank 200 [exBlank])"

definition exTextualAfter :: table where
  "exTextualAfter = snd (updatePipeline exRequest exTextual 200 [exTextual])"

text \<open>The stored record after another writer has advanced its version.\<close>

definition exNewer :: item where
  "exNewer = exStored(''version'' \<mapsto> S ''150'')"

section \<open>The store: projects, applications and listings\<close>

text \<open>\<open>getProject(id)\<close> and \<open>getApplication(projectId, appId)\<close>.\<close>

definition getProject :: "string \<Rightarrow> table \<Rightarrow> item option" where
  "getProject id' tb =
     (case getItem tb id' (''METADATA#'' @ id') of
        None \<Rightarrow> None
      | Some project \<Rightarrow> if \<not> truthy (project ''deleted'') then Some project else None)"

definition getApplication :: "string \<Rightarrow> string \<Rightarrow> table \<Rightarrow> item option" where
  "getApplication projectId appId tb =
     (case getItem tb projectId (''APP#'' @ appId) of
        None \<Rightarrow> None
      | Some app \<Rightarrow> if \<not> truthy (app ''deleted'') then Some app else None)"

text \<open>
  Modelled from the spec: the secondary index \<open>prefixTimeGSIName\<close> is declared outside the
  store; the spec keys it on \<open>prefix\<close> and an insertion-time attribute, which is \<open>createAt\<close> in
  the items the store writes.  A query on it reads the items that carry both index keys,
  ordered by time (ascending when \<open>ScanIndexForward\<close>), and then applies the filter.
\<close>

definition timeOf :: "item \<Rightarrow> int" where
  "timeOf it = (case it ''createAt'' of Some (N n) \<Rightarrow> n | _ \<Rightarrow> 0)"

definition indexed :: "string \<Rightarrow> item \<Rightarrow> bool" where
  "indexed prefix it =
     (it ''prefix'' = Some (S prefix) \<and> (case it ''createAt'' of Some (N n) \<Rightarrow> True | _ \<Rightarrow> False))"

definition query :: "string \<Rightarrow> cond \<Rightarrow> bool \<Rightarrow> table \<Rightarrow> item list" where
  "query prefix flt scanIndexForward tb =
     (let ordered = sort_key timeOf (filter (indexed prefix) tb) in
      filter (holds flt) (if scanIndexForward then ordered else rev ordered))"

text \<open>
  The numbers of the page computation.  \<open>pageSize\<close> and \<open>pageNumber\<close> are JavaScript
  numbers: an integer, an infinity or \<open>NaN\<close>; fractions are not modelled.  The operations
  are those the computation applies: \<open>Math.ceil(total / pageSize)\<close> for an integer total,
  \<open>Math.min\<close>, the product and the difference.
\<close>

datatype number = Num int | PosInf | NegInf | NaN

definition ceilDiv :: "int \<Rightarrow> int \<Rightarrow> int" where
  "ceilDiv a b = - ((- a) div b)"

fun ceilQuotient :: "int \<Rightarrow> number \<Rightarrow> number" where
  "ceilQuotient a (Num b) =
     (if b \<noteq> 0 then Num (ceilDiv a b)
      else if 0 < a then PosInf else if a < 0 then NegInf else NaN)"
| "ceilQuotient a PosInf = Num 0"
| "ceilQuotient a NegInf = Num 0"
| "ceilQuotient a NaN = NaN"

fun minNumber :: "number \<Rightarrow> number \<Rightarrow> number" where
  "minNumber NaN y = NaN"
| "minNumber x NaN = NaN"
| "minNumber NegInf y = NegInf"
| "minNumber x NegInf = NegInf"
| "minNumber PosInf y = y"
| "minNumber x PosInf = x"
| "minNumber (Num a) (Num b) = Num (min a b)"

fun signNumber :: "number \<Rightarrow> int" where
  "signNumber (Num a) = sgn a"
| "signNumber PosInf = 1"
| "signNumber NegInf = - 1"
| "signNumber NaN = 0"

fun timesNumber :: "number \<Rightarrow> number \<Rightarrow> number" where
  "timesNumber NaN y = NaN"
| "timesNumber x NaN = NaN"
| "timesNumber (Num a) (Num b) = Num (a * b)"
| "timesNumber x y =
     (if signNumber x * signNumber y = 0 then NaN
      else if 0 < signNumber x * signNumber y then PosInf else NegInf)"

fun minusNumber :: "number \<Rightarrow> int \<Rightarrow> number" where
  "minusNumber (Num a) b = Num (a - b)"
| "minusNumber x b = x"

text \<open>
  \<open>Array.prototype.slice(start, end)\<close>: an index is made an integer or an infinity, \<open>NaN\<close>
  becoming 0, and then an offset into the array.
\<close>

fun relativeIndex :: "number \<Rightarrow> int \<Rightarrow> int" where
  "relativeIndex (Num a) len = (if a < 0 then max (len + a) 0 else min a len)"
| "relativeIndex PosInf len = len"
| "relativeIndex NegInf len = 0"
| "relativeIndex NaN len = 0"

definition slice :: "'a list \<Rightarrow> number \<Rightarrow> number \<Rightarrow> 'a list" where
  "slice xs start end =
     (let len = int (length xs);
          k = relativeIndex start len;
          final = relativeIndex end len
      in take (nat (final - k)) (drop (nat k) xs))"

record itemList =
  totalCount :: int
  items :: "item list"

text \<open>The page computation that every listing function repeats.\<close>

definition paginate :: "item list \<Rightarrow> bool \<Rightarrow> number \<Rightarrow> number \<Rightarrow> itemList" where
  "paginate records pagination pageSize pageNumber =
     (let total = int (length records) in
      if pagination then
        (if total \<noteq> 0 then
           (let pageNumber' = minNumber (ceilQuotient total pageSize) pageNumber;
                startIndex = timesNumber pageSize (minusNumber pageNumber' 1);
                endIndex = minNumber (timesNumber pageSize pageNumber') (Num total)
            in \<lparr>totalCount = total, items = slice records startIndex endIndex\<rparr>)
         else \<lparr>totalCount = total, items = []\<rparr>)
      else \<lparr>totalCount = total, items = records\<rparr>)"

definition listProjects :: "string \<Rightarrow> bool \<Rightarrow> number \<Rightarrow> number \<Rightarrow> table \<Rightarrow> itemList" where
  "listProjects order pagination pageSize pageNumber tb =
     paginate (query ''METADATA'' (Equals ''deleted'' (BOOL False)) (order = ''asc'') tb)
       pagination pageSize pageNumber"

definition listApplication ::
  "string \<Rightarrow> string \<Rightarrow> bool \<Rightarrow> number \<Rightarrow> number \<Rightarrow> table \<Rightarrow> itemList" where
  "listApplication projectId order pagination pageSize pageNumber tb =
     paginate
       (query ''APP'' (AndC (Equals ''projectId'' (S projectId)) (Equals ''deleted'' (BOOL False)))
          (order = ''asc'') tb)
       pagination pageSize pageNumber"

text \<open>
  \<open>listPipeline\<close> builds its filter from the arguments.  \<open>isEmpty\<close> belongs to a utility
  module outside the store and is a parameter.
\<close>

definition pipelineFilter :: "(string \<Rightarrow> bool) \<Rightarrow> string \<Rightarrow> string \<Rightarrow> cond" where
  "pipelineFilter isEmpty projectId version =
     (let f0 = Equals ''deleted'' (BOOL False);
          f1 = (if \<not> isEmpty version then AndC f0 (Equals ''versionTag'' (S version)) else f0)
      in if \<not> isEmpty projectId then AndC f1 (Equals ''id'' (S projectId)) else f1)"

definition listPipeline ::
  "(string \<Rightarrow> bool) \<Rightarrow> string \<Rightarrow> string \<Rightarrow> string \<Rightarrow> bool \<Rightarrow> number \<Rightarrow> number \<Rightarrow> table \<Rightarrow> itemList" where
  "listPipeline isEmpty projectId version order pagination pageSize pageNumber tb =
     paginate (query ''PIPELINE'' (pipelineFilter isEmpty projectId version) (order = ''asc'') tb)
       pagination pageSize pageNumber"

section \<open>The store: plugins\<close>

text \<open>The dictionary is a second table, keyed by \<open>name\<close>.\<close>

definition getDictionary :: "string \<Rightarrow> item list \<Rightarrow> item option" where
  "getDictionary name dict = find (\<lambda>d. d ''name'' = Some (S name)) dict"

text \<open>
  The loop over \<open>dic.data\<close> that \<open>getPlugin\<close> and \<open>listPlugin\<close> share.  It assigns five
  members of every entry: the unary plus of \<open>createAt\<close>, \<open>updateAt\<close> and \<open>bindCount\<close>, and
  the comparison of \<open>builtIn\<close> and \<open>deleted\<close> with the string \<open>true\<close>.  JavaScript's numeric
  conversion is a parameter.  Module code is strict: an assignment to a member of a
  primitive value, and iterating a value that is no array or string, raise.
\<close>

definition objectOf :: "attr \<Rightarrow> item option" where
  "objectOf v =
     (case v of
        M kvs \<Rightarrow> Some (map_of kvs)
      | L xs \<Rightarrow> Some (map_of (zip (map toString [0..<length xs]) xs))
      | _ \<Rightarrow> None)"

definition convertBuiltIn :: "(attr option \<Rightarrow> attr) \<Rightarrow> item \<Rightarrow> item" where
  "convertBuiltIn unaryPlus p =
     p(''createAt'' \<mapsto> unaryPlus (p ''createAt''),
       ''updateAt'' \<mapsto> unaryPlus (p ''updateAt''),
       ''bindCount'' \<mapsto> unaryPlus (p ''bindCount''),
       ''builtIn'' \<mapsto> BOOL (p ''builtIn'' = Some (S ''true'')),
       ''deleted'' \<mapsto> BOOL (p ''deleted'' = Some (S ''true'')))"

fun convertAll :: "(attr option \<Rightarrow> attr) \<Rightarrow> attr list \<Rightarrow> error + item list" where
  "convertAll unaryPlus [] = Inr []"
| "convertAll unaryPlus (v # vs) =
     (case objectOf v of
        None \<Rightarrow> Inl TypeError
      | Some p \<Rightarrow>
          (case convertAll unaryPlus vs of
             Inl e \<Rightarrow> Inl e
           | Inr ps \<Rightarrow> Inr (convertBuiltIn unaryPlus p # ps)))"

definition buildInPlugins :: "(attr option \<Rightarrow> attr) \<Rightarrow> item \<Rightarrow> error + item list" where
  "buildInPlugins unaryPlus dic =
     (case dic ''data'' of
        Some (L vs) \<Rightarrow> convertAll unaryPlus vs
      | Some (S s) \<Rightarrow> if s = [] then Inr [] else Inl TypeError
      | _ \<Rightarrow> Inl TypeError)"

definition getPluginRecord :: "string \<Rightarrow> table \<Rightarrow> item option" where
  "getPluginRecord pluginId tb =
     (case getItem tb pluginId (''PLUGIN#'' @ pluginId) of
        None \<Rightarrow> None
      | Some plugin \<Rightarrow> if \<not> truthy (plugin ''deleted'') then Some plugin else None)"

text \<open>\<open>getPlugin(pluginId)\<close>; \<open>isEmpty\<close> is applied to an array here.\<close>

definition getPlugin ::
  "(item list \<Rightarrow> bool) \<Rightarrow> (attr option \<Rightarrow> attr) \<Rightarrow> string \<Rightarrow> item list \<Rightarrow> table
     \<Rightarrow> error + item option" where
  "getPlugin isEmpty unaryPlus pluginId dict tb =
     (if take 7 pluginId = ''BUILDIN'' then
        (case getDictionary ''BuildInPlugins'' dict of
           None \<Rightarrow> Inr (getPluginRecord pluginId tb)
         | Some dic \<Rightarrow>
             (case buildInPlugins unaryPlus dic of
                Inl e \<Rightarrow> Inl e
              | Inr ps \<Rightarrow>
                  (let found = filter (\<lambda>p. p ''id'' = Some (S pluginId)) ps in
                   Inr (if \<not> isEmpty found
                        then (case found of [] \<Rightarrow> None | p # rest \<Rightarrow> Some p)
                        else None))))
      else Inr (getPluginRecord pluginId tb))"

text \<open>\<open>listPlugin\<close>: the built-in plugins of the dictionary, then the records of the table.\<close>

definition listedBuiltIns ::
  "(string \<Rightarrow> bool) \<Rightarrow> (attr option \<Rightarrow> attr) \<Rightarrow> string \<Rightarrow> item list \<Rightarrow> error + item list" where
  "listedBuiltIns isEmpty unaryPlus pluginType dict =
     (case getDictionary ''BuildInPlugins'' dict of
        None \<Rightarrow> Inr []
      | Some dic \<Rightarrow>
          (case buildInPlugins unaryPlus dic of
             Inl e \<Rightarrow> Inl e
           | Inr ps \<Rightarrow>
               Inr (if \<not> isEmpty pluginType
                    then filter (\<lambda>p. p ''pluginType'' = Some (S pluginType)) ps
                    else ps)))"

definition pluginFilter :: "(string \<Rightarrow> bool) \<Rightarrow> string \<Rightarrow> cond" where
  "pluginFilter isEmpty pluginType =
     (if \<not> isEmpty pluginType
      then AndC (Equals ''deleted'' (BOOL False)) (Equals ''pluginType'' (S pluginType))
      else Equals ''deleted'' (BOOL False))"

definition listPlugin ::
  "(string \<Rightarrow> bool) \<Rightarrow> (attr option \<Rightarrow> attr) \<Rightarrow> string \<Rightarrow> string \<Rightarrow> bool \<Rightarrow> number \<Rightarrow> number
     \<Rightarrow> item list \<Rightarrow> table \<Rightarrow> error + itemList" where
  "listPlugin isEmpty unaryPlus pluginType order pagination pageSize pageNumber dict tb =
     (case listedBuiltIns isEmpty unaryPlus pluginType dict of
        Inl e \<Rightarrow> Inl e
      | Inr builtIns \<Rightarrow>
          Inr (paginate
                 (builtIns @ query ''PLUGIN'' (pluginFilter isEmpty pluginType) (order = ''asc'') tb)
                 pagination pageSize pageNumber))"

text \<open>
  \<open>updatePlugin(plugin)\<close> sets \<open>updateAt\<close> and every truthy member among \<open>description\<close>,
  \<open>jarFile\<close>, \<open>dependencyFiles\<close> and \<open>mainFunction\<close>, under the condition
  \<open>bindCount = 0\<close>; \<open>deletePlugin(pluginId)\<close> sets \<open>deleted\<close> under the same condition.
\<close>

definition setIfTruthy :: "item \<Rightarrow> string \<Rightarrow> item \<Rightarrow> item" where
  "setIfTruthy plugin k sets = (if truthy (plugin k) then sets(k := plugin k) else sets)"

definition pluginSets :: "item \<Rightarrow> nat \<Rightarrow> item" where
  "pluginSets plugin now =
     setIfTruthy plugin ''mainFunction''
       (setIfTruthy plugin ''dependencyFiles''
          (setIfTruthy plugin ''jarFile''
             (setIfTruthy plugin ''description'' [''updateAt'' \<mapsto> N (int now)])))"

definition updatePlugin :: "item \<Rightarrow> nat \<Rightarrow> table \<Rightarrow> error option \<times> table" where
  "updatePlugin plugin now tb =
     (case plugin ''id'' of
        Some (S i) \<Rightarrow>
          sendWrite (Update i (''PLUGIN#'' @ i) (Equals ''bindCount'' (N 0)) (pluginSets plugin now)) tb
      | _ \<Rightarrow> (Some TypeError, tb))"

definition deletePlugin :: "string \<Rightarrow> table \<Rightarrow> error option \<times> table" where
  "deletePlugin pluginId tb =
     sendWrite
       (Update pluginId (''PLUGIN#'' @ pluginId) (Equals ''bindCount'' (N 0))
          [''deleted'' \<mapsto> BOOL True]) tb"

section \<open>The store: soft deletion by scan\<close>

text \<open>
  \<open>deleteProject(id)\<close> scans the items of the partition that are not deleted and updates
  them one command at a time.  The loop stops at the first command that is rejected; what
  it wrote before stays written.
\<close>

fun deleteProjectLoop :: "string \<Rightarrow> item list \<Rightarrow> table \<Rightarrow> error option \<times> table" where
  "deleteProjectLoop id' [] tb = (None, tb)"
| "deleteProjectLoop id' (project # projects) tb =
     (case project ''type'' of
        Some (S t) \<Rightarrow>
          (case sendWrite (Update id' t NoCond [''deleted'' \<mapsto> BOOL True]) tb of
             (None, tb') \<Rightarrow> deleteProjectLoop id' projects tb'
           | (Some e, tb') \<Rightarrow> (Some e, tb'))
      | _ \<Rightarrow> (Some ValidationException, tb))"

definition deleteProject :: "string \<Rightarrow> table \<Rightarrow> error option \<times> table" where
  "deleteProject id' tb =
     deleteProjectLoop id'
       (scan (AndC (Equals ''id'' (S id')) (Equals ''deleted'' (BOOL False))) tb) tb"

text \<open>
  \<open>deletePipeline(projectId, pipelineId)\<close> also sets the \<open>status\<close> member of a truthy
  status to \<open>PipelineStatusType.DELETING\<close>, a constant declared outside the store and a
  parameter here, and writes the status back.  A status that is a truthy primitive makes
  the assignment raise; a status that is undefined leaves \<open>:status\<close> unbound and the
  command invalid; a member assigned to an array is not stored.
\<close>

fun setMember :: "string \<Rightarrow> attr \<Rightarrow> (string \<times> attr) list \<Rightarrow> (string \<times> attr) list" where
  "setMember k v [] = [(k, v)]"
| "setMember k v ((k', v') # kvs) =
     (if k' = k then (k, v) # kvs else (k', v') # setMember k v kvs)"

definition markDeleting :: "string \<Rightarrow> attr option \<Rightarrow> error + attr" where
  "markDeleting DELETING status =
     (case status of
        None \<Rightarrow> Inl ValidationException
      | Some (M kvs) \<Rightarrow> Inr (M (setMember ''status'' (S DELETING) kvs))
      | Some (L xs) \<Rightarrow> Inr (L xs)
      | Some v \<Rightarrow> if truthy (Some v) then Inl TypeError else Inr v)"

fun deletePipelineLoop ::
  "string \<Rightarrow> string \<Rightarrow> item list \<Rightarrow> table \<Rightarrow> error option \<times> table" where
  "deletePipelineLoop DELETING projectId [] tb = (None, tb)"
| "deletePipelineLoop DELETING projectId (pipeline # pipelines) tb =
     (case markDeleting DELETING (pipeline ''status'') of
        Inl e \<Rightarrow> (Some e, tb)
      | Inr status \<Rightarrow>
          (case pipeline ''type'' of
             Some (S t) \<Rightarrow>
               (case sendWrite
                       (Update projectId t NoCond [''deleted'' \<mapsto> BOOL True, ''status'' \<mapsto> status])
                       tb of
                  (None, tb') \<Rightarrow> deletePipelineLoop DELETING projectId pipelines tb'
                | (Some e, tb') \<Rightarrow> (Some e, tb'))
           | _ \<Rightarrow> (Some ValidationException, tb)))"

definition deletePipeline :: "string \<Rightarrow> string \<Rightarrow> string \<Rightarrow> table \<Rightarrow> error option \<times> table" where
  "deletePipeline DELETING projectId pipelineId tb =
     deletePipelineLoop DELETING projectId
       (scan (AndC (AndC (Equals ''id'' (S projectId))
                         (BeginsWith ''type'' (''PIPELINE#'' @ pipelineId)))
                   (Equals ''deleted'' (BOOL False))) tb)
       tb"

section \<open>The pipeline service\<close>

text \<open>
  The service answers with a response, leaves a table, and calls the workflow engine and
  the store's \<open>updatePipelineStatus\<close> on the way; these calls are recorded in order.  The
  engine is asked through \<open>getExecutionStatus\<close>, a function from an execution handle to a
  status or \<open>undefined\<close>; \<open>updatePipelineStatus\<close> is declared by the store's interface and is
  a parameter.  \<open>generateWorkflow\<close> and \<open>execute\<close> are the other two calls the engine
  offers; only \<open>add\<close> makes them.
\<close>

datatype call =
    GetExecutionStatus attr
  | GenerateWorkflow item
  | Execute attr string
  | UpdatePipelineStatus item string

datatype payload = PItem item | PList itemList | PNull

datatype response =
    ApiSuccess nat payload "string option"
  | ApiFail nat string
  | Next error

record outcome =
  response :: response
  store :: table
  calls :: "call list"

text \<open>
  The body that \<open>list\<close> and \<open>details\<close> run on a pipeline: the status that the engine reports,
  \<open>ExecutionStatus.FAILED\<close> when it reports none; the pipeline, the table, the calls made,
  and the error of a rejected write.
\<close>

definition liveStatus :: "(attr \<Rightarrow> string option) \<Rightarrow> attr \<Rightarrow> string" where
  "liveStatus getExecutionStatus arn =
     (case getExecutionStatus arn of None \<Rightarrow> ''FAILED'' | Some s \<Rightarrow> s)"

definition reconcile ::
  "(attr \<Rightarrow> string option) \<Rightarrow> (item \<Rightarrow> string \<Rightarrow> table \<Rightarrow> error option \<times> table)
     \<Rightarrow> item \<Rightarrow> table \<Rightarrow> error option \<times> item \<times> table \<times> call list" where
  "reconcile getExecutionStatus updatePipelineStatus pipeline tb =
     (case pipeline ''executionArn'' of
        None \<Rightarrow> (None, pipeline, tb, [])
      | Some arn \<Rightarrow>
          if truthy (Some arn) then
            (let curStatus = liveStatus getExecutionStatus arn in
             if pipeline ''status'' \<noteq> Some (S curStatus) then
               (let pipeline' = pipeline(''status'' \<mapsto> S curStatus);
                    (e, tb') = updatePipelineStatus pipeline' curStatus tb
                in (e, pipeline', tb',
                    [GetExecutionStatus arn, UpdatePipelineStatus pipeline' curStatus]))
             else (None, pipeline, tb, [GetExecutionStatus arn]))
          else (None, pipeline, tb, []))"

fun reconcileAll ::
  "(attr \<Rightarrow> string option) \<Rightarrow> (item \<Rightarrow> string \<Rightarrow> table \<Rightarrow> error option \<times> table)
     \<Rightarrow> item list \<Rightarrow> table \<Rightarrow> error option \<times> item list \<times> table \<times> call list" where
  "reconcileAll getExecutionStatus updatePipelineStatus [] tb = (None, [], tb, [])"
| "reconcileAll getExecutionStatus updatePipelineStatus (pipeline # pipelines) tb =
     (case reconcile getExecutionStatus updatePipelineStatus pipeline tb of
        (Some e, pipeline', tb', cs) \<Rightarrow> (Some e, pipeline' # pipelines, tb', cs)
      | (None, pipeline', tb', cs) \<Rightarrow>
          (case reconcileAll getExecutionStatus updatePipelineStatus pipelines tb' of
             (e, pipelines', tb'', cs') \<Rightarrow> (e, pipeline' # pipelines', tb'', cs @ cs')))"

definition PipelineServ_list ::
  "(attr \<Rightarrow> string option) \<Rightarrow> (item \<Rightarrow> string \<Rightarrow> table \<Rightarrow> error option \<times> table)
     \<Rightarrow> (string \<Rightarrow> bool) \<Rightarrow> string \<Rightarrow> string \<Rightarrow> string \<Rightarrow> number \<Rightarrow> number \<Rightarrow> table
     \<Rightarrow> outcome" where
  "PipelineServ_list getExecutionStatus updatePipelineStatus isEmpty pid version order
       pageSize pageNumber tb =
     (let result = listPipeline isEmpty pid version order True pageSize pageNumber tb in
      case reconcileAll getExecutionStatus updatePipelineStatus (items result) tb of
        (None, pipelines, tb', cs) \<Rightarrow>
          \<lparr>response = ApiSuccess 200 (PList (result\<lparr>items := pipelines\<rparr>)) None,
           store = tb', calls = cs\<rparr>
      | (Some e, pipelines, tb', cs) \<Rightarrow> \<lparr>response = Next e, store = tb', calls = cs\<rparr>)"

definition PipelineServ_details ::
  "(attr \<Rightarrow> string option) \<Rightarrow> (item \<Rightarrow> string \<Rightarrow> table \<Rightarrow> error option \<times> table)
     \<Rightarrow> string \<Rightarrow> string \<Rightarrow> table \<Rightarrow> outcome" where
  "PipelineServ_details getExecutionStatus updatePipelineStatus pid id' tb =
     (case getPipeline pid id' None tb of
        None \<Rightarrow> \<lparr>response = ApiFail 404 ''Pipeline not found'', store = tb, calls = []\<rparr>
      | Some result \<Rightarrow>
          (case reconcile getExecutionStatus updatePipelineStatus result tb of
             (None, result', tb', cs) \<Rightarrow>
               \<lparr>response = ApiSuccess 200 (PItem result') None, store = tb', calls = cs\<rparr>
           | (Some e, result', tb', cs) \<Rightarrow> \<lparr>response = Next e, store = tb', calls = cs\<rparr>))"

section \<open>Example data and names for the statements\<close>

text \<open>A plugin record without bindings, the same record bound twice, and a change of it.\<close>

definition exPlugin :: item where
  "exPlugin =
     [''id'' \<mapsto> S ''plug1'', ''type'' \<mapsto> S ''PLUGIN#plug1'', ''prefix'' \<mapsto> S ''PLUGIN'',
      ''description'' \<mapsto> S ''old'', ''bindCount'' \<mapsto> N 0, ''createAt'' \<mapsto> N 5,
      ''deleted'' \<mapsto> BOOL False]"

definition exPluginBound :: item where
  "exPluginBound = exPlugin(''bindCount'' \<mapsto> N 2)"

definition exPluginChange :: item where
  "exPluginChange = [''id'' \<mapsto> S ''plug1'', ''description'' \<mapsto> S ''new'']"

text \<open>The members that \<open>updatePlugin\<close> may set.\<close>

definition pluginFields :: "string list" where
  "pluginFields = [''description'', ''jarFile'', ''dependencyFiles'', ''mainFunction'']"

text \<open>The filters of the two scans.\<close>

definition projectFilter :: "string \<Rightarrow> cond" where
  "projectFilter id' = AndC (Equals ''id'' (S id')) (Equals ''deleted'' (BOOL False))"

definition pipelineVersionsFilter :: "string \<Rightarrow> string \<Rightarrow> cond" where
  "pipelineVersionsFilter projectId pipelineId =
     AndC (AndC (Equals ''id'' (S projectId)) (BeginsWith ''type'' (''PIPELINE#'' @ pipelineId)))
          (Equals ''deleted'' (BOOL False))"

text \<open>
  A table with a project, one of its applications and another project; the latest record
  and one version of a pipeline with object statuses; and the same with a string status.
\<close>

definition exProjectTable :: table where
  "exProjectTable =
     [[''id'' \<mapsto> S ''p1'', ''type'' \<mapsto> S ''METADATA#p1'', ''deleted'' \<mapsto> BOOL False],
      [''id'' \<mapsto> S ''p1'', ''type'' \<mapsto> S ''APP#a1'', ''deleted'' \<mapsto> BOOL False],
      [''id'' \<mapsto> S ''p2'', ''type'' \<mapsto> S ''METADATA#p2'', ''deleted'' \<mapsto> BOOL False]]"

definition exVersionsTable :: table where
  "exVersionsTable =
     [[''id'' \<mapsto> S ''p1'', ''type'' \<mapsto> S ''PIPELINE#pl1#latest'', ''deleted'' \<mapsto> BOOL False,
       ''status'' \<mapsto> M [(''status'', S ''Active'')]],
      [''id'' \<mapsto> S ''p1'', ''type'' \<mapsto> S ''PIPELINE#pl1#100'', ''deleted'' \<mapsto> BOOL False,
       ''status'' \<mapsto> M [(''status'', S ''Active'')]]]"

definition exMixedVersionsTable :: table where
  "exMixedVersionsTable =
     [[''id'' \<mapsto> S ''p1'', ''type'' \<mapsto> S ''PIPELINE#pl1#latest'', ''deleted'' \<mapsto> BOOL False,
       ''status'' \<mapsto> M [(''status'', S ''Active'')]],
      [''id'' \<mapsto> S ''p1'', ''type'' \<mapsto> S ''PIPELINE#pl1#100'', ''deleted'' \<mapsto> BOOL False,
       ''status'' \<mapsto> S ''RUNNING'']]"

subsection \<open>Pages of a listing\<close>

text \<open>
  The records that a listing counts, read off the table: the items of the index partition
  that satisfy the listing's filter, by creation time, descending unless the order is
  \<open>asc\<close>.
\<close>

definition notDeleted :: "item \<Rightarrow> bool" where
  "notDeleted it = (it ''deleted'' = Some (BOOL False))"

definition liveRecords :: "string \<Rightarrow> (item \<Rightarrow> bool) \<Rightarrow> string \<Rightarrow> table \<Rightarrow> item list" where
  "liveRecords prefix live order tb =
     (let found = sort_key timeOf (filter (\<lambda>it. indexed prefix it \<and> live it) tb)
      in if order = ''asc'' then found else rev found)"

text \<open>
  Page \<open>n\<close> of a list, pages counted from 1; the number of the last page; the page that is
  served for a requested page number of at least 1; and what a paginated listing of a
  non-empty list \<open>full\<close> returns: the number of all records and the served page, which is
  not empty and is the last page when the requested number is at or beyond it.
\<close>

definition pageOf :: "'a list \<Rightarrow> int \<Rightarrow> int \<Rightarrow> 'a list" where
  "pageOf xs pageSize n = take (nat pageSize) (drop (nat (pageSize * (n - 1))) xs)"

definition lastPage :: "'a list \<Rightarrow> int \<Rightarrow> int" where
  "lastPage xs pageSize = ceilDiv (int (length xs)) pageSize"

fun atLeastOne :: "number \<Rightarrow> bool" where
  "atLeastOne (Num n) = (1 \<le> n)"
| "atLeastOne PosInf = True"
| "atLeastOne NegInf = False"
| "atLeastOne NaN = False"

fun servedPage :: "int \<Rightarrow> number \<Rightarrow> int" where
  "servedPage final (Num n) = min final n"
| "servedPage final x = final"

definition clampedPage :: "item list \<Rightarrow> itemList \<Rightarrow> int \<Rightarrow> number \<Rightarrow> bool" where
  "clampedPage full r pageSize pageNumber =
     (full \<noteq> [] \<longrightarrow>
        totalCount r = int (length full)
      \<and> items r = pageOf full pageSize (servedPage (lastPage full pageSize) pageNumber)
      \<and> items r \<noteq> []
      \<and> (servedPage (lastPage full pageSize) pageNumber = lastPage full pageSize \<longrightarrow>
           items r = drop (nat (pageSize * (lastPage full pageSize - 1))) full))"

text \<open>
  The built-in plugins of a dictionary entry whose \<open>data\<close> is an array of objects, as
  \<open>listPlugin\<close> lists them.
\<close>

definition builtInsOf ::
  "(string \<Rightarrow> bool) \<Rightarrow> (attr option \<Rightarrow> attr) \<Rightarrow> string \<Rightarrow> (string \<times> attr) list list \<Rightarrow> item list" where
  "builtInsOf isEmpty unaryPlus pluginType entries =
     filter (\<lambda>p. isEmpty pluginType \<or> p ''pluginType'' = Some (S pluginType))
       (map (\<lambda>e. convertBuiltIn unaryPlus (map_of e)) entries)"

text \<open>Four pipelines of one project, one of them soft-deleted, in the order they are stored.\<close>

definition exPipe1 :: item where
  "exPipe1 = [''id'' \<mapsto> S ''p1'', ''type'' \<mapsto> S ''PIPELINE#a#latest'', ''prefix'' \<mapsto> S ''PIPELINE'',
     ''versionTag'' \<mapsto> S ''latest'', ''createAt'' \<mapsto> N 1, ''deleted'' \<mapsto> BOOL False]"

definition exPipe2 :: item where
  "exPipe2 = [''id'' \<mapsto> S ''p1'', ''type'' \<mapsto> S ''PIPELINE#b#latest'', ''prefix'' \<mapsto> S ''PIPELINE'',
     ''versionTag'' \<mapsto> S ''latest'', ''createAt'' \<mapsto> N 2, ''deleted'' \<mapsto> BOOL False]"

definition exPipe3 :: item where
  "exPipe3 = [''id'' \<mapsto> S ''p1'', ''type'' \<mapsto> S ''PIPELINE#c#latest'', ''prefix'' \<mapsto> S ''PIPELINE'',
     ''versionTag'' \<mapsto> S ''latest'', ''createAt'' \<mapsto> N 3, ''deleted'' \<mapsto> BOOL False]"

definition exPipeGone :: item where
  "exPipeGone = [''id'' \<mapsto> S ''p1'', ''type'' \<mapsto> S ''PIPELINE#d#latest'', ''prefix'' \<mapsto> S ''PIPELINE'',
     ''versionTag'' \<mapsto> S ''latest'', ''createAt'' \<mapsto> N 4, ''deleted'' \<mapsto> BOOL True]"

definition exPipelines :: table where
  "exPipelines = [exPipe2, exPipeGone, exPipe1, exPipe3]"

text \<open>
  The instances of \<open>isEmpty\<close> and of the unary plus that the examples use: \<open>isEmpty\<close> of a
  string and of a list, and \<open>+v\<close> on a number, \<open>NaN\<close> (here \<open>NULL\<close>) on anything else.
\<close>

definition emptyString :: "string \<Rightarrow> bool" where
  "emptyString s = (s = [])"

definition emptyList :: "item list \<Rightarrow> bool" where
  "emptyList xs = (xs = [])"

definition plusOnNumbers :: "attr option \<Rightarrow> attr" where
  "plusOnNumbers v = (case v of Some (N n) \<Rightarrow> N n | _ \<Rightarrow> NULL)"

subsection \<open>Soft-deleted records\<close>

text \<open>
  A dictionary whose one built-in plugin carries \<open>deleted: 'true'\<close>, and a table with a
  soft-deleted project, application and plugin.
\<close>

definition exBuiltInEntry :: "(string \<times> attr) list" where
  "exBuiltInEntry =
     [(''id'', S ''BUILDIN-1''), (''pluginType'', S ''Transform''), (''bindCount'', N 0),
      (''createAt'', N 1), (''updateAt'', N 1), (''builtIn'', S ''true''),
      (''deleted'', S ''true'')]"

definition exDictionary :: "item list" where
  "exDictionary = [[''name'' \<mapsto> S ''BuildInPlugins'', ''data'' \<mapsto> L [M exBuiltInEntry]]]"

definition exBuiltIn :: item where
  "exBuiltIn = convertBuiltIn plusOnNumbers (map_of exBuiltInEntry)"

definition exGoneProject :: item where
  "exGoneProject = [''id'' \<mapsto> S ''p9'', ''type'' \<mapsto> S ''METADATA#p9'', ''prefix'' \<mapsto> S ''METADATA'',
     ''createAt'' \<mapsto> N 1, ''deleted'' \<mapsto> BOOL True]"

definition exGoneApp :: item where
  "exGoneApp = [''id'' \<mapsto> S ''p9'', ''type'' \<mapsto> S ''APP#a9'', ''prefix'' \<mapsto> S ''APP'',
     ''projectId'' \<mapsto> S ''p9'', ''createAt'' \<mapsto> N 2, ''deleted'' \<mapsto> BOOL True]"

definition exGonePlugin :: item where
  "exGonePlugin = [''id'' \<mapsto> S ''plug9'', ''type'' \<mapsto> S ''PLUGIN#plug9'', ''prefix'' \<mapsto> S ''PLUGIN'',
     ''createAt'' \<mapsto> N 3, ''bindCount'' \<mapsto> N 0, ''deleted'' \<mapsto> BOOL True]"

definition exGoneTable :: table where
  "exGoneTable = [exGoneProject, exGoneApp, exGonePlugin]"

subsection \<open>Reads of a pipeline\<close>

text \<open>
  What the statements about the reads expect of one pipeline: the calls, in order, and
  the pipeline that is returned.  A pipeline without a truthy \<open>executionArn\<close> causes no
  call and is returned as it is.
\<close>

definition expectedCalls :: "(attr \<Rightarrow> string option) \<Rightarrow> item \<Rightarrow> call list" where
  "expectedCalls getExecutionStatus p =
     (case p ''executionArn'' of
        None \<Rightarrow> []
      | Some arn \<Rightarrow>
          if truthy (Some arn) then
            GetExecutionStatus arn #
              (if p ''status'' \<noteq> Some (S (liveStatus getExecutionStatus arn))
               then [UpdatePipelineStatus (p(''status'' \<mapsto> S (liveStatus getExecutionStatus arn)))
                       (liveStatus getExecutionStatus arn)]
               else [])
          else [])"

definition reconciled :: "(attr \<Rightarrow> string option) \<Rightarrow> item \<Rightarrow> item" where
  "reconciled getExecutionStatus p =
     (case p ''executionArn'' of
        None \<Rightarrow> p
      | Some arn \<Rightarrow>
          if truthy (Some arn) then p(''status'' \<mapsto> S (liveStatus getExecutionStatus arn)) else p)"

text \<open>
  The table that the reads of a list of pipelines leave: a pipeline needs a write when
  its \<open>executionArn\<close> is truthy and its status is not the reported one; the writes are made
  in the order of the list, each on the table the one before has left; and no write
  raises.
\<close>

definition statusReported :: "(attr \<Rightarrow> string option) \<Rightarrow> item \<Rightarrow> string" where
  "statusReported getExecutionStatus p =
     (case p ''executionArn'' of None \<Rightarrow> [] | Some arn \<Rightarrow> liveStatus getExecutionStatus arn)"

definition needsWrite :: "(attr \<Rightarrow> string option) \<Rightarrow> item \<Rightarrow> bool" where
  "needsWrite getExecutionStatus p =
     (truthy (p ''executionArn'')
      \<and> p ''status'' \<noteq> Some (S (statusReported getExecutionStatus p)))"

fun writeBacks ::
  "(attr \<Rightarrow> string option) \<Rightarrow> (item \<Rightarrow> string \<Rightarrow> table \<Rightarrow> error option \<times> table)
     \<Rightarrow> item list \<Rightarrow> table \<Rightarrow> table" where
  "writeBacks getExecutionStatus updatePipelineStatus [] tb = tb"
| "writeBacks getExecutionStatus updatePipelineStatus (p # ps) tb =
     writeBacks getExecutionStatus updatePipelineStatus ps
       (if needsWrite getExecutionStatus p
        then snd (updatePipelineStatus (p(''status'' \<mapsto> S (statusReported getExecutionStatus p)))
                    (statusReported getExecutionStatus p) tb)
        else tb)"

fun noWriteRaises ::
  "(attr \<Rightarrow> string option) \<Rightarrow> (item \<Rightarrow> string \<Rightarrow> table \<Rightarrow> error option \<times> table)
     \<Rightarrow> item list \<Rightarrow> table \<Rightarrow> bool" where
  "noWriteRaises getExecutionStatus updatePipelineStatus [] tb = True"
| "noWriteRaises getExecutionStatus updatePipelineStatus (p # ps) tb =
     (if needsWrite getExecutionStatus p
      then fst (updatePipelineStatus (p(''status'' \<mapsto> S (statusReported getExecutionStatus p)))
                  (statusReported getExecutionStatus p) tb) = None
         \<and> noWriteRaises getExecutionStatus updatePipelineStatus ps
              (snd (updatePipelineStatus (p(''status'' \<mapsto> S (statusReported getExecutionStatus p)))
                      (statusReported getExecutionStatus p) tb))
      else noWriteRaises getExecutionStatus updatePipelineStatus ps tb)"

text \<open>The calls that start something in the engine.\<close>

definition engineWrite :: "call \<Rightarrow> bool" where
  "engineWrite c = (case c of GenerateWorkflow p \<Rightarrow> True | Execute w n \<Rightarrow> True | _ \<Rightarrow> False)"

text \<open>
  Modelled from the spec: \<open>updatePipelineStatus\<close> is called by the service and is absent
  from the store's source; the theorems take it as a parameter.  The examples instantiate
  it with this update, which writes the status back: it sets \<open>status\<close> on the item that
  \<open>updatePipelineAtCurrentVersion\<close> addresses, \<open>pipeline.projectId\<close> and \<open>pipeline.type\<close>.
\<close>

definition writeStatus :: "item \<Rightarrow> string \<Rightarrow> table \<Rightarrow> error option \<times> table" where
  "writeStatus pipeline status tb =
     (case (pipeline ''projectId'', pipeline ''type'') of
        (Some (S i), Some (S t)) \<Rightarrow> sendWrite (Update i t NoCond [''status'' \<mapsto> S status]) tb
      | _ \<Rightarrow> (Some ValidationException, tb))"

text \<open>
  Three pipelines of one project: the example record, which is stored as running; one
  stored as failed; and one that was never executed.
\<close>

definition exSecond :: item where
  "exSecond =
     exStored(''type'' \<mapsto> S ''PIPELINE#pl2#latest'', ''pipelineId'' \<mapsto> S ''pl2'',
       ''executionArn'' \<mapsto> S ''arn:2'', ''status'' \<mapsto> S ''FAILED'', ''createAt'' \<mapsto> N 200)"

definition exIdle :: item where
  "exIdle =
     exStored(''type'' \<mapsto> S ''PIPELINE#pl3#latest'', ''pipelineId'' \<mapsto> S ''pl3'',
       ''executionArn'' \<mapsto> S [], ''createAt'' \<mapsto> N 300)"

definition exFleet :: table where
  "exFleet = [exStored, exSecond, exIdle]"

text \<open>
  Three engines: one that knows execution \<open>arn:1\<close> as succeeded and no other, one that
  reports every execution as running, and one that knows no execution.
\<close>

definition exEngine :: "attr \<Rightarrow> string option" where
  "exEngine arn = (if arn = S ''arn:1'' then Some ''SUCCEEDED'' else None)"

definition exRunningEngine :: "attr \<Rightarrow> string option" where
  "exRunningEngine arn = Some ''RUNNING''"

definition exLostEngine :: "attr \<Rightarrow> string option" where
  "exLostEngine arn = None"

section \<open>Properties of the table commands\<close>

lemma buildItem_lookup:
  "buildItem kvs = Some m \<Longrightarrow> m k = (case map_of kvs k of None \<Rightarrow> None | Some v \<Rightarrow> v)"
  by (induction kvs arbitrary: m rule: buildItem.induct) (auto split: option.splits)

lemma buildItem_defined: "buildItem kvs = Some m \<Longrightarrow> (k, v) \<in> set kvs \<Longrightarrow> v \<noteq> None"
  by (induction kvs arbitrary: m rule: buildItem.induct) (auto split: option.splits)

lemma buildItem_Some_iff: "(buildItem kvs \<noteq> None) = list_all (\<lambda>kv. snd kv \<noteq> None) kvs"
  by (induction kvs rule: buildItem.induct) (auto split: option.splits)

lemma strField_Some: "strField obj k = Some v \<Longrightarrow> obj k = Some v \<and> (\<exists>s. v = S s)"
  by (auto simp: strField_def split: option.splits attr.splits)

lemma hasKey_unique: "hasKey i t x \<Longrightarrow> hasKey i' t' x \<Longrightarrow> i' = i \<and> t' = t"
  by (simp add: hasKey_def)

lemma hasKey_sets:
  "sets ''id'' = None \<Longrightarrow> sets ''type'' = None \<Longrightarrow> hasKey i t (x ++ sets) = hasKey i t x"
  by (simp add: hasKey_def map_add_def)

lemma getItem_hasKey: "getItem tb i t = Some it \<Longrightarrow> hasKey i t it"
  by (auto simp: getItem_def find_Some_iff)

lemma getItem_None_iff: "getItem tb i t = None \<longleftrightarrow> (\<forall>x \<in> set tb. \<not> hasKey i t x)"
  by (auto simp: getItem_def find_None_iff)

lemma getItem_append:
  "getItem (tb @ [x]) i t =
     (case getItem tb i t of Some y \<Rightarrow> Some y | None \<Rightarrow> if hasKey i t x then Some x else None)"
  by (induction tb) (auto simp: getItem_def)

lemma getItem_map_other:
  assumes "\<And>x. hasKey i t (f x) = hasKey i t x" "\<And>x. hasKey i t x \<Longrightarrow> f x = x"
  shows "getItem (map f tb) i t = getItem tb i t"
  using assms by (induction tb) (auto simp: getItem_def)

lemma getItem_map_same:
  assumes "\<And>x. hasKey i t (f x) = hasKey i t x"
  shows "getItem (map f tb) i t = map_option f (getItem tb i t)"
  using assms by (induction tb) (auto simp: getItem_def)

text \<open>After an Update the table reads like a map that was updated at one key.\<close>

lemma getItem_writeUpdate:
  assumes "sets ''id'' = None" "sets ''type'' = None"
  shows "getItem (writeUpdate i t sets tb) i' t' =
     (if i' = i \<and> t' = t
      then Some ((case getItem tb i t of None \<Rightarrow> [''id'' \<mapsto> S i, ''type'' \<mapsto> S t] | Some x \<Rightarrow> x)
                 ++ sets)
      else getItem tb i' t')"
proof (cases "getItem tb i t")
  case None
  have k: "hasKey i t ([''id'' \<mapsto> S i, ''type'' \<mapsto> S t] ++ sets)"
    using assms by (simp add: hasKey_sets) (simp add: hasKey_def)
  show ?thesis
    using None k
    by (auto simp: writeUpdate_def getItem_append dest: hasKey_unique split: option.splits)
next
  case (Some x)
  let ?f = "\<lambda>x. if hasKey i t x then x ++ sets else x"
  have p: "\<And>j u x. hasKey j u (?f x) = hasKey j u x"
    using assms by (simp add: hasKey_sets)
  show ?thesis
  proof (cases "i' = i \<and> t' = t")
    case True
    have "getItem (map ?f tb) i t = map_option ?f (getItem tb i t)"
      by (rule getItem_map_same) (rule p)
    then show ?thesis using Some True getItem_hasKey[OF Some]
      by (simp add: writeUpdate_def)
  next
    case False
    have "getItem (map ?f tb) i' t' = getItem tb i' t'"
      by (rule getItem_map_other) (use False p in \<open>auto dest: hasKey_unique\<close>)
    then show ?thesis using Some False by (auto simp: writeUpdate_def)
  qed
qed

text \<open>After a Put likewise.\<close>

lemma getItem_writePut:
  assumes "hasKey i t it"
  shows "getItem (writePut i t it tb) i' t' =
     (if i' = i \<and> t' = t then Some it else getItem tb i' t')"
proof (cases "getItem tb i t")
  case None
  then show ?thesis using assms
    by (auto simp: writePut_def getItem_append dest: hasKey_unique split: option.splits)
next
  case (Some x)
  let ?f = "\<lambda>x. if hasKey i t x then it else x"
  show ?thesis
  proof (cases "i' = i \<and> t' = t")
    case True
    have "getItem (map ?f tb) i t = map_option ?f (getItem tb i t)"
      by (rule getItem_map_same) (use assms in auto)
    then show ?thesis using Some True getItem_hasKey[OF Some]
      by (simp add: writePut_def)
  next
    case False
    have "getItem (map ?f tb) i' t' = getItem tb i' t'"
      using False assms by (induction tb) (auto simp: getItem_def dest: hasKey_unique)
    then show ?thesis using Some False by (auto simp: writePut_def)
  qed
qed

lemma transact_two:
  assumes "fst (transactWriteItems [a, b] tb) = None"
  shows "opKey a \<noteq> None" "opKey b \<noteq> None" "opKey a \<noteq> opKey b"
        "condPasses tb a" "condPasses tb b"
        "snd (transactWriteItems [a, b] tb) = applyOp (applyOp tb a) b"
  using assms by (auto simp: transactWriteItems_def split: if_splits)

lemma transact_unchanged:
  "fst (transactWriteItems ops tb) \<noteq> None \<Longrightarrow> snd (transactWriteItems ops tb) = tb"
  by (auto simp: transactWriteItems_def split: if_splits)

section \<open>Properties of the pipeline update\<close>

lemma snapshotItem_typed:
  assumes "snapshotItem p c now = Some snap"
  shows "\<exists>ci cpl cv. c ''id'' = Some (S ci) \<and> c ''pipelineId'' = Some (S cpl) \<and>
           c ''version'' = Some (S cv) \<and> hasKey ci (pipelineType cpl cv) snap"
proof -
  note b = assms[unfolded snapshotItem_def snapshotMembers_def]
  have 1: "strField c ''id'' \<noteq> None"
    by (rule buildItem_defined[OF b, of "''id''"]) simp
  have 2: "strField c ''pipelineId'' \<noteq> None"
    by (rule buildItem_defined[OF b, of "''pipelineId''"]) simp
  have 3: "strField c ''version'' \<noteq> None"
    by (rule buildItem_defined[OF b, of "''version''"]) simp
  from 1 2 3 obtain ci cpl cv where
    c: "c ''id'' = Some (S ci)" "c ''pipelineId'' = Some (S cpl)" "c ''version'' = Some (S cv)"
    by (auto dest!: strField_Some)
  have "snap ''id'' = Some (S ci)" "snap ''type'' = Some (S (pipelineType cpl cv))"
    using c by (simp_all add: buildItem_lookup[OF b] strField_def)
  then show ?thesis using c by (simp add: hasKey_def)
qed

lemma latestSets_keys:
  assumes "latestSets p c now = Some sets"
  shows "sets ''id'' = None" "sets ''type'' = None"
  by (simp_all add: buildItem_lookup[OF assms[unfolded latestSets_def latestMembers_def]])

lemma updatePipelineOps_Some:
  assumes "updatePipelineOps p c now = Some ops"
  shows "\<exists>snap i pl v sets. snapshotItem p c now = Some snap \<and> p ''id'' = Some (S i) \<and>
           p ''pipelineId'' = Some (S pl) \<and> conditionVersionValue p c = Some v \<and>
           latestSets p c now = Some sets \<and>
           ops = [Put snap (AttributeNotExists ''type''),
                  Update i (pipelineType pl ''latest'') (Equals ''version'' v) sets]"
  using assms
  by (auto simp: updatePipelineOps_def split: option.splits attr.splits)

text \<open>What a successful update has checked and written.\<close>

lemma updatePipeline_success:
  assumes ok: "fst (updatePipeline p c now tb) = None"
  obtains snap i pl v sets ci cpl cv lat where
    "snapshotItem p c now = Some snap" "latestSets p c now = Some sets"
    "p ''id'' = Some (S i)" "p ''pipelineId'' = Some (S pl)" "p ''version'' = Some v"
    "c ''id'' = Some (S ci)" "c ''pipelineId'' = Some (S cpl)" "c ''version'' = Some (S cv)"
    "getItem tb i (pipelineType pl ''latest'') = Some lat" "lat ''version'' = Some v"
    "getItem tb ci (pipelineType cpl cv) = None"
    "getItem (snd (updatePipeline p c now tb)) ci (pipelineType cpl cv) = Some snap"
    "getItem (snd (updatePipeline p c now tb)) i (pipelineType pl ''latest'') = Some (lat ++ sets)"
proof -
  from ok obtain ops where ops: "updatePipelineOps p c now = Some ops"
    by (auto simp: updatePipeline_def split: option.splits)
  from updatePipelineOps_Some[OF ops] obtain snap i pl v sets where
    s: "snapshotItem p c now = Some snap" "p ''id'' = Some (S i)" "p ''pipelineId'' = Some (S pl)"
       "conditionVersionValue p c = Some v" "latestSets p c now = Some sets"
       "ops = [Put snap (AttributeNotExists ''type''),
               Update i (pipelineType pl ''latest'') (Equals ''version'' v) sets]"
    by blast
  from snapshotItem_typed[OF s(1)] obtain ci cpl cv where
    c: "c ''id'' = Some (S ci)" "c ''pipelineId'' = Some (S cpl)" "c ''version'' = Some (S cv)"
       "hasKey ci (pipelineType cpl cv) snap"
    by blast
  note k = latestSets_keys[OF s(5)]
  let ?t = "pipelineType pl ''latest''" and ?ct = "pipelineType cpl cv"
  let ?a = "Put snap (AttributeNotExists ''type'')"
  let ?b = "Update i ?t (Equals ''version'' v) sets"
  have r: "updatePipeline p c now tb = transactWriteItems [?a, ?b] tb"
    using ops s(6) by (simp add: updatePipeline_def)
  have ka: "opKey ?a = Some (ci, ?ct)" using c(4) by (simp add: hasKey_def)
  have kb: "opKey ?b = Some (i, ?t)" using k by simp
  note t = transact_two[OF ok[unfolded r]]
  have ne: "\<not> (ci = i \<and> ?ct = ?t)" using t(3) ka kb by auto
  have new: "getItem tb ci ?ct = None"
  proof (cases "getItem tb ci ?ct")
    case (Some x)
    then have "x ''type'' \<noteq> None" using getItem_hasKey[OF Some] by (simp add: hasKey_def)
    then show ?thesis using t(4) ka Some by (simp add: condPasses_def existing_def)
  qed simp
  obtain lat where lat: "getItem tb i ?t = Some lat" "lat ''version'' = Some v"
    using t(5) kb by (auto simp: condPasses_def existing_def split: option.splits)
  have res: "snd (updatePipeline p c now tb) = writeUpdate i ?t sets (writePut ci ?ct snap tb)"
    using t(6) ka by (simp add: r)
  have g1: "getItem (snd (updatePipeline p c now tb)) ci ?ct = Some snap"
    using ne by (auto simp: res getItem_writeUpdate[OF k] getItem_writePut[OF c(4)])
  have "getItem (writePut ci ?ct snap tb) i ?t = Some lat"
    using ne lat by (auto simp: getItem_writePut[OF c(4)])
  then have g2: "getItem (snd (updatePipeline p c now tb)) i ?t = Some (lat ++ sets)"
    by (simp add: res getItem_writeUpdate[OF k])
  have pv: "p ''version'' = Some v"
    using s(4) by (auto simp: conditionVersionValue_def dest: strField_Some)
  show ?thesis
    by (rule that[OF s(1) s(5) s(2) s(3) pv c(1) c(2) c(3) lat new g1 g2])
qed

lemma updatePipeline_failure_unchanged:
  "fst (updatePipeline p c now tb) \<noteq> None \<Longrightarrow> snd (updatePipeline p c now tb) = tb"
  by (auto simp: updatePipeline_def transact_unchanged split: option.splits)

text \<open>The example request succeeds on a table that holds the example record.\<close>

lemma exStored_at:
  "exStored ''id'' = Some (S ''proj1'')"
  "exStored ''type'' = Some (S ''PIPELINE#pl1#latest'')"
  "exStored ''prefix'' = Some (S ''PIPELINE'')"
  "exStored ''pipelineId'' = Some (S ''pl1'')"
  "exStored ''projectId'' = Some (S ''proj1'')"
  "exStored ''name'' = Some (S ''clicks'')"
  "exStored ''description'' = Some (S ''first'')"
  "exStored ''region'' = Some (S ''us-east-1'')"
  "exStored ''dataCollectionSDK'' = Some (S ''sdk'')"
  "exStored ''status'' = Some (S ''RUNNING'')"
  "exStored ''tags'' = Some (L [])"
  "exStored ''network'' = Some (M [])"
  "exStored ''bucket'' = Some (M [])"
  "exStored ''ingestionServer'' = Some (M [])"
  "exStored ''etl'' = Some (M [])"
  "exStored ''dataAnalytics'' = Some (M [])"
  "exStored ''report'' = Some (M [])"
  "exStored ''workflow'' = Some (M [])"
  "exStored ''executionName'' = Some (S ''main-1'')"
  "exStored ''executionArn'' = Some (S ''arn:1'')"
  "exStored ''version'' = Some (S ''100'')"
  "exStored ''versionTag'' = Some (S ''latest'')"
  "exStored ''createAt'' = Some (N 100)"
  "exStored ''updateAt'' = Some (N 100)"
  "exStored ''operator'' = Some (S ''alice'')"
  "exStored ''deleted'' = Some (BOOL False)"
  by (simp_all add: exStored_def)

lemma exRequest_at:
  "exRequest ''id'' = Some (S ''proj1'')"
  "exRequest ''type'' = Some (S ''PIPELINE#pl1#latest'')"
  "exRequest ''prefix'' = Some (S ''PIPELINE'')"
  "exRequest ''pipelineId'' = Some (S ''pl1'')"
  "exRequest ''projectId'' = Some (S ''proj1'')"
  "exRequest ''name'' = Some (S ''clicks2'')"
  "exRequest ''description'' = Some (S ''first'')"
  "exRequest ''region'' = Some (S ''us-east-1'')"
  "exRequest ''dataCollectionSDK'' = Some (S ''sdk'')"
  "exRequest ''status'' = Some (S ''RUNNING'')"
  "exRequest ''tags'' = Some (L [])"
  "exRequest ''network'' = Some (M [])"
  "exRequest ''bucket'' = Some (M [])"
  "exRequest ''ingestionServer'' = Some (M [])"
  "exRequest ''etl'' = Some (M [])"
  "exRequest ''dataAnalytics'' = Some (M [])"
  "exRequest ''report'' = Some (M [])"
  "exRequest ''workflow'' = Some (M [])"
  "exRequest ''executionName'' = Some (S ''main-1'')"
  "exRequest ''executionArn'' = Some (S ''arn:other'')"
  "exRequest ''version'' = Some (S ''100'')"
  "exRequest ''versionTag'' = Some (S ''latest'')"
  "exRequest ''createAt'' = Some (N 100)"
  "exRequest ''updateAt'' = Some (N 100)"
  "exRequest ''operator'' = Some (S ''bob'')"
  "exRequest ''deleted'' = Some (BOOL False)"
  by (simp_all add: exRequest_def exStored_at)

lemma updatePipeline_succeeds:
  assumes "snapshotItem p c now \<noteq> None" "latestSets p c now \<noteq> None"
    "p ''id'' = Some (S i)" "p ''pipelineId'' = Some (S pl)" "p ''version'' = Some (S v)"
    "c ''id'' = Some (S ci)" "c ''pipelineId'' = Some (S cpl)" "c ''version'' = Some (S cv)"
    "getItem tb ci (pipelineType cpl cv) = None"
    "getItem tb i (pipelineType pl ''latest'') = Some lat" "lat ''version'' = Some (S v)"
    "\<not> (ci = i \<and> pipelineType cpl cv = pipelineType pl ''latest'')"
  shows "fst (updatePipeline p c now tb) = None"
proof -
  from assms(1,2) obtain snap sets where
    s: "snapshotItem p c now = Some snap" "latestSets p c now = Some sets" by auto
  from snapshotItem_typed[OF s(1)] assms(6-8) have k: "hasKey ci (pipelineType cpl cv) snap"
    by auto
  note ks = latestSets_keys[OF s(2)]
  have ops: "updatePipelineOps p c now =
      Some [Put snap (AttributeNotExists ''type''),
            Update i (pipelineType pl ''latest'') (Equals ''version'' (S v)) sets]"
    using s assms(3-5) by (simp add: updatePipelineOps_def conditionVersionValue_def strField_def)
  have ka: "opKey (Put snap (AttributeNotExists ''type'')) = Some (ci, pipelineType cpl cv)"
    using k by (simp add: hasKey_def)
  show ?thesis
    using assms(9-12) ks
    by (simp add: updatePipeline_def ops transactWriteItems_def ka condPasses_def existing_def
        del: opKey.simps(1))
qed

lemma ex_update_ok: "fst (updatePipeline exRequest exStored 200 [exStored]) = None"
proof (rule updatePipeline_succeeds)
  show "snapshotItem exRequest exStored 200 \<noteq> None"
    unfolding snapshotItem_def snapshotMembers_def buildItem_Some_iff
    by (simp add: exRequest_at exStored_at strField_def numField_def boolField_def
        strOrEmpty_def workflowOrEmpty_def marshall_def)
  show "latestSets exRequest exStored 200 \<noteq> None"
    unfolding latestSets_def latestMembers_def buildItem_Some_iff
    by (simp add: exRequest_at exStored_at strField_def strOrEmpty_def workflowOrEmpty_def
        marshall_def)
  show "getItem [exStored] ''proj1'' (pipelineType ''pl1'' ''100'') = None"
    by (simp add: getItem_def hasKey_def exStored_at pipelineType_def)
  show "getItem [exStored] ''proj1'' (pipelineType ''pl1'' ''latest'') = Some exStored"
    by (simp add: getItem_def hasKey_def exStored_at pipelineType_def)
  show "\<not> (''proj1'' = ''proj1'' \<and> pipelineType ''pl1'' ''100'' = pipelineType ''pl1'' ''latest'')"
    by (simp add: pipelineType_def)
qed (simp_all add: exRequest_at exStored_at)

lemma ball_Cons: "(\<forall>k \<in> set (x # xs). P k) = (P x \<and> (\<forall>k \<in> set xs. P k))"
  by simp

lemma ball_Nil: "(\<forall>k \<in> set []. P k) = True"
  by simp

lemma strField_eq: "strField obj k \<noteq> None \<Longrightarrow> strField obj k = obj k"
  by (auto simp: strField_def split: option.splits attr.splits)

lemma boolField_eq: "boolField obj k \<noteq> None \<Longrightarrow> boolField obj k = obj k"
  by (auto simp: boolField_def split: option.splits attr.splits)

lemma numField_number: "obj k = Some (N n) \<Longrightarrow> numField obj k = Some (N n)"
  by (simp add: numField_def)

lemma workflowOrEmpty_eq:
  "workflowOrEmpty obj =
     (case obj ''workflow'' of None \<Rightarrow> Some (M []) | Some w \<Rightarrow> Some (convertToAttr w))"
  by (simp add: workflowOrEmpty_def marshall_def split: option.splits)

lemma blankFree_convert: "blankFree v \<Longrightarrow> convertToAttr v = v"
proof (induction v)
  case (L xs)
  then show ?case by (auto simp: list_all_iff intro!: map_idI)
next
  case (M kvs)
  then have "\<forall>kv \<in> set kvs. convertToAttr (snd kv) = snd kv"
    by (auto simp: list_all_iff)
  then have "map (map_prod id convertToAttr) kvs = kvs"
    by (intro map_idI) (auto simp: map_prod_def split: prod.splits)
  then show ?case by simp
qed simp_all

lemma buildItem_member:
  assumes "buildItem kvs = Some m" "map_of kvs k = Some v"
  shows "m k = v" "v \<noteq> None"
  using assms buildItem_lookup[OF assms(1), of k] buildItem_defined[OF assms(1) map_of_SomeD[OF assms(2)]]
  by simp_all

lemma buildItem_absent:
  assumes "buildItem kvs = Some m" "map_of kvs k = None"
  shows "m k = None"
  using assms buildItem_lookup[OF assms(1), of k] by simp

lemma updatePipeline_snapshot_stored:
  assumes "fst (updatePipeline p c now tb) = None"
  shows "\<exists>snap. snapshotItem p c now = Some snap \<and> snapshotRecord c tb = None
           \<and> snapshotRecord c (snd (updatePipeline p c now tb)) = Some snap"
proof -
  from updatePipeline_success[OF assms] obtain snap ci cpl cv where
    "snapshotItem p c now = Some snap"
    "c ''id'' = Some (S ci)" "c ''pipelineId'' = Some (S cpl)" "c ''version'' = Some (S cv)"
    "getItem tb ci (pipelineType cpl cv) = None"
    "getItem (snd (updatePipeline p c now tb)) ci (pipelineType cpl cv) = Some snap"
    by metis
  then show ?thesis by (simp add: snapshotRecord_def)
qed

lemma updatePipeline_latest_stored:
  assumes "fst (updatePipeline p c now tb) = None"
  shows "\<exists>lat sets. latestSets p c now = Some sets \<and> latestRecord p tb = Some lat
           \<and> lat ''version'' = p ''version''
           \<and> latestRecord p (snd (updatePipeline p c now tb)) = Some (lat ++ sets)"
proof -
  from updatePipeline_success[OF assms] obtain i pl v sets lat where
    "latestSets p c now = Some sets"
    "p ''id'' = Some (S i)" "p ''pipelineId'' = Some (S pl)" "p ''version'' = Some v"
    "getItem tb i (pipelineType pl ''latest'') = Some lat" "lat ''version'' = Some v"
    "getItem (snd (updatePipeline p c now tb)) i (pipelineType pl ''latest'') = Some (lat ++ sets)"
    by metis
  then show ?thesis by (simp add: latestRecord_def)
qed

text \<open>The attributes of the two records after a successful update, member by member.\<close>

lemma snapshot_attr:
  assumes "fst (updatePipeline p c now tb) = None" "map_of (snapshotMembers p c now) k = Some v"
  shows "attrOf (snapshotRecord c (snd (updatePipeline p c now tb))) k = v" "v \<noteq> None"
proof -
  from updatePipeline_snapshot_stored[OF assms(1)] obtain snap where
    s: "snapshotItem p c now = Some snap"
       "snapshotRecord c (snd (updatePipeline p c now tb)) = Some snap"
    by blast
  note m = buildItem_member[OF s(1)[unfolded snapshotItem_def] assms(2)]
  show "attrOf (snapshotRecord c (snd (updatePipeline p c now tb))) k = v"
    using m(1) by (simp add: s(2) attrOf_def)
  show "v \<noteq> None" by (rule m(2))
qed

lemma snapshot_members: "map fst (snapshotMembers p c now) = snapshotFields"
  by (simp add: snapshotMembers_def snapshotFields_def)

lemma latest_members: "map fst (latestMembers p c now) = setFields"
  by (simp add: latestMembers_def setFields_def)

lemma snapshot_outside:
  assumes "fst (updatePipeline p c now tb) = None" "k \<notin> set snapshotFields"
  shows "attrOf (snapshotRecord c (snd (updatePipeline p c now tb))) k = None"
proof -
  from updatePipeline_snapshot_stored[OF assms(1)] obtain snap where
    s: "snapshotItem p c now = Some snap"
       "snapshotRecord c (snd (updatePipeline p c now tb)) = Some snap"
    by blast
  have "k \<notin> fst ` set (snapshotMembers p c now)"
    using assms(2) snapshot_members[of p c now] by (metis set_map)
  then have "map_of (snapshotMembers p c now) k = None"
    by (simp add: map_of_eq_None_iff)
  from buildItem_absent[OF s(1)[unfolded snapshotItem_def] this]
  show ?thesis by (simp add: s(2) attrOf_def)
qed

lemma latest_attr:
  assumes "fst (updatePipeline p c now tb) = None" "map_of (latestMembers p c now) k = Some v"
  shows "attrOf (latestRecord p (snd (updatePipeline p c now tb))) k = v" "v \<noteq> None"
proof -
  from updatePipeline_latest_stored[OF assms(1)] obtain lat sets where
    l: "latestSets p c now = Some sets"
       "latestRecord p (snd (updatePipeline p c now tb)) = Some (lat ++ sets)"
    by blast
  note m = buildItem_member[OF l(1)[unfolded latestSets_def] assms(2)]
  show "attrOf (latestRecord p (snd (updatePipeline p c now tb))) k = v"
    using m by (auto simp: l(2) attrOf_def map_add_def)
  show "v \<noteq> None" by (rule m(2))
qed

lemma latest_frame:
  assumes "fst (updatePipeline p c now tb) = None" "map_of (latestMembers p c now) k = None"
  shows "attrOf (latestRecord p (snd (updatePipeline p c now tb))) k = attrOf (latestRecord p tb) k"
proof -
  from updatePipeline_latest_stored[OF assms(1)] obtain lat sets where
    l: "latestSets p c now = Some sets" "latestRecord p tb = Some lat"
       "latestRecord p (snd (updatePipeline p c now tb)) = Some (lat ++ sets)"
    by blast
  note m = buildItem_absent[OF l(1)[unfolded latestSets_def] assms(2)]
  show ?thesis using m by (simp add: l(2,3) attrOf_def map_add_def)
qed

lemma latest_outside:
  assumes "fst (updatePipeline p c now tb) = None" "k \<notin> set setFields"
  shows "attrOf (latestRecord p (snd (updatePipeline p c now tb))) k = attrOf (latestRecord p tb) k"
proof -
  have "k \<notin> fst ` set (latestMembers p c now)"
    using assms(2) latest_members[of p c now] by (metis set_map)
  then have "map_of (latestMembers p c now) k = None"
    by (simp add: map_of_eq_None_iff)
  from latest_frame[OF assms(1) this] show ?thesis .
qed

lemma snapshot_copied:
  assumes "fst (updatePipeline p c now tb) = None"
    "map_of (snapshotMembers p c now) k = Some (strField c k)"
  shows "attrOf (snapshotRecord c (snd (updatePipeline p c now tb))) k = c k"
  using snapshot_attr[OF assms] strField_eq[of c k] by auto

lemma latest_replaced:
  assumes "fst (updatePipeline p c now tb) = None"
    "map_of (latestMembers p c now) k = Some (strField p k)"
  shows "attrOf (latestRecord p (snd (updatePipeline p c now tb))) k = p k"
  using latest_attr[OF assms] strField_eq[of p k] by auto

lemma latest_marshalled:
  assumes "fst (updatePipeline p c now tb) = None"
    "map_of (latestMembers p c now) k = Some (marshall p k)"
  shows "attrOf (latestRecord p (snd (updatePipeline p c now tb))) k
           = map_option convertToAttr (p k)"
  using latest_attr[OF assms] by (simp add: marshall_def)

lemma snapshot_marshalled:
  assumes "fst (updatePipeline p c now tb) = None"
    "map_of (snapshotMembers p c now) k = Some (marshall c k)"
  shows "attrOf (snapshotRecord c (snd (updatePipeline p c now tb))) k
           = map_option convertToAttr (c k)"
  using snapshot_attr[OF assms] by (simp add: marshall_def)

lemma snapshot_type:
  assumes "fst (updatePipeline p c now tb) = None"
  shows "\<exists>i v. c ''pipelineId'' = Some (S i) \<and> c ''version'' = Some (S v)
           \<and> attrOf (snapshotRecord c (snd (updatePipeline p c now tb))) ''type''
               = Some (S (pipelineType i v))"
  using snapshot_attr[OF assms, of "''type''"
      "case (c ''pipelineId'', c ''version'') of
         (Some (S p), Some (S v)) \<Rightarrow> Some (S (pipelineType p v)) | _ \<Rightarrow> None"]
  by (auto simp add: snapshotMembers_def split: option.splits attr.splits)

text \<open>
  Claim C1, as amended.  After a successful \<open>updatePipeline(pipeline, curPipeline)\<close> a record
  that did not exist before is stored under the sort key \<open>PIPELINE#<pipelineId>#<version>\<close> of
  \<open>curPipeline\<close>.  It carries \<open>curPipeline\<close>'s identifiers, name, description, region, SDK and
  version unchanged and the number of its creation time; its configuration members and
  its workflow in marshalled form, the workflow being the empty object when
  \<open>curPipeline\<close> has none; its execution name and handle, the empty string when it has
  none; \<open>curPipeline\<close>'s version as version tag; the clock reading as update time; the
  operator and the deletion flag of the new pipeline; and no other attribute.  The latest
  record carries the new pipeline's prefix, name, description, region and SDK, its
  configuration members and workflow in marshalled form, the execution name and handle
  of \<open>curPipeline\<close>, the clock reading as version and as update time, the version tag
  \<open>latest\<close> and the empty operator; every other attribute is as it was stored.  The
  marshalled form of a value replaces every empty string in it by NULL and changes
  nothing else.
\<close>

theorem updatePipeline_snapshot_and_latest:
  assumes ok: "fst (updatePipeline pipeline curPipeline now tb) = None"
  shows "snapshotRecord curPipeline tb = None
     \<and> snapshotRecord curPipeline (snd (updatePipeline pipeline curPipeline now tb)) \<noteq> None
     \<and> (\<forall>k \<in> set copiedFields.
          attrOf (snapshotRecord curPipeline (snd (updatePipeline pipeline curPipeline now tb))) k
            = curPipeline k)
     \<and> (\<exists>i v. curPipeline ''pipelineId'' = Some (S i) \<and> curPipeline ''version'' = Some (S v)
          \<and> attrOf (snapshotRecord curPipeline (snd (updatePipeline pipeline curPipeline now tb)))
               ''type'' = Some (S (pipelineType i v)))
     \<and> attrOf (snapshotRecord curPipeline (snd (updatePipeline pipeline curPipeline now tb)))
          ''createAt'' = numField curPipeline ''createAt''
     \<and> (\<forall>n. curPipeline ''createAt'' = Some (N n) \<longrightarrow>
          attrOf (snapshotRecord curPipeline (snd (updatePipeline pipeline curPipeline now tb)))
            ''createAt'' = Some (N n))
     \<and> (\<forall>k \<in> set marshalledFields.
          attrOf (snapshotRecord curPipeline (snd (updatePipeline pipeline curPipeline now tb))) k
            = map_option convertToAttr (curPipeline k))
     \<and> attrOf (snapshotRecord curPipeline (snd (updatePipeline pipeline curPipeline now tb)))
          ''workflow''
          = (case curPipeline ''workflow'' of None \<Rightarrow> Some (M [])
             | Some w \<Rightarrow> Some (convertToAttr w))
     \<and> (\<forall>k \<in> set executionFields.
          attrOf (snapshotRecord curPipeline (snd (updatePipeline pipeline curPipeline now tb))) k
            = strOrEmpty curPipeline k)
     \<and> attrOf (snapshotRecord curPipeline (snd (updatePipeline pipeline curPipeline now tb)))
          ''versionTag'' = curPipeline ''version''
     \<and> attrOf (snapshotRecord curPipeline (snd (updatePipeline pipeline curPipeline now tb)))
          ''updateAt'' = Some (N (int now))
     \<and> attrOf (snapshotRecord curPipeline (snd (updatePipeline pipeline curPipeline now tb)))
          ''operator'' = pipeline ''operator''
     \<and> attrOf (snapshotRecord curPipeline (snd (updatePipeline pipeline curPipeline now tb)))
          ''deleted'' = pipeline ''deleted''
     \<and> (\<forall>k. k \<notin> set snapshotFields \<longrightarrow>
          attrOf (snapshotRecord curPipeline (snd (updatePipeline pipeline curPipeline now tb))) k
            = None)
     \<and> latestRecord pipeline (snd (updatePipeline pipeline curPipeline now tb)) \<noteq> None
     \<and> (\<forall>k \<in> set replacedFields.
          attrOf (latestRecord pipeline (snd (updatePipeline pipeline curPipeline now tb))) k
            = pipeline k)
     \<and> (\<forall>k \<in> set marshalledFields.
          attrOf (latestRecord pipeline (snd (updatePipeline pipeline curPipeline now tb))) k
            = map_option convertToAttr (pipeline k))
     \<and> attrOf (latestRecord pipeline (snd (updatePipeline pipeline curPipeline now tb)))
          ''workflow''
          = (case pipeline ''workflow'' of None \<Rightarrow> Some (M [])
             | Some w \<Rightarrow> Some (convertToAttr w))
     \<and> (\<forall>k \<in> set executionFields.
          attrOf (latestRecord pipeline (snd (updatePipeline pipeline curPipeline now tb))) k
            = strOrEmpty curPipeline k)
     \<and> attrOf (latestRecord pipeline (snd (updatePipeline pipeline curPipeline now tb)))
          ''version'' = Some (S (toString now))
     \<and> attrOf (latestRecord pipeline (snd (updatePipeline pipeline curPipeline now tb)))
          ''versionTag'' = Some (S ''latest'')
     \<and> attrOf (latestRecord pipeline (snd (updatePipeline pipeline curPipeline now tb)))
          ''updateAt'' = Some (N (int now))
     \<and> attrOf (latestRecord pipeline (snd (updatePipeline pipeline curPipeline now tb)))
          ''operator'' = Some (S [])
     \<and> (\<forall>k. k \<notin> set setFields \<longrightarrow>
          attrOf (latestRecord pipeline (snd (updatePipeline pipeline curPipeline now tb))) k
            = attrOf (latestRecord pipeline tb) k)
     \<and> (\<forall>v. blankFree v \<longrightarrow> convertToAttr v = v)
     \<and> convertToAttr (S []) = NULL
     \<and> (\<forall>xs. convertToAttr (L xs) = L (map convertToAttr xs))
     \<and> (\<forall>kvs. convertToAttr (M kvs) = M (map (\<lambda>kv. (fst kv, convertToAttr (snd kv))) kvs))"
proof -
  let ?tb' = "snd (updatePipeline pipeline curPipeline now tb)"
  let ?snap = "snapshotRecord curPipeline ?tb'"
  let ?lat = "latestRecord pipeline ?tb'"
  from updatePipeline_snapshot_stored[OF ok] obtain snap where
    s: "snapshotRecord curPipeline tb = None" "?snap = Some snap"
    by blast
  from updatePipeline_latest_stored[OF ok] obtain lat sets where
    l: "?lat = Some (lat ++ sets)"
    by blast
  have e1: "?snap \<noteq> None" by (simp add: s(2))
  have c1: "\<forall>k \<in> set copiedFields. attrOf ?snap k = curPipeline k"
    unfolding copiedFields_def ball_Cons ball_Nil
    by (intro conjI TrueI) (rule snapshot_copied[OF ok], simp add: snapshotMembers_def)+
  note c1t = snapshot_type[OF ok]
  have c1a: "attrOf ?snap ''createAt'' = numField curPipeline ''createAt''"
    by (rule snapshot_attr(1)[OF ok]) (simp add: snapshotMembers_def)
  have c1b: "\<forall>n. curPipeline ''createAt'' = Some (N n) \<longrightarrow> attrOf ?snap ''createAt'' = Some (N n)"
    using c1a by (simp add: numField_number)
  have c2: "\<forall>k \<in> set marshalledFields. attrOf ?snap k = map_option convertToAttr (curPipeline k)"
    unfolding marshalledFields_def ball_Cons ball_Nil
    by (intro conjI TrueI) (rule snapshot_marshalled[OF ok], simp add: snapshotMembers_def)+
  have c2w: "attrOf ?snap ''workflow''
      = (case curPipeline ''workflow'' of None \<Rightarrow> Some (M []) | Some w \<Rightarrow> Some (convertToAttr w))"
    unfolding workflowOrEmpty_eq[symmetric]
    by (rule snapshot_attr(1)[OF ok]) (simp add: snapshotMembers_def)
  have c2e: "\<forall>k \<in> set executionFields. attrOf ?snap k = strOrEmpty curPipeline k"
    unfolding executionFields_def ball_Cons ball_Nil
    by (intro conjI TrueI) (rule snapshot_attr(1)[OF ok], simp add: snapshotMembers_def)+
  have c3: "attrOf ?snap ''versionTag'' = curPipeline ''version''"
    using snapshot_attr[OF ok, of "''versionTag''" "strField curPipeline ''version''"]
      strField_eq[of curPipeline "''version''"]
    by (auto simp add: snapshotMembers_def)
  have c3u: "attrOf ?snap ''updateAt'' = Some (N (int now))"
    by (rule snapshot_attr(1)[OF ok]) (simp add: snapshotMembers_def)
  have c3o: "attrOf ?snap ''operator'' = pipeline ''operator''"
    using snapshot_attr[OF ok, of "''operator''" "strField pipeline ''operator''"]
      strField_eq[of pipeline "''operator''"]
    by (auto simp add: snapshotMembers_def)
  have c3d: "attrOf ?snap ''deleted'' = pipeline ''deleted''"
    using snapshot_attr[OF ok, of "''deleted''" "boolField pipeline ''deleted''"]
      boolField_eq[of pipeline "''deleted''"]
    by (auto simp add: snapshotMembers_def)
  have c3x: "\<forall>k. k \<notin> set snapshotFields \<longrightarrow> attrOf ?snap k = None"
    using snapshot_outside[OF ok] by blast
  have e2: "?lat \<noteq> None" by (simp add: l)
  have c4: "\<forall>k \<in> set replacedFields. attrOf ?lat k = pipeline k"
    unfolding replacedFields_def ball_Cons ball_Nil
    by (intro conjI TrueI) (rule latest_replaced[OF ok], simp add: latestMembers_def)+
  have c5: "\<forall>k \<in> set marshalledFields. attrOf ?lat k = map_option convertToAttr (pipeline k)"
    unfolding marshalledFields_def ball_Cons ball_Nil
    by (intro conjI TrueI) (rule latest_marshalled[OF ok], simp add: latestMembers_def)+
  have c5w: "attrOf ?lat ''workflow''
      = (case pipeline ''workflow'' of None \<Rightarrow> Some (M []) | Some w \<Rightarrow> Some (convertToAttr w))"
    unfolding workflowOrEmpty_eq[symmetric]
    by (rule latest_attr(1)[OF ok]) (simp add: latestMembers_def)
  have c5e: "\<forall>k \<in> set executionFields. attrOf ?lat k = strOrEmpty curPipeline k"
    unfolding executionFields_def ball_Cons ball_Nil
    by (intro conjI TrueI) (rule latest_attr(1)[OF ok], simp add: latestMembers_def)+
  have c6: "attrOf ?lat ''version'' = Some (S (toString now))"
    by (rule latest_attr(1)[OF ok]) (simp add: latestMembers_def)
  have c7: "attrOf ?lat ''versionTag'' = Some (S ''latest'')"
    by (rule latest_attr(1)[OF ok]) (simp add: latestMembers_def)
  have c7u: "attrOf ?lat ''updateAt'' = Some (N (int now))"
    by (rule latest_attr(1)[OF ok]) (simp add: latestMembers_def)
  have c7o: "attrOf ?lat ''operator'' = Some (S [])"
    by (rule latest_attr(1)[OF ok]) (simp add: latestMembers_def)
  have c7x: "\<forall>k. k \<notin> set setFields \<longrightarrow> attrOf ?lat k = attrOf (latestRecord pipeline tb) k"
    using latest_outside[OF ok] by blast
  have m1: "\<forall>v. blankFree v \<longrightarrow> convertToAttr v = v"
    using blankFree_convert by blast
  have m2: "convertToAttr (S []) = NULL" by simp
  have m3: "\<forall>xs. convertToAttr (L xs) = L (map convertToAttr xs)" by simp
  have m4: "\<forall>kvs. convertToAttr (M kvs) = M (map (\<lambda>kv. (fst kv, convertToAttr (snd kv))) kvs)"
    by (simp add: map_prod_def case_prod_beta)
  show ?thesis
    by (intro conjI)
      (rule s(1) e1 c1 c1t c1a c1b c2 c2w c2e c3 c3u c3o c3d c3x e2 c4 c5 c5w c5e c6 c7 c7u c7o
        c7x m1 m2 m3 m4)+
qed

lemma exBlank_at:
  "exBlank ''id'' = Some (S ''proj1'')"
  "exBlank ''type'' = Some (S ''PIPELINE#pl1#latest'')"
  "exBlank ''prefix'' = Some (S ''PIPELINE'')"
  "exBlank ''pipelineId'' = Some (S ''pl1'')"
  "exBlank ''projectId'' = Some (S ''proj1'')"
  "exBlank ''name'' = Some (S ''clicks'')"
  "exBlank ''description'' = Some (S ''first'')"
  "exBlank ''region'' = Some (S ''us-east-1'')"
  "exBlank ''dataCollectionSDK'' = Some (S ''sdk'')"
  "exBlank ''status'' = Some (S ''RUNNING'')"
  "exBlank ''tags'' = Some (L [])"
  "exBlank ''network'' = Some (M [(''vpcId'', S []), (''subnets'', L [S ''a'', S []])])"
  "exBlank ''bucket'' = Some (M [])"
  "exBlank ''ingestionServer'' = Some (M [])"
  "exBlank ''etl'' = Some (M [])"
  "exBlank ''dataAnalytics'' = Some (M [])"
  "exBlank ''report'' = Some (M [])"
  "exBlank ''workflow'' = None"
  "exBlank ''executionName'' = None"
  "exBlank ''executionArn'' = Some (S ''arn:1'')"
  "exBlank ''version'' = Some (S ''100'')"
  "exBlank ''versionTag'' = Some (S ''latest'')"
  "exBlank ''createAt'' = Some (N 100)"
  "exBlank ''updateAt'' = Some (N 100)"
  "exBlank ''operator'' = Some (S ''alice'')"
  "exBlank ''deleted'' = Some (BOOL False)"
  by (simp_all add: exBlank_def exStored_at)

lemma exBlankRequest_at:
  "exBlankRequest ''id'' = Some (S ''proj1'')"
  "exBlankRequest ''type'' = Some (S ''PIPELINE#pl1#latest'')"
  "exBlankRequest ''prefix'' = Some (S ''PIPELINE'')"
  "exBlankRequest ''pipelineId'' = Some (S ''pl1'')"
  "exBlankRequest ''projectId'' = Some (S ''proj1'')"
  "exBlankRequest ''name'' = Some (S ''clicks'')"
  "exBlankRequest ''description'' = Some (S ''first'')"
  "exBlankRequest ''region'' = Some (S ''us-east-1'')"
  "exBlankRequest ''dataCollectionSDK'' = Some (S ''sdk'')"
  "exBlankRequest ''status'' = Some (S ''RUNNING'')"
  "exBlankRequest ''tags'' = Some (L [])"
  "exBlankRequest ''network'' = Some (M [(''vpcId'', S []), (''subnets'', L [S ''a'', S []])])"
  "exBlankRequest ''bucket'' = Some (M [])"
  "exBlankRequest ''ingestionServer'' = Some (M [])"
  "exBlankRequest ''etl'' = Some (M [])"
  "exBlankRequest ''dataAnalytics'' = Some (M [])"
  "exBlankRequest ''report'' = Some (M [])"
  "exBlankRequest ''workflow'' = None"
  "exBlankRequest ''executionName'' = None"
  "exBlankRequest ''executionArn'' = Some (S ''arn:1'')"
  "exBlankRequest ''version'' = Some (S ''100'')"
  "exBlankRequest ''versionTag'' = Some (S ''latest'')"
  "exBlankRequest ''createAt'' = Some (N 999)"
  "exBlankRequest ''updateAt'' = Some (N 100)"
  "exBlankRequest ''operator'' = Some (S ''alice'')"
  "exBlankRequest ''deleted'' = Some (BOOL True)"
  by (simp_all add: exBlankRequest_def exBlank_at)

lemma exTextual_at:
  "exTextual ''id'' = Some (S ''proj1'')"
  "exTextual ''type'' = Some (S ''PIPELINE#pl1#latest'')"
  "exTextual ''prefix'' = Some (S ''PIPELINE'')"
  "exTextual ''pipelineId'' = Some (S ''pl1'')"
  "exTextual ''projectId'' = Some (S ''proj1'')"
  "exTextual ''name'' = Some (S ''clicks'')"
  "exTextual ''description'' = Some (S ''first'')"
  "exTextual ''region'' = Some (S ''us-east-1'')"
  "exTextual ''dataCollectionSDK'' = Some (S ''sdk'')"
  "exTextual ''status'' = Some (S ''RUNNING'')"
  "exTextual ''tags'' = Some (L [])"
  "exTextual ''network'' = Some (M [])"
  "exTextual ''bucket'' = Some (M [])"
  "exTextual ''ingestionServer'' = Some (M [])"
  "exTextual ''etl'' = Some (M [])"
  "exTextual ''dataAnalytics'' = Some (M [])"
  "exTextual ''report'' = Some (M [])"
  "exTextual ''workflow'' = Some (M [])"
  "exTextual ''executionName'' = Some (S ''main-1'')"
  "exTextual ''executionArn'' = Some (S ''arn:1'')"
  "exTextual ''version'' = Some (S ''100'')"
  "exTextual ''versionTag'' = Some (S ''latest'')"
  "exTextual ''createAt'' = Some (S ''100'')"
  "exTextual ''updateAt'' = Some (N 100)"
  "exTextual ''operator'' = Some (S ''alice'')"
  "exTextual ''deleted'' = Some (BOOL False)"
  by (simp_all add: exTextual_def exStored_at)

lemma ex_blank_ok: "fst (updatePipeline exBlankRequest exBlank 200 [exBlank]) = None"
proof (rule updatePipeline_succeeds)
  show "snapshotItem exBlankRequest exBlank 200 \<noteq> None"
    unfolding snapshotItem_def snapshotMembers_def buildItem_Some_iff
    by (simp add: exBlankRequest_at exBlank_at strField_def numField_def boolField_def
        strOrEmpty_def workflowOrEmpty_def marshall_def)
  show "latestSets exBlankRequest exBlank 200 \<noteq> None"
    unfolding latestSets_def latestMembers_def buildItem_Some_iff
    by (simp add: exBlankRequest_at exBlank_at strField_def strOrEmpty_def workflowOrEmpty_def
        marshall_def)
  show "getItem [exBlank] ''proj1'' (pipelineType ''pl1'' ''100'') = None"
    by (simp add: getItem_def hasKey_def exBlank_at pipelineType_def)
  show "getItem [exBlank] ''proj1'' (pipelineType ''pl1'' ''latest'') = Some exBlank"
    by (simp add: getItem_def hasKey_def exBlank_at pipelineType_def)
  show "\<not> (''proj1'' = ''proj1'' \<and> pipelineType ''pl1'' ''100'' = pipelineType ''pl1'' ''latest'')"
    by (simp add: pipelineType_def)
qed (simp_all add: exBlankRequest_at exBlank_at)

lemma ex_textual_ok: "fst (updatePipeline exRequest exTextual 200 [exTextual]) = None"
proof (rule updatePipeline_succeeds)
  show "snapshotItem exRequest exTextual 200 \<noteq> None"
    unfolding snapshotItem_def snapshotMembers_def buildItem_Some_iff
    by (simp add: exRequest_at exTextual_at strField_def numField_def boolField_def
        strOrEmpty_def workflowOrEmpty_def marshall_def parseInt_def digitOf_def)
  show "latestSets exRequest exTextual 200 \<noteq> None"
    unfolding latestSets_def latestMembers_def buildItem_Some_iff
    by (simp add: exRequest_at exTextual_at strField_def strOrEmpty_def workflowOrEmpty_def
        marshall_def)
  show "getItem [exTextual] ''proj1'' (pipelineType ''pl1'' ''100'') = None"
    by (simp add: getItem_def hasKey_def exTextual_at pipelineType_def)
  show "getItem [exTextual] ''proj1'' (pipelineType ''pl1'' ''latest'') = Some exTextual"
    by (simp add: getItem_def hasKey_def exTextual_at pipelineType_def)
  show "\<not> (''proj1'' = ''proj1'' \<and> pipelineType ''pl1'' ''100'' = pipelineType ''pl1'' ''latest'')"
    by (simp add: pipelineType_def)
qed (simp_all add: exRequest_at exTextual_at)

lemma ex_latest_before:
  "latestRecord exRequest [exStored] = Some exStored"
  "latestRecord exBlankRequest [exBlank] = Some exBlank"
  by (simp_all add: latestRecord_def getItem_def hasKey_def pipelineType_def exRequest_at
      exStored_at exBlankRequest_at exBlank_at)

theorem updatePipeline_snapshot_and_latest_witness:
  "fst (updatePipeline exRequest exStored 200 [exStored]) = None
   \<and> snapshotRecord exStored [exStored] = None
   \<and> attrOf (snapshotRecord exStored exAfter) ''type'' = Some (S ''PIPELINE#pl1#100'')
   \<and> attrOf (snapshotRecord exStored exAfter) ''name'' = Some (S ''clicks'')
   \<and> attrOf (snapshotRecord exStored exAfter) ''status'' = Some (S ''RUNNING'')
   \<and> attrOf (snapshotRecord exStored exAfter) ''workflow'' = Some (M [])
   \<and> attrOf (snapshotRecord exStored exAfter) ''executionArn'' = Some (S ''arn:1'')
   \<and> attrOf (snapshotRecord exStored exAfter) ''versionTag'' = Some (S ''100'')
   \<and> attrOf (snapshotRecord exStored exAfter) ''createAt'' = Some (N 100)
   \<and> attrOf (snapshotRecord exStored exAfter) ''updateAt'' = Some (N 200)
   \<and> attrOf (snapshotRecord exStored exAfter) ''operator'' = Some (S ''bob'')
   \<and> attrOf (snapshotRecord exStored exAfter) ''deleted'' = Some (BOOL False)
   \<and> attrOf (snapshotRecord exStored exAfter) ''ttl'' = None
   \<and> attrOf (latestRecord exRequest exAfter) ''name'' = Some (S ''clicks2'')
   \<and> attrOf (latestRecord exRequest exAfter) ''status'' = Some (S ''RUNNING'')
   \<and> attrOf (latestRecord exRequest exAfter) ''workflow'' = Some (M [])
   \<and> attrOf (latestRecord exRequest exAfter) ''executionArn'' = Some (S ''arn:1'')
   \<and> attrOf (latestRecord exRequest exAfter) ''version'' = Some (S (toString 200))
   \<and> attrOf (latestRecord exRequest exAfter) ''versionTag'' = Some (S ''latest'')
   \<and> attrOf (latestRecord exRequest exAfter) ''updateAt'' = Some (N 200)
   \<and> attrOf (latestRecord exRequest exAfter) ''operator'' = Some (S [])
   \<and> attrOf (latestRecord exRequest exAfter) ''createAt'' = Some (N 100)
   \<and> fst (updatePipeline exBlankRequest exBlank 200 [exBlank]) = None
   \<and> attrOf (snapshotRecord exBlank exBlankAfter) ''network''
        = Some (M [(''vpcId'', NULL), (''subnets'', L [S ''a'', NULL])])
   \<and> attrOf (latestRecord exBlankRequest exBlankAfter) ''network''
        = Some (M [(''vpcId'', NULL), (''subnets'', L [S ''a'', NULL])])
   \<and> attrOf (snapshotRecord exBlank exBlankAfter) ''workflow'' = Some (M [])
   \<and> attrOf (snapshotRecord exBlank exBlankAfter) ''executionName'' = Some (S [])
   \<and> attrOf (latestRecord exBlankRequest exBlankAfter) ''workflow'' = Some (M [])
   \<and> fst (updatePipeline exRequest exTextual 200 [exTextual]) = None
   \<and> attrOf (snapshotRecord exTextual exTextualAfter) ''createAt'' = Some (N 100)"
proof -
  let ?s = "snapshotRecord exStored (snd (updatePipeline exRequest exStored 200 [exStored]))"
  let ?l = "latestRecord exRequest (snd (updatePipeline exRequest exStored 200 [exStored]))"
  let ?bs = "snapshotRecord exBlank (snd (updatePipeline exBlankRequest exBlank 200 [exBlank]))"
  let ?bl = "latestRecord exBlankRequest (snd (updatePipeline exBlankRequest exBlank 200 [exBlank]))"
  note t = updatePipeline_snapshot_and_latest[OF ex_update_ok]
  note u = updatePipeline_snapshot_and_latest[OF ex_blank_ok]
  note x = updatePipeline_snapshot_and_latest[OF ex_textual_ok]
  from t have s0: "snapshotRecord exStored [exStored] = None" by (elim conjE)
  from t have s1: "\<forall>k \<in> set copiedFields. attrOf ?s k = exStored k" by (elim conjE)
  from t have s2: "\<exists>i v. exStored ''pipelineId'' = Some (S i) \<and> exStored ''version'' = Some (S v)
      \<and> attrOf ?s ''type'' = Some (S (pipelineType i v))" by (elim conjE)
  from t have s3: "attrOf ?s ''createAt'' = numField exStored ''createAt''" by (elim conjE)
  from t have s4: "\<forall>k \<in> set marshalledFields. attrOf ?s k = map_option convertToAttr (exStored k)"
    by (elim conjE)
  from t have s5: "attrOf ?s ''workflow''
      = (case exStored ''workflow'' of None \<Rightarrow> Some (M []) | Some w \<Rightarrow> Some (convertToAttr w))"
    by (elim conjE)
  from t have s6: "\<forall>k \<in> set executionFields. attrOf ?s k = strOrEmpty exStored k" by (elim conjE)
  from t have s7: "attrOf ?s ''versionTag'' = exStored ''version''" by (elim conjE)
  from t have s8: "attrOf ?s ''updateAt'' = Some (N (int 200))" by (elim conjE)
  from t have s9: "attrOf ?s ''operator'' = exRequest ''operator''" by (elim conjE)
  from t have s10: "attrOf ?s ''deleted'' = exRequest ''deleted''" by (elim conjE)
  from t have s11: "\<forall>k. k \<notin> set snapshotFields \<longrightarrow> attrOf ?s k = None" by (elim conjE)
  from t have l1: "\<forall>k \<in> set replacedFields. attrOf ?l k = exRequest k" by (elim conjE)
  from t have l2: "\<forall>k \<in> set marshalledFields. attrOf ?l k = map_option convertToAttr (exRequest k)"
    by (elim conjE)
  from t have l3: "attrOf ?l ''workflow''
      = (case exRequest ''workflow'' of None \<Rightarrow> Some (M []) | Some w \<Rightarrow> Some (convertToAttr w))"
    by (elim conjE)
  from t have l4: "\<forall>k \<in> set executionFields. attrOf ?l k = strOrEmpty exStored k" by (elim conjE)
  from t have l5: "attrOf ?l ''version'' = Some (S (toString 200))" by (elim conjE)
  from t have l6: "attrOf ?l ''versionTag'' = Some (S ''latest'')" by (elim conjE)
  from t have l7: "attrOf ?l ''updateAt'' = Some (N (int 200))" by (elim conjE)
  from t have l8: "attrOf ?l ''operator'' = Some (S [])" by (elim conjE)
  from t have l9: "\<forall>k. k \<notin> set setFields \<longrightarrow> attrOf ?l k = attrOf (latestRecord exRequest [exStored]) k"
    by (elim conjE)
  from u have b1: "\<forall>k \<in> set marshalledFields. attrOf ?bs k = map_option convertToAttr (exBlank k)"
    by (elim conjE)
  from u have b2: "\<forall>k \<in> set marshalledFields.
      attrOf ?bl k = map_option convertToAttr (exBlankRequest k)"
    by (elim conjE)
  from u have b3: "attrOf ?bs ''workflow''
      = (case exBlank ''workflow'' of None \<Rightarrow> Some (M []) | Some w \<Rightarrow> Some (convertToAttr w))"
    by (elim conjE)
  from u have b4: "\<forall>k \<in> set executionFields. attrOf ?bs k = strOrEmpty exBlank k" by (elim conjE)
  from u have b5: "attrOf ?bl ''workflow''
      = (case exBlankRequest ''workflow'' of None \<Rightarrow> Some (M [])
         | Some w \<Rightarrow> Some (convertToAttr w))"
    by (elim conjE)
  from x have x1: "attrOf (snapshotRecord exTextual
        (snd (updatePipeline exRequest exTextual 200 [exTextual]))) ''createAt''
      = numField exTextual ''createAt''"
    by (elim conjE)
  have d3: "attrOf ?bs ''workflow'' = Some (M [])"
    using b3 by (simp add: exBlank_at)
  have d4: "attrOf ?bs ''executionName'' = Some (S [])"
    using b4 by (simp add: executionFields_def strOrEmpty_def exBlank_at)
  have d5: "attrOf ?bl ''workflow'' = Some (M [])"
    using b5 by (simp add: exBlankRequest_at)
  have d6: "attrOf (snapshotRecord exTextual
        (snd (updatePipeline exRequest exTextual 200 [exTextual]))) ''createAt'' = Some (N 100)"
    using x1 by (simp add: numField_def exTextual_at parseInt_def digitOf_def)
  have a1: "attrOf ?s ''type'' = Some (S ''PIPELINE#pl1#100'')"
    using s2 by (auto simp: exStored_at pipelineType_def)
  have a2: "attrOf ?s ''name'' = Some (S ''clicks'')"
    using s1 by (simp add: copiedFields_def exStored_at)
  have a3: "attrOf ?s ''status'' = Some (S ''RUNNING'')"
    using s4 by (simp add: marshalledFields_def exStored_at)
  have a4: "attrOf ?s ''workflow'' = Some (M [])"
    using s5 by (simp add: exStored_at)
  have a5: "attrOf ?s ''executionArn'' = Some (S ''arn:1'')"
    using s6 by (simp add: executionFields_def strOrEmpty_def exStored_at)
  have a6: "attrOf ?s ''versionTag'' = Some (S ''100'')"
    using s7 by (simp add: exStored_at)
  have a7: "attrOf ?s ''createAt'' = Some (N 100)"
    using s3 by (simp add: numField_def exStored_at)
  have a8: "attrOf ?s ''updateAt'' = Some (N 200)"
    using s8 by simp
  have a9: "attrOf ?s ''operator'' = Some (S ''bob'')"
    using s9 by (simp add: exRequest_at)
  have a9d: "attrOf ?s ''deleted'' = Some (BOOL False)"
    using s10 by (simp add: exRequest_at)
  have a10: "attrOf ?s ''ttl'' = None"
    using s11[rule_format, of "''ttl''"] by (simp add: snapshotFields_def)
  have c1: "attrOf ?l ''name'' = Some (S ''clicks2'')"
    using l1 by (simp add: replacedFields_def exRequest_at)
  have c2: "attrOf ?l ''status'' = Some (S ''RUNNING'')"
    using l2 by (simp add: marshalledFields_def exRequest_at)
  have c3: "attrOf ?l ''workflow'' = Some (M [])"
    using l3 by (simp add: exRequest_at)
  have c4: "attrOf ?l ''executionArn'' = Some (S ''arn:1'')"
    using l4 by (simp add: executionFields_def strOrEmpty_def exStored_at)
  have c5: "attrOf ?l ''updateAt'' = Some (N 200)"
    using l7 by simp
  have c6: "attrOf ?l ''createAt'' = Some (N 100)"
    using l9[rule_format, of "''createAt''"]
    by (simp add: setFields_def ex_latest_before attrOf_def exStored_at)
  have d1: "attrOf ?bs ''network'' = Some (M [(''vpcId'', NULL), (''subnets'', L [S ''a'', NULL])])"
    using b1 by (simp add: marshalledFields_def exBlank_at)
  have d2: "attrOf ?bl ''network'' = Some (M [(''vpcId'', NULL), (''subnets'', L [S ''a'', NULL])])"
    using b2 by (simp add: marshalledFields_def exBlankRequest_at)
  show ?thesis
    unfolding exAfter_def exBlankAfter_def exTextualAfter_def
    by (intro conjI)
      (rule ex_update_ok s0 a1 a2 a3 a4 a5 a6 a7 a8 a9 a9d a10 c1 c2 c3 c4 l5 l6 c5 l8 c6
        ex_blank_ok d1 d2 d3 d4 d5 ex_textual_ok d6)+
qed

text \<open>
  The claim as stated fails.  In the first example the latest record keeps the stored
  execution handle, has the empty operator and a new update time, none of them the new
  pipeline's; and the snapshot differs from the stored record in its sort key, version
  tag, update time and operator.  In the second the configuration member with an empty
  string is stored with NULL in both records, the snapshot carries the deletion flag of
  the new pipeline, the latest record keeps the stored creation time and deletion flag,
  and both records have an empty workflow, and the snapshot an empty execution name,
  where the pipelines have none.
\<close>

theorem updatePipeline_snapshot_and_latest_counterexample:
  "fst (updatePipeline exRequest exStored 200 [exStored]) = None
   \<and> attrOf (latestRecord exRequest exAfter) ''executionArn'' \<noteq> exRequest ''executionArn''
   \<and> attrOf (latestRecord exRequest exAfter) ''operator'' \<noteq> exRequest ''operator''
   \<and> attrOf (latestRecord exRequest exAfter) ''updateAt'' \<noteq> exRequest ''updateAt''
   \<and> attrOf (snapshotRecord exStored exAfter) ''type'' \<noteq> exStored ''type''
   \<and> attrOf (snapshotRecord exStored exAfter) ''versionTag'' \<noteq> exStored ''versionTag''
   \<and> attrOf (snapshotRecord exStored exAfter) ''updateAt'' \<noteq> exStored ''updateAt''
   \<and> attrOf (snapshotRecord exStored exAfter) ''operator'' \<noteq> exStored ''operator''
   \<and> fst (updatePipeline exBlankRequest exBlank 200 [exBlank]) = None
   \<and> attrOf (snapshotRecord exBlank exBlankAfter) ''network'' \<noteq> exBlank ''network''
   \<and> attrOf (snapshotRecord exBlank exBlankAfter) ''deleted'' \<noteq> exBlank ''deleted''
   \<and> attrOf (latestRecord exBlankRequest exBlankAfter) ''network'' \<noteq> exBlankRequest ''network''
   \<and> attrOf (latestRecord exBlankRequest exBlankAfter) ''createAt'' \<noteq> exBlankRequest ''createAt''
   \<and> attrOf (latestRecord exBlankRequest exBlankAfter) ''deleted'' \<noteq> exBlankRequest ''deleted''
   \<and> attrOf (snapshotRecord exBlank exBlankAfter) ''workflow'' \<noteq> exBlank ''workflow''
   \<and> attrOf (snapshotRecord exBlank exBlankAfter) ''executionName'' \<noteq> exBlank ''executionName''
   \<and> attrOf (latestRecord exBlankRequest exBlankAfter) ''workflow'' \<noteq> exBlankRequest ''workflow''"
proof -
  let ?s = "snapshotRecord exStored (snd (updatePipeline exRequest exStored 200 [exStored]))"
  let ?l = "latestRecord exRequest (snd (updatePipeline exRequest exStored 200 [exStored]))"
  let ?bs = "snapshotRecord exBlank (snd (updatePipeline exBlankRequest exBlank 200 [exBlank]))"
  let ?bl = "latestRecord exBlankRequest (snd (updatePipeline exBlankRequest exBlank 200 [exBlank]))"
  have l1: "attrOf ?l ''executionArn'' = strOrEmpty exStored ''executionArn''"
    by (rule latest_attr(1)[OF ex_update_ok]) (simp add: latestMembers_def)
  have l2: "attrOf ?l ''operator'' = Some (S [])"
    by (rule latest_attr(1)[OF ex_update_ok]) (simp add: latestMembers_def)
  have l3: "attrOf ?l ''updateAt'' = Some (N (int 200))"
    by (rule latest_attr(1)[OF ex_update_ok]) (simp add: latestMembers_def)
  have s1: "attrOf ?s ''type''
      = (case (exStored ''pipelineId'', exStored ''version'') of
           (Some (S p), Some (S v)) \<Rightarrow> Some (S (pipelineType p v)) | _ \<Rightarrow> None)"
    by (rule snapshot_attr(1)[OF ex_update_ok]) (simp add: snapshotMembers_def)
  have s2: "attrOf ?s ''versionTag'' = strField exStored ''version''"
    by (rule snapshot_attr(1)[OF ex_update_ok]) (simp add: snapshotMembers_def)
  have s3: "attrOf ?s ''updateAt'' = Some (N (int 200))"
    by (rule snapshot_attr(1)[OF ex_update_ok]) (simp add: snapshotMembers_def)
  have s4: "attrOf ?s ''operator'' = strField exRequest ''operator''"
    by (rule snapshot_attr(1)[OF ex_update_ok]) (simp add: snapshotMembers_def)
  have b1: "attrOf ?bs ''network'' = marshall exBlank ''network''"
    by (rule snapshot_attr(1)[OF ex_blank_ok]) (simp add: snapshotMembers_def)
  have b2: "attrOf ?bs ''deleted'' = boolField exBlankRequest ''deleted''"
    by (rule snapshot_attr(1)[OF ex_blank_ok]) (simp add: snapshotMembers_def)
  have b3: "attrOf ?bl ''network'' = marshall exBlankRequest ''network''"
    by (rule latest_attr(1)[OF ex_blank_ok]) (simp add: latestMembers_def)
  have b4: "attrOf ?bl ''createAt'' = attrOf (latestRecord exBlankRequest [exBlank]) ''createAt''"
    "attrOf ?bl ''deleted'' = attrOf (latestRecord exBlankRequest [exBlank]) ''deleted''"
    by (rule latest_frame[OF ex_blank_ok], simp add: latestMembers_def)+
  have b6: "attrOf ?bs ''workflow'' = workflowOrEmpty exBlank"
    by (rule snapshot_attr(1)[OF ex_blank_ok]) (simp add: snapshotMembers_def)
  have b7: "attrOf ?bs ''executionName'' = strOrEmpty exBlank ''executionName''"
    by (rule snapshot_attr(1)[OF ex_blank_ok]) (simp add: snapshotMembers_def)
  have b8: "attrOf ?bl ''workflow'' = workflowOrEmpty exBlankRequest"
    by (rule latest_attr(1)[OF ex_blank_ok]) (simp add: latestMembers_def)
  have b5: "attrOf (latestRecord exBlankRequest [exBlank]) ''createAt'' = Some (N 100)"
    "attrOf (latestRecord exBlankRequest [exBlank]) ''deleted'' = Some (BOOL False)"
    by (simp_all add: ex_latest_before attrOf_def exBlank_at)
  show ?thesis
    unfolding exAfter_def exBlankAfter_def
    using ex_update_ok ex_blank_ok
    by (simp add: l1 l2 l3 s1 s2 s3 s4 b1 b2 b3 b4 b5 b6 b7 b8 strOrEmpty_def strField_def
        boolField_def workflowOrEmpty_def marshall_def pipelineType_def exStored_at exRequest_at
        exBlank_at exBlankRequest_at)
qed

lemma updatePipelineOps_built:
  assumes "snapshotItem p c now \<noteq> None" "latestSets p c now \<noteq> None"
    "p ''id'' = Some (S i)" "p ''pipelineId'' = Some (S pl)" "p ''version'' = Some (S v)"
    "c ''id'' = Some (S ci)" "c ''pipelineId'' = Some (S cpl)" "c ''version'' = Some (S cv)"
  shows "\<exists>snap sets. updatePipelineOps p c now =
            Some [Put snap (AttributeNotExists ''type''),
                  Update i (pipelineType pl ''latest'') (Equals ''version'' (S v)) sets]
          \<and> opKey (Put snap (AttributeNotExists ''type'')) = Some (ci, pipelineType cpl cv)
          \<and> opKey (Update i (pipelineType pl ''latest'') (Equals ''version'' (S v)) sets)
              = Some (i, pipelineType pl ''latest'')"
proof -
  from assms(1,2) obtain snap sets where
    s: "snapshotItem p c now = Some snap" "latestSets p c now = Some sets" by auto
  from snapshotItem_typed[OF s(1)] assms(6-8) have k: "hasKey ci (pipelineType cpl cv) snap"
    by auto
  note ks = latestSets_keys[OF s(2)]
  have ops: "updatePipelineOps p c now =
      Some [Put snap (AttributeNotExists ''type''),
            Update i (pipelineType pl ''latest'') (Equals ''version'' (S v)) sets]"
    using s assms(3-5) by (simp add: updatePipelineOps_def conditionVersionValue_def strField_def)
  have ka: "opKey (Put snap (AttributeNotExists ''type'')) = Some (ci, pipelineType cpl cv)"
    using k by (simp add: hasKey_def)
  show ?thesis using ops ka ks by simp
qed

lemma exNewer_at:
  "exNewer ''id'' = Some (S ''proj1'')"
  "exNewer ''type'' = Some (S ''PIPELINE#pl1#latest'')"
  "exNewer ''prefix'' = Some (S ''PIPELINE'')"
  "exNewer ''pipelineId'' = Some (S ''pl1'')"
  "exNewer ''projectId'' = Some (S ''proj1'')"
  "exNewer ''name'' = Some (S ''clicks'')"
  "exNewer ''description'' = Some (S ''first'')"
  "exNewer ''region'' = Some (S ''us-east-1'')"
  "exNewer ''dataCollectionSDK'' = Some (S ''sdk'')"
  "exNewer ''status'' = Some (S ''RUNNING'')"
  "exNewer ''tags'' = Some (L [])"
  "exNewer ''network'' = Some (M [])"
  "exNewer ''bucket'' = Some (M [])"
  "exNewer ''ingestionServer'' = Some (M [])"
  "exNewer ''etl'' = Some (M [])"
  "exNewer ''dataAnalytics'' = Some (M [])"
  "exNewer ''report'' = Some (M [])"
  "exNewer ''workflow'' = Some (M [])"
  "exNewer ''executionName'' = Some (S ''main-1'')"
  "exNewer ''executionArn'' = Some (S ''arn:1'')"
  "exNewer ''version'' = Some (S ''150'')"
  "exNewer ''versionTag'' = Some (S ''latest'')"
  "exNewer ''createAt'' = Some (N 100)"
  "exNewer ''updateAt'' = Some (N 100)"
  "exNewer ''operator'' = Some (S ''alice'')"
  "exNewer ''deleted'' = Some (BOOL False)"
  by (simp_all add: exNewer_def exStored_at)

lemma updatePipeline_mismatch_fails:
  assumes ne: "attrOf (latestRecord pipeline tb) ''version'' \<noteq> pipeline ''version''"
  shows "fst (updatePipeline pipeline curPipeline now tb) \<noteq> None"
proof
  assume "fst (updatePipeline pipeline curPipeline now tb) = None"
  from updatePipeline_latest_stored[OF this] obtain lat where
    "latestRecord pipeline tb = Some lat" "lat ''version'' = pipeline ''version''"
    by blast
  then show False using ne by (simp add: attrOf_def)
qed

lemma updatePipeline_mismatch_cancelled:
  assumes ne: "attrOf (latestRecord pipeline tb) ''version'' \<noteq> pipeline ''version''"
    and ops: "updatePipelineOps pipeline curPipeline now = Some ops"
    and d: "distinct (map opKey ops)"
  shows "fst (updatePipeline pipeline curPipeline now tb) = Some TransactionCanceled"
proof -
  from updatePipelineOps_Some[OF ops] obtain snap i pl v sets where
    s: "snapshotItem pipeline curPipeline now = Some snap"
       "latestSets pipeline curPipeline now = Some sets"
       "ops = [Put snap (AttributeNotExists ''type''),
               Update i (pipelineType pl ''latest'') (Equals ''version'' v) sets]"
    by blast
  from snapshotItem_typed[OF s(1)] have ka: "opKey (Put snap (AttributeNotExists ''type'')) \<noteq> None"
    by (auto simp: hasKey_def)
  note ks = latestSets_keys[OF s(2)]
  have r: "updatePipeline pipeline curPipeline now tb = transactWriteItems ops tb"
    using ops by (simp add: updatePipeline_def)
  show ?thesis
    using updatePipeline_mismatch_fails[OF ne, of curPipeline now] d ka ks unfolding r s(3)
    by (simp add: transactWriteItems_def del: opKey.simps(1) split: if_splits)
qed

text \<open>A request that carries version 100 when the stored record has moved on to version 150.\<close>

lemma ex_stale:
  "attrOf (latestRecord exRequest [exNewer]) ''version'' \<noteq> exRequest ''version''"
  "\<exists>ops. updatePipelineOps exRequest exNewer 200 = Some ops \<and> distinct (map opKey ops)"
proof -
  show "attrOf (latestRecord exRequest [exNewer]) ''version'' \<noteq> exRequest ''version''"
    by (simp add: latestRecord_def attrOf_def getItem_def hasKey_def pipelineType_def
        exRequest_at exNewer_at)
  have 1: "snapshotItem exRequest exNewer 200 \<noteq> None"
    unfolding snapshotItem_def snapshotMembers_def buildItem_Some_iff
    by (simp add: exRequest_at exNewer_at strField_def numField_def boolField_def
        strOrEmpty_def workflowOrEmpty_def marshall_def)
  have 2: "latestSets exRequest exNewer 200 \<noteq> None"
    unfolding latestSets_def latestMembers_def buildItem_Some_iff
    by (simp add: exRequest_at exNewer_at strField_def strOrEmpty_def workflowOrEmpty_def
        marshall_def)
  from updatePipelineOps_built[OF 1 2 exRequest_at(1) exRequest_at(4) exRequest_at(21)
      exNewer_at(1) exNewer_at(4) exNewer_at(21)]
  obtain ops where
    ops: "updatePipelineOps exRequest exNewer 200 = Some ops"
    and keys: "map opKey ops = [Some (''proj1'', pipelineType ''pl1'' ''150''),
                               Some (''proj1'', pipelineType ''pl1'' ''latest'')]"
    by auto
  have d: "distinct (map opKey ops)"
    unfolding keys by (simp add: pipelineType_def)
  show "\<exists>ops. updatePipelineOps exRequest exNewer 200 = Some ops \<and> distinct (map opKey ops)"
    using ops d by blast
qed


text \<open>
  Claim C2.  \<open>updatePipeline\<close> fails whenever the version of the stored latest record differs
  from the version the caller supplies (\<open>pipeline.version\<close>, bound to
  \<open>:ConditionVersionValue\<close>); for a well-formed request that addresses two items the failure
  is the cancelled transaction.  Whenever \<open>updatePipeline\<close> fails, the table is as before:
  neither the snapshot nor the update of the latest record is written.
\<close>

theorem updatePipeline_version_conflict:
  "(attrOf (latestRecord pipeline tb) ''version'' \<noteq> pipeline ''version'' \<longrightarrow>
      fst (updatePipeline pipeline curPipeline now tb) \<noteq> None
    \<and> (\<forall>ops. updatePipelineOps pipeline curPipeline now = Some ops \<and> distinct (map opKey ops) \<longrightarrow>
          fst (updatePipeline pipeline curPipeline now tb) = Some TransactionCanceled))
   \<and> (fst (updatePipeline pipeline curPipeline now tb) \<noteq> None \<longrightarrow>
        snd (updatePipeline pipeline curPipeline now tb) = tb)"
  using updatePipeline_mismatch_fails[of pipeline tb curPipeline now]
    updatePipeline_mismatch_cancelled[of pipeline tb curPipeline now]
    updatePipeline_failure_unchanged[of pipeline curPipeline now tb]
  by blast

theorem updatePipeline_version_conflict_witness:
  "attrOf (latestRecord exRequest [exNewer]) ''version'' \<noteq> exRequest ''version''
   \<and> updatePipeline exRequest exNewer 200 [exNewer] = (Some TransactionCanceled, [exNewer])"
proof -
  from ex_stale(2) obtain ops where
    ops: "updatePipelineOps exRequest exNewer 200 = Some ops" "distinct (map opKey ops)"
    by blast
  from updatePipeline_version_conflict[of exRequest "[exNewer]" exNewer 200] ex_stale(1) ops
  show ?thesis by (auto simp: prod_eq_iff)
qed

text \<open>
  Claim C10.  After every successful \<open>updatePipeline(pipeline, curPipeline)\<close> the latest
  record carries the \<open>executionName\<close> and \<open>executionArn\<close> of \<open>curPipeline\<close> (the empty string
  where \<open>curPipeline\<close> has none), whatever the new pipeline carries, and its \<open>operator\<close> is the
  empty string.  When \<open>curPipeline\<close> is the stored latest record, as in the pipeline
  service, the stored execution identifiers are therefore unchanged.
\<close>

theorem updatePipeline_keeps_execution_ids:
  assumes "fst (updatePipeline pipeline curPipeline now tb) = None"
  shows "attrOf (latestRecord pipeline (snd (updatePipeline pipeline curPipeline now tb))) ''executionName''
           = strOrEmpty curPipeline ''executionName''
       \<and> attrOf (latestRecord pipeline (snd (updatePipeline pipeline curPipeline now tb))) ''executionArn''
           = strOrEmpty curPipeline ''executionArn''
       \<and> attrOf (latestRecord pipeline (snd (updatePipeline pipeline curPipeline now tb))) ''operator''
           = Some (S '''')
       \<and> (latestRecord pipeline tb = Some curPipeline \<longrightarrow>
            (\<forall>k \<in> set [''executionName'', ''executionArn''].
               (\<exists>s. curPipeline k = Some (S s)) \<longrightarrow>
               attrOf (latestRecord pipeline (snd (updatePipeline pipeline curPipeline now tb))) k
                 = attrOf (latestRecord pipeline tb) k))"
proof -
  from updatePipeline_success[OF assms] obtain snap i pl v sets ci cpl cv lat where
    h: "latestSets pipeline curPipeline now = Some sets"
    "pipeline ''id'' = Some (S i)" "pipeline ''pipelineId'' = Some (S pl)"
    "getItem (snd (updatePipeline pipeline curPipeline now tb)) i (pipelineType pl ''latest'')
       = Some (lat ++ sets)"
    by metis
  note b = h(1)[unfolded latestSets_def latestMembers_def]
  have m: "strOrEmpty curPipeline ''executionName'' \<noteq> None"
          "strOrEmpty curPipeline ''executionArn'' \<noteq> None"
    by (rule buildItem_defined[OF b, of "''executionName''"], simp)
       (rule buildItem_defined[OF b, of "''executionArn''"], simp)
  have e: "sets ''executionName'' = strOrEmpty curPipeline ''executionName''"
       "sets ''executionArn'' = strOrEmpty curPipeline ''executionArn''"
       "sets ''operator'' = Some (S '''')"
    by (simp_all add: buildItem_lookup[OF b])
  have a: "attrOf (latestRecord pipeline (snd (updatePipeline pipeline curPipeline now tb))) k
         = (lat ++ sets) k" for k
    using h(2-4) by (simp add: latestRecord_def attrOf_def)
  have u: "attrOf (Some curPipeline) k = curPipeline k" for k
    by (simp add: attrOf_def)
  have n: "curPipeline k = Some (S s) \<Longrightarrow> strOrEmpty curPipeline k = Some (S s)" for k s
    by (simp add: strOrEmpty_def)
  show ?thesis using m e n
    by (auto simp: a u map_add_def)
qed

theorem updatePipeline_keeps_execution_ids_witness:
  "fst (updatePipeline exRequest exStored 200 [exStored]) = None
   \<and> exRequest ''executionArn'' = Some (S ''arn:other'')
   \<and> attrOf (latestRecord exRequest (snd (updatePipeline exRequest exStored 200 [exStored])))
        ''executionArn'' = Some (S ''arn:1'')
   \<and> attrOf (latestRecord exRequest (snd (updatePipeline exRequest exStored 200 [exStored])))
        ''executionName'' = Some (S ''main-1'')
   \<and> attrOf (latestRecord exRequest (snd (updatePipeline exRequest exStored 200 [exStored])))
        ''operator'' = Some (S '''')"
  using updatePipeline_keeps_execution_ids[OF ex_update_ok] ex_update_ok
  by (simp add: strOrEmpty_def exStored_at exRequest_at)
section \<open>Properties of plugin updates\<close>

lemma pluginSets_keys: "pluginSets plugin now ''id'' = None" "pluginSets plugin now ''type'' = None"
  by (simp_all add: pluginSets_def setIfTruthy_def)

lemma pluginSets_at:
  "k \<in> set pluginFields \<Longrightarrow>
     pluginSets plugin now k = (if truthy (plugin k) then plugin k else None)"
  by (auto simp: pluginFields_def pluginSets_def setIfTruthy_def)

lemma sendWrite_Update:
  assumes "sets ''id'' = None" "sets ''type'' = None"
  shows "sendWrite (Update i t c sets) tb =
     (if holds c (existing tb i t) then (None, writeUpdate i t sets tb)
      else (Some ConditionalCheckFailed, tb))"
  using assms by (simp add: sendWrite_def condPasses_def)

text \<open>
  Claim C5.  While the stored \<open>bindCount\<close> of a plugin is not 0, \<open>updatePlugin\<close> and
  \<open>deletePlugin\<close> fail on the condition and leave the table as it is.  When it is 0, both
  succeed: \<open>updatePlugin\<close> stores the update time and every truthy member among description,
  jar file, dependency files and main function, and \<open>deletePlugin\<close> stores \<open>deleted = true\<close>.
\<close>

theorem plugin_bindCount_gate:
  assumes st: "getItem tb i (''PLUGIN#'' @ i) = Some stored" and pid: "plugin ''id'' = Some (S i)"
  shows "(stored ''bindCount'' \<noteq> Some (N 0) \<longrightarrow>
            updatePlugin plugin now tb = (Some ConditionalCheckFailed, tb)
          \<and> deletePlugin i tb = (Some ConditionalCheckFailed, tb))
       \<and> (stored ''bindCount'' = Some (N 0) \<longrightarrow>
            fst (updatePlugin plugin now tb) = None
          \<and> getItem (snd (updatePlugin plugin now tb)) i (''PLUGIN#'' @ i)
               = Some (stored ++ pluginSets plugin now)
          \<and> (\<forall>k \<in> set pluginFields.
                (stored ++ pluginSets plugin now) k
                  = (if truthy (plugin k) then plugin k else stored k))
          \<and> fst (deletePlugin i tb) = None
          \<and> getItem (snd (deletePlugin i tb)) i (''PLUGIN#'' @ i)
               = Some (stored(''deleted'' \<mapsto> BOOL True)))"
proof -
  have ex: "existing tb i (''PLUGIN#'' @ i) = stored"
    using st by (simp add: existing_def)
  have d: "[''deleted'' \<mapsto> BOOL True] ''id'' = None" "[''deleted'' \<mapsto> BOOL True] ''type'' = None"
    by simp_all
  have u: "updatePlugin plugin now tb =
      (if stored ''bindCount'' = Some (N 0)
       then (None, writeUpdate i (''PLUGIN#'' @ i) (pluginSets plugin now) tb)
       else (Some ConditionalCheckFailed, tb))"
    using pid ex by (simp add: updatePlugin_def sendWrite_Update[OF pluginSets_keys])
  have dl: "deletePlugin i tb =
      (if stored ''bindCount'' = Some (N 0)
       then (None, writeUpdate i (''PLUGIN#'' @ i) [''deleted'' \<mapsto> BOOL True] tb)
       else (Some ConditionalCheckFailed, tb))"
    using ex by (simp add: deletePlugin_def sendWrite_Update[OF d])
  have f: "(stored ++ pluginSets plugin now) k = (if truthy (plugin k) then plugin k else stored k)"
    if "k \<in> set pluginFields" for k
    using pluginSets_at[OF that, of plugin now]
    by (cases "plugin k") (auto simp: map_add_def)
  have m: "stored ++ [''deleted'' \<mapsto> BOOL True] = stored(''deleted'' \<mapsto> BOOL True)"
    by simp
  show ?thesis
    using f st
    by (simp add: u dl getItem_writeUpdate[OF pluginSets_keys] getItem_writeUpdate[OF d] m)
qed

theorem plugin_bindCount_gate_witness:
  "updatePlugin exPluginChange 9 [exPluginBound] = (Some ConditionalCheckFailed, [exPluginBound])
   \<and> deletePlugin ''plug1'' [exPluginBound] = (Some ConditionalCheckFailed, [exPluginBound])
   \<and> fst (updatePlugin exPluginChange 9 [exPlugin]) = None
   \<and> attrOf (getItem (snd (updatePlugin exPluginChange 9 [exPlugin])) ''plug1'' ''PLUGIN#plug1'')
        ''description'' = Some (S ''new'')
   \<and> fst (deletePlugin ''plug1'' [exPlugin]) = None
   \<and> attrOf (getItem (snd (deletePlugin ''plug1'' [exPlugin])) ''plug1'' ''PLUGIN#plug1'')
        ''deleted'' = Some (BOOL True)"
proof -
  have a: "getItem [exPluginBound] ''plug1'' (''PLUGIN#'' @ ''plug1'') = Some exPluginBound"
    by (simp add: getItem_def hasKey_def exPluginBound_def exPlugin_def)
  have b: "getItem [exPlugin] ''plug1'' (''PLUGIN#'' @ ''plug1'') = Some exPlugin"
    by (simp add: getItem_def hasKey_def exPlugin_def)
  have c: "exPluginChange ''id'' = Some (S ''plug1'')"
    by (simp add: exPluginChange_def)
  have v: "exPluginBound ''bindCount'' \<noteq> Some (N 0)" "exPlugin ''bindCount'' = Some (N 0)"
    by (simp_all add: exPluginBound_def exPlugin_def)
  have s: "pluginSets exPluginChange 9 ''description'' = Some (S ''new'')"
    by (simp add: pluginSets_def setIfTruthy_def exPluginChange_def)
  from plugin_bindCount_gate[of "[exPluginBound]" "''plug1''" exPluginBound exPluginChange 9]
    plugin_bindCount_gate[of "[exPlugin]" "''plug1''" exPlugin exPluginChange 9] a b c v s
  show ?thesis by (simp add: attrOf_def map_add_def)
qed

section \<open>Properties of soft deletion\<close>

lemma sendWrite_NoCond:
  assumes "sets ''id'' = None" "sets ''type'' = None"
  shows "sendWrite (Update i t NoCond sets) tb = (None, writeUpdate i t sets tb)"
  using assms by (simp add: sendWrite_def condPasses_def)

text \<open>
  An update that marks its item deleted removes the items of that key from what a scan for
  live items finds, and nothing else.
\<close>

lemma scan_writeUpdate:
  assumes k: "sets ''id'' = None" "sets ''type'' = None"
    and d: "sets ''deleted'' = Some (BOOL True)"
    and live: "\<And>x. holds flt x \<Longrightarrow> x ''deleted'' = Some (BOOL False)"
  shows "scan flt (writeUpdate i t sets tb) = filter (\<lambda>x. \<not> hasKey i t x) (scan flt tb)"
proof (cases "getItem tb i t")
  case None
  have n: "\<not> holds flt (([''id'' \<mapsto> S i, ''type'' \<mapsto> S t]) ++ sets)"
    using live[of "[''id'' \<mapsto> S i, ''type'' \<mapsto> S t] ++ sets"] d by (auto simp: map_add_def)
  have "filter (\<lambda>x. \<not> hasKey i t x) (scan flt tb) = scan flt tb"
    using None by (auto simp: getItem_None_iff scan_def intro!: filter_cong)
  then show ?thesis using None n by (simp add: writeUpdate_def scan_def)
next
  case (Some y)
  have n: "\<not> holds flt (x ++ sets)" for x
    using live[of "x ++ sets"] d by (auto simp: map_add_def)
  have "filter (holds flt) (map (\<lambda>x. if hasKey i t x then x ++ sets else x) tb)
      = filter (\<lambda>x. \<not> hasKey i t x) (filter (holds flt) tb)"
    using n by (induction tb) auto
  then show ?thesis using Some by (simp add: writeUpdate_def scan_def)
qed

lemma deleteProjectLoop_scan:
  assumes "fst (deleteProjectLoop p ps tb) = None"
    and live: "\<And>x. holds flt x \<Longrightarrow> x ''deleted'' = Some (BOOL False)"
  shows "scan flt (snd (deleteProjectLoop p ps tb))
       = filter (\<lambda>x. \<forall>q \<in> set ps. \<forall>t. q ''type'' = Some (S t) \<longrightarrow> \<not> hasKey p t x) (scan flt tb)
     \<and> (\<forall>q \<in> set ps. \<exists>t. q ''type'' = Some (S t))"
  using assms(1)
proof (induction ps arbitrary: tb)
  case Nil
  then show ?case by simp
next
  case (Cons q ps)
  let ?sets = "[''deleted'' \<mapsto> BOOL True]"
  from Cons.prems obtain t where t: "q ''type'' = Some (S t)"
    by (auto split: option.splits attr.splits)
  have w: "sendWrite (Update p t NoCond ?sets) tb = (None, writeUpdate p t ?sets tb)"
    by (rule sendWrite_NoCond) simp_all
  have step: "deleteProjectLoop p (q # ps) tb = deleteProjectLoop p ps (writeUpdate p t ?sets tb)"
    using t w by simp
  have s: "scan flt (writeUpdate p t ?sets tb) = filter (\<lambda>x. \<not> hasKey p t x) (scan flt tb)"
    by (rule scan_writeUpdate) (simp_all add: live)
  from Cons.prems have "fst (deleteProjectLoop p ps (writeUpdate p t ?sets tb)) = None"
    by (simp only: step)
  from Cons.IH[OF this] show ?case
    unfolding step s using t by (auto intro: filter_cong)
qed

lemma deletePipelineLoop_scan:
  assumes "fst (deletePipelineLoop D p ps tb) = None"
    and live: "\<And>x. holds flt x \<Longrightarrow> x ''deleted'' = Some (BOOL False)"
  shows "scan flt (snd (deletePipelineLoop D p ps tb))
       = filter (\<lambda>x. \<forall>q \<in> set ps. \<forall>t. q ''type'' = Some (S t) \<longrightarrow> \<not> hasKey p t x) (scan flt tb)
     \<and> (\<forall>q \<in> set ps. \<exists>t. q ''type'' = Some (S t))"
  using assms(1)
proof (induction ps arbitrary: tb)
  case Nil
  then show ?case by simp
next
  case (Cons q ps)
  from Cons.prems obtain st where st: "markDeleting D (q ''status'') = Inr st"
    by (auto split: sum.splits)
  let ?sets = "[''deleted'' \<mapsto> BOOL True, ''status'' \<mapsto> st]"
  from Cons.prems st obtain t where t: "q ''type'' = Some (S t)"
    by (auto split: option.splits attr.splits)
  have w: "sendWrite (Update p t NoCond ?sets) tb = (None, writeUpdate p t ?sets tb)"
    by (rule sendWrite_NoCond) simp_all
  have step: "deletePipelineLoop D p (q # ps) tb
      = deletePipelineLoop D p ps (writeUpdate p t ?sets tb)"
    using t w st by simp
  have s: "scan flt (writeUpdate p t ?sets tb) = filter (\<lambda>x. \<not> hasKey p t x) (scan flt tb)"
    by (rule scan_writeUpdate) (simp_all add: live)
  from Cons.prems have "fst (deletePipelineLoop D p ps (writeUpdate p t ?sets tb)) = None"
    by (simp only: step)
  from Cons.IH[OF this] show ?case
    unfolding step s using t by (auto intro: filter_cong)
qed

lemma rescan_empty:
  assumes "scan flt tb' = filter (\<lambda>x. \<forall>q \<in> set (scan flt tb). \<forall>t. q ''type'' = Some (S t) \<longrightarrow> \<not> hasKey p t x) (scan flt tb)"
    and "\<forall>q \<in> set (scan flt tb). \<exists>t. q ''type'' = Some (S t)"
    and "\<And>x. holds flt x \<Longrightarrow> x ''id'' = Some (S p)"
  shows "scan flt tb' = []"
proof -
  have "\<exists>q \<in> set (scan flt tb). \<exists>t. q ''type'' = Some (S t) \<and> hasKey p t x"
    if "x \<in> set (scan flt tb)" for x
  proof -
    from assms(2) that obtain t where "x ''type'' = Some (S t)" by blast
    moreover have "x ''id'' = Some (S p)" using that assms(3) by (simp add: scan_def)
    ultimately show ?thesis using that by (auto simp: hasKey_def)
  qed
  then show ?thesis unfolding assms(1) by (auto simp: filter_empty_conv)
qed

text \<open>
  Claim C8.  A completed \<open>deleteProject\<close> or \<open>deletePipeline\<close> leaves no record that its scan
  for live items would find, so running it again with the same arguments writes nothing and
  returns the table as it is.
\<close>

theorem soft_delete_idempotent:
  "(fst (deleteProject p tb) = None \<longrightarrow>
      scan (projectFilter p) (snd (deleteProject p tb)) = []
    \<and> deleteProject p (snd (deleteProject p tb)) = (None, snd (deleteProject p tb)))
   \<and> (fst (deletePipeline D projectId pipelineId tb') = None \<longrightarrow>
      scan (pipelineVersionsFilter projectId pipelineId)
        (snd (deletePipeline D projectId pipelineId tb')) = []
    \<and> deletePipeline D projectId pipelineId (snd (deletePipeline D projectId pipelineId tb'))
        = (None, snd (deletePipeline D projectId pipelineId tb')))"
proof (intro conjI impI)
  assume ok: "fst (deleteProject p tb) = None"
  have live: "\<And>x. holds (projectFilter p) x \<Longrightarrow> x ''deleted'' = Some (BOOL False)"
    and own: "\<And>x. holds (projectFilter p) x \<Longrightarrow> x ''id'' = Some (S p)"
    by (simp_all add: projectFilter_def)
  have r: "deleteProject p tb = deleteProjectLoop p (scan (projectFilter p) tb) tb" for tb
    by (simp add: deleteProject_def projectFilter_def)
  have ok': "fst (deleteProjectLoop p (scan (projectFilter p) tb) tb) = None"
    using ok by (simp add: r)
  have c: "scan (projectFilter p) (snd (deleteProjectLoop p (scan (projectFilter p) tb) tb))
       = filter (\<lambda>x. \<forall>q \<in> set (scan (projectFilter p) tb).
                    \<forall>t. q ''type'' = Some (S t) \<longrightarrow> \<not> hasKey p t x) (scan (projectFilter p) tb)
     \<and> (\<forall>q \<in> set (scan (projectFilter p) tb). \<exists>t. q ''type'' = Some (S t))"
    by (rule deleteProjectLoop_scan[of p "scan (projectFilter p) tb" tb "projectFilter p"])
       (use ok' live in auto)
  have e: "scan (projectFilter p) (snd (deleteProject p tb)) = []"
    unfolding r
    by (rule rescan_empty[of "projectFilter p" _ tb p]) (use c own in auto)
  show "scan (projectFilter p) (snd (deleteProject p tb)) = []" by (rule e)
  show "deleteProject p (snd (deleteProject p tb)) = (None, snd (deleteProject p tb))"
    by (subst r) (simp add: e)
next
  let ?f = "pipelineVersionsFilter projectId pipelineId"
  let ?r = "deletePipeline D projectId pipelineId tb'"
  assume ok: "fst ?r = None"
  have live: "\<And>x. holds ?f x \<Longrightarrow> x ''deleted'' = Some (BOOL False)"
    and own: "\<And>x. holds ?f x \<Longrightarrow> x ''id'' = Some (S projectId)"
    by (simp_all add: pipelineVersionsFilter_def)
  have r: "deletePipeline D projectId pipelineId tb
      = deletePipelineLoop D projectId (scan ?f tb) tb" for tb
    by (simp add: deletePipeline_def pipelineVersionsFilter_def)
  have ok': "fst (deletePipelineLoop D projectId (scan ?f tb') tb') = None"
    using ok by (simp add: r)
  have c: "scan ?f (snd (deletePipelineLoop D projectId (scan ?f tb') tb'))
       = filter (\<lambda>x. \<forall>q \<in> set (scan ?f tb').
                    \<forall>t. q ''type'' = Some (S t) \<longrightarrow> \<not> hasKey projectId t x) (scan ?f tb')
     \<and> (\<forall>q \<in> set (scan ?f tb'). \<exists>t. q ''type'' = Some (S t))"
    by (rule deletePipelineLoop_scan[of D projectId "scan ?f tb'" tb' ?f])
       (use ok' live in auto)
  have e: "scan ?f (snd ?r) = []"
    unfolding r
    by (rule rescan_empty[of ?f _ tb' projectId]) (use c own in auto)
  show "scan ?f (snd ?r) = []" by (rule e)
  show "deletePipeline D projectId pipelineId (snd ?r) = (None, snd ?r)"
    by (subst r) (simp add: e)
qed

lemmas table_eval = scan_def sendWrite_def condPasses_def existing_def writeUpdate_def
  getItem_def hasKey_def attrOf_def

theorem soft_delete_idempotent_witness:
  "fst (deleteProject ''p1'' exProjectTable) = None
   \<and> scan (projectFilter ''p1'') (snd (deleteProject ''p1'' exProjectTable)) = []
   \<and> deleteProject ''p1'' (snd (deleteProject ''p1'' exProjectTable))
       = (None, snd (deleteProject ''p1'' exProjectTable))
   \<and> attrOf (getItem (snd (deleteProject ''p1'' exProjectTable)) ''p1'' ''APP#a1'') ''deleted''
       = Some (BOOL True)
   \<and> attrOf (getItem (snd (deleteProject ''p1'' exProjectTable)) ''p2'' ''METADATA#p2'') ''deleted''
       = Some (BOOL False)
   \<and> fst (deletePipeline ''Deleting'' ''p1'' ''pl1'' exVersionsTable) = None
   \<and> scan (pipelineVersionsFilter ''p1'' ''pl1'')
        (snd (deletePipeline ''Deleting'' ''p1'' ''pl1'' exVersionsTable)) = []
   \<and> deletePipeline ''Deleting'' ''p1'' ''pl1''
        (snd (deletePipeline ''Deleting'' ''p1'' ''pl1'' exVersionsTable))
       = (None, snd (deletePipeline ''Deleting'' ''p1'' ''pl1'' exVersionsTable))
   \<and> attrOf (getItem (snd (deletePipeline ''Deleting'' ''p1'' ''pl1'' exVersionsTable))
        ''p1'' ''PIPELINE#pl1#100'') ''status'' = Some (M [(''status'', S ''Deleting'')])"
proof -
  have a: "fst (deleteProject ''p1'' exProjectTable) = None"
    by (simp add: deleteProject_def exProjectTable_def table_eval)
  have b: "fst (deletePipeline ''Deleting'' ''p1'' ''pl1'' exVersionsTable) = None"
    by (simp add: deletePipeline_def exVersionsTable_def markDeleting_def table_eval)
  have c: "attrOf (getItem (snd (deleteProject ''p1'' exProjectTable)) ''p1'' ''APP#a1'')
        ''deleted'' = Some (BOOL True)"
    "attrOf (getItem (snd (deleteProject ''p1'' exProjectTable)) ''p2'' ''METADATA#p2'')
        ''deleted'' = Some (BOOL False)"
    by (simp_all add: deleteProject_def exProjectTable_def table_eval)
  have d: "attrOf (getItem (snd (deletePipeline ''Deleting'' ''p1'' ''pl1'' exVersionsTable))
        ''p1'' ''PIPELINE#pl1#100'') ''status'' = Some (M [(''status'', S ''Deleting'')])"
    by (simp add: deletePipeline_def exVersionsTable_def markDeleting_def table_eval)
  from soft_delete_idempotent[of "''p1''" exProjectTable "''Deleting''" "''p1''" "''pl1''"
      exVersionsTable]
    a b c d
  show ?thesis by simp
qed

text \<open>
  The records are updated one command at a time, and a run that stops on the way leaves
  the records it has reached deleted: here the second version has a status that is a
  string, the assignment of its member raises, and the first version stays deleted.
\<close>

lemma deletePipeline_not_atomic:
  "fst (deletePipeline ''Deleting'' ''p1'' ''pl1'' exMixedVersionsTable) = Some TypeError
   \<and> attrOf (getItem (snd (deletePipeline ''Deleting'' ''p1'' ''pl1'' exMixedVersionsTable))
        ''p1'' ''PIPELINE#pl1#latest'') ''deleted'' = Some (BOOL True)
   \<and> attrOf (getItem (snd (deletePipeline ''Deleting'' ''p1'' ''pl1'' exMixedVersionsTable))
        ''p1'' ''PIPELINE#pl1#100'') ''deleted'' = Some (BOOL False)"
  by (simp add: deletePipeline_def exMixedVersionsTable_def markDeleting_def table_eval)

lemma ceilDiv_bounds:
  assumes "0 < b"
  shows "b * (ceilDiv a b - 1) < a" "a \<le> b * ceilDiv a b"
proof -
  have q: "b * ((- a) div b) + (- a) mod b = - a" by (rule mult_div_mod_eq)
  have m: "0 \<le> (- a) mod b" "(- a) mod b < b" using assms by simp_all
  have "b * ceilDiv a b = - (b * ((- a) div b))" by (simp add: ceilDiv_def)
  with q have "b * ceilDiv a b = a + (- a) mod b" by linarith
  then show "b * (ceilDiv a b - 1) < a" "a \<le> b * ceilDiv a b"
    using m by (simp_all add: algebra_simps)
qed

lemma ceilDiv_pos: "0 < b \<Longrightarrow> 0 < a \<Longrightarrow> 1 \<le> ceilDiv a b"
proof -
  assume b: "0 < b" and a: "0 < a"
  from ceilDiv_bounds(2)[OF b, of a] a have "0 < b * ceilDiv a b" by simp
  then have "0 < ceilDiv a b" using b by (simp add: zero_less_mult_iff)
  then show ?thesis by simp
qed

lemma slice_inside:
  assumes "0 \<le> s" "s \<le> e" "e \<le> int (length xs)"
  shows "slice xs (Num s) (Num e) = take (nat (e - s)) (drop (nat s) xs)"
  using assms by (simp add: slice_def Let_def min_def)

lemma servedPage_min:
  "atLeastOne pageNumber \<Longrightarrow>
     minNumber (Num final) pageNumber = Num (servedPage final pageNumber)"
  by (cases pageNumber) simp_all

lemma servedPage_bounds:
  "atLeastOne pageNumber \<Longrightarrow> 1 \<le> final \<Longrightarrow>
     1 \<le> servedPage final pageNumber \<and> servedPage final pageNumber \<le> final"
  by (cases pageNumber) simp_all

lemma paginate_page:
  assumes ps: "1 \<le> pageSize" and pn: "atLeastOne pageNumber" and ne: "records \<noteq> []"
  shows "clampedPage records (paginate records True (Num pageSize) pageNumber) pageSize pageNumber"
proof -
  let ?t = "int (length records)"
  let ?last = "ceilDiv ?t pageSize"
  let ?p = "servedPage ?last pageNumber"
  let ?r = "paginate records True (Num pageSize) pageNumber"
  define s where "s = pageSize * (?p - 1)"
  define sl where "sl = pageSize * (?last - 1)"
  have t: "0 < ?t" using ne by simp
  have b: "0 < pageSize" using ps by simp
  note cb = ceilDiv_bounds[OF b, of ?t]
  have l1: "1 \<le> ?last" by (rule ceilDiv_pos[OF b t])
  have p1: "1 \<le> ?p" "?p \<le> ?last" using servedPage_bounds[OF pn l1] by simp_all
  have s0: "0 \<le> s" unfolding s_def using p1 b by simp
  have ssl: "s \<le> sl" unfolding s_def sl_def using p1 b by (intro mult_left_mono) simp_all
  have slt: "sl < ?t" unfolding sl_def by (rule cb(1))
  have st: "s < ?t" using ssl slt by simp
  have pe: "pageSize * ?p = s + pageSize" unfolding s_def by (simp add: algebra_simps)
  have le: "?t \<le> sl + pageSize" using cb(2) unfolding sl_def by (simp add: algebra_simps)
  let ?e = "min (pageSize * ?p) ?t"
  have e: "s \<le> ?e" "?e \<le> ?t" using pe st b by simp_all
  have pg: "?r = \<lparr>totalCount = ?t, items = slice records (Num s) (Num ?e)\<rparr>"
    using t b by (simp add: paginate_def Let_def s_def servedPage_min[OF pn])
  have sli: "slice records (Num s) (Num ?e) = take (nat (?e - s)) (drop (nat s) records)"
    by (rule slice_inside[OF s0 e])
  have len: "length (drop (nat s) records) = nat (?t - s)"
    using s0 by (simp add: nat_diff_distrib')
  have tk: "take (nat (?e - s)) (drop (nat s) records) = take (nat pageSize) (drop (nat s) records)"
  proof (cases "pageSize \<le> ?t - s")
    case True
    then have "?e - s = pageSize" using pe by simp
    then show ?thesis by simp
  next
    case False
    then have "?e - s = ?t - s" using pe by simp
    moreover have "length (drop (nat s) records) \<le> nat pageSize" using len False by simp
    ultimately show ?thesis using len by simp
  qed
  have "items ?r = take (nat pageSize) (drop (nat s) records)"
    by (simp add: pg sli tk)
  moreover have "pageOf records pageSize ?p = take (nat pageSize) (drop (nat s) records)"
    by (simp add: pageOf_def s_def)
  ultimately have it: "items ?r = pageOf records pageSize ?p"
    by simp
  have nonempty: "pageOf records pageSize ?p \<noteq> []"
    using st s0 b by (simp add: pageOf_def s_def[symmetric])
  have lastpage: "pageOf records pageSize ?last = drop (nat sl) records"
  proof -
    have "length (drop (nat sl) records) \<le> nat pageSize"
      using le slt by simp
    then show ?thesis by (simp add: pageOf_def sl_def)
  qed
  have tc: "totalCount ?r = ?t"
    by (simp add: pg)
  have ne': "items ?r \<noteq> []"
    using it nonempty by simp
  have lp: "items ?r = drop (nat (pageSize * (?last - 1))) records" if "?p = ?last"
    using that it lastpage by (simp add: sl_def)
  show ?thesis
    unfolding clampedPage_def lastPage_def by (intro impI conjI tc it ne' lp)
qed

lemma paginate_clamped:
  assumes "1 \<le> pageSize" "atLeastOne pageNumber"
  shows "clampedPage records (paginate records True (Num pageSize) pageNumber) pageSize pageNumber"
proof (cases "records = []")
  case True
  then show ?thesis by (simp add: clampedPage_def)
next
  case False
  from paginate_page[OF assms False] show ?thesis .
qed

text \<open>A query returns the records of the index partition that pass its filter, by time.\<close>

lemma query_liveRecords:
  "query prefix flt (order = ''asc'') tb = liveRecords prefix (holds flt) order tb"
  by (simp add: query_def liveRecords_def Let_def filter_sort rev_filter[symmetric])

lemma query_as_live:
  "(\<And>it. holds flt it = live it) \<Longrightarrow>
     query prefix flt (order = ''asc'') tb = liveRecords prefix live order tb"
  by (simp add: query_def liveRecords_def Let_def filter_sort rev_filter[symmetric])

lemma liveRecords_cong:
  "(\<And>it. live it = live' it) \<Longrightarrow> liveRecords prefix live order tb = liveRecords prefix live' order tb"
  by (simp add: liveRecords_def)

lemma pipelineFilter_holds:
  "holds (pipelineFilter isEmpty projectId version) it =
     (notDeleted it \<and> (isEmpty version \<or> it ''versionTag'' = Some (S version))
      \<and> (isEmpty projectId \<or> it ''id'' = Some (S projectId)))"
  by (auto simp: pipelineFilter_def notDeleted_def Let_def)

lemma pluginFilter_holds:
  "holds (pluginFilter isEmpty pluginType) it =
     (notDeleted it \<and> (isEmpty pluginType \<or> it ''pluginType'' = Some (S pluginType)))"
  by (auto simp: pluginFilter_def notDeleted_def)

lemma convertAll_objects:
  "convertAll unaryPlus (map M entries)
     = Inr (map (\<lambda>e. convertBuiltIn unaryPlus (map_of e)) entries)"
  by (induction entries) (simp_all add: objectOf_def)

lemma listedBuiltIns_objects:
  assumes "getDictionary ''BuildInPlugins'' dict = Some dic" "dic ''data'' = Some (L (map M entries))"
  shows "listedBuiltIns isEmpty unaryPlus pluginType dict
           = Inr (builtInsOf isEmpty unaryPlus pluginType entries)"
proof (cases "isEmpty pluginType")
  case True
  then show ?thesis
    using assms by (simp add: listedBuiltIns_def buildInPlugins_def convertAll_objects builtInsOf_def)
next
  case False
  then show ?thesis
    using assms by (simp add: listedBuiltIns_def buildInPlugins_def convertAll_objects builtInsOf_def)
qed

text \<open>
  Claim C4, as amended.  For every listing function, with pagination, an integer page
  size of at least 1 and a page number of at least 1, which may be infinite: when the
  records that the listing counts are not none, the total count is their number, the
  items are their page of number \<open>min (ceil (total / pageSize)) pageNumber\<close>, the items are
  not empty, and a page number at or beyond the last page gives the last page.  The
  records counted are read off the table: the items of the listing's index partition
  that are not deleted and match its arguments, by creation time; for plugins the built-in
  plugins of the dictionary come first.
\<close>

theorem listing_page_clamped:
  assumes "1 \<le> pageSize" "atLeastOne pageNumber"
  shows "clampedPage (liveRecords ''METADATA'' notDeleted order tb)
           (listProjects order True (Num pageSize) pageNumber tb) pageSize pageNumber
       \<and> clampedPage
           (liveRecords ''APP'' (\<lambda>it. it ''projectId'' = Some (S projectId) \<and> notDeleted it) order tb)
           (listApplication projectId order True (Num pageSize) pageNumber tb) pageSize pageNumber
       \<and> clampedPage
           (liveRecords ''PIPELINE''
              (\<lambda>it. notDeleted it \<and> (isEmpty version \<or> it ''versionTag'' = Some (S version))
                    \<and> (isEmpty projectId \<or> it ''id'' = Some (S projectId))) order tb)
           (listPipeline isEmpty projectId version order True (Num pageSize) pageNumber tb)
           pageSize pageNumber
       \<and> (getDictionary ''BuildInPlugins'' dict = None \<longrightarrow>
            (\<exists>r. listPlugin isEmpty unaryPlus pluginType order True (Num pageSize) pageNumber dict tb
                    = Inr r
               \<and> clampedPage
                    (liveRecords ''PLUGIN''
                       (\<lambda>it. notDeleted it
                             \<and> (isEmpty pluginType \<or> it ''pluginType'' = Some (S pluginType)))
                       order tb)
                    r pageSize pageNumber))
       \<and> (\<forall>dic entries.
            getDictionary ''BuildInPlugins'' dict = Some dic
            \<and> dic ''data'' = Some (L (map M entries)) \<longrightarrow>
            (\<exists>r. listPlugin isEmpty unaryPlus pluginType order True (Num pageSize) pageNumber dict tb
                    = Inr r
               \<and> clampedPage
                    (builtInsOf isEmpty unaryPlus pluginType entries
                     @ liveRecords ''PLUGIN''
                         (\<lambda>it. notDeleted it
                               \<and> (isEmpty pluginType \<or> it ''pluginType'' = Some (S pluginType)))
                         order tb)
                    r pageSize pageNumber))"
proof -
  note c = paginate_clamped[OF assms]
  have a: "clampedPage (liveRecords ''METADATA'' notDeleted order tb)
      (listProjects order True (Num pageSize) pageNumber tb) pageSize pageNumber"
    using c[of "liveRecords ''METADATA'' notDeleted order tb"]
      liveRecords_cong[of "holds (Equals ''deleted'' (BOOL False))" notDeleted "''METADATA''" order tb]
    by (simp add: listProjects_def query_liveRecords notDeleted_def)
  have b: "clampedPage
      (liveRecords ''APP'' (\<lambda>it. it ''projectId'' = Some (S projectId) \<and> notDeleted it) order tb)
      (listApplication projectId order True (Num pageSize) pageNumber tb) pageSize pageNumber"
    using c[of "liveRecords ''APP'' (\<lambda>it. it ''projectId'' = Some (S projectId) \<and> notDeleted it)
          order tb"]
      liveRecords_cong[of
        "holds (AndC (Equals ''projectId'' (S projectId)) (Equals ''deleted'' (BOOL False)))"
        "\<lambda>it. it ''projectId'' = Some (S projectId) \<and> notDeleted it" "''APP''" order tb]
    by (simp add: listApplication_def query_liveRecords notDeleted_def)
  have d: "clampedPage
      (liveRecords ''PIPELINE''
         (\<lambda>it. notDeleted it \<and> (isEmpty version \<or> it ''versionTag'' = Some (S version))
               \<and> (isEmpty projectId \<or> it ''id'' = Some (S projectId))) order tb)
      (listPipeline isEmpty projectId version order True (Num pageSize) pageNumber tb)
      pageSize pageNumber"
    using c by (simp add: listPipeline_def query_as_live[OF pipelineFilter_holds])
  have e: "\<exists>r. listPlugin isEmpty unaryPlus pluginType order True (Num pageSize) pageNumber dict tb
                    = Inr r
      \<and> clampedPage
           (liveRecords ''PLUGIN''
              (\<lambda>it. notDeleted it \<and> (isEmpty pluginType \<or> it ''pluginType'' = Some (S pluginType)))
              order tb)
           r pageSize pageNumber"
    if "getDictionary ''BuildInPlugins'' dict = None"
    using that c
    by (simp add: listPlugin_def listedBuiltIns_def query_as_live[OF pluginFilter_holds])
  have f: "\<exists>r. listPlugin isEmpty unaryPlus pluginType order True (Num pageSize) pageNumber dict tb
                    = Inr r
      \<and> clampedPage
           (builtInsOf isEmpty unaryPlus pluginType entries
            @ liveRecords ''PLUGIN''
                (\<lambda>it. notDeleted it \<and> (isEmpty pluginType \<or> it ''pluginType'' = Some (S pluginType)))
                order tb)
           r pageSize pageNumber"
    if "getDictionary ''BuildInPlugins'' dict = Some dic" "dic ''data'' = Some (L (map M entries))"
    for dic entries
    using c listedBuiltIns_objects[OF that, of isEmpty unaryPlus pluginType]
    by (simp add: listPlugin_def query_as_live[OF pluginFilter_holds])
  show ?thesis
    using a b d e f by blast
qed

lemma exPipe_facts:
  "timeOf exPipe1 = 1" "timeOf exPipe2 = 2" "timeOf exPipe3 = 3" "timeOf exPipeGone = 4"
  "indexed ''PIPELINE'' exPipe1" "indexed ''PIPELINE'' exPipe2" "indexed ''PIPELINE'' exPipe3"
  "indexed ''PIPELINE'' exPipeGone"
  "notDeleted exPipe1" "notDeleted exPipe2" "notDeleted exPipe3" "\<not> notDeleted exPipeGone"
  "exPipe1 ''versionTag'' = Some (S ''latest'')" "exPipe2 ''versionTag'' = Some (S ''latest'')"
  "exPipe3 ''versionTag'' = Some (S ''latest'')"
  "exPipe1 ''id'' = Some (S ''p1'')" "exPipe2 ''id'' = Some (S ''p1'')"
  "exPipe3 ''id'' = Some (S ''p1'')"
  by (simp_all add: timeOf_def indexed_def notDeleted_def
      exPipe1_def exPipe2_def exPipe3_def exPipeGone_def)

lemma exPipelines_live:
  "liveRecords ''PIPELINE''
     (\<lambda>it. notDeleted it \<and> (emptyString ''latest'' \<or> it ''versionTag'' = Some (S ''latest''))
           \<and> (emptyString ''p1'' \<or> it ''id'' = Some (S ''p1''))) ''asc'' exPipelines
     = [exPipe1, exPipe2, exPipe3]"
  by (simp add: liveRecords_def exPipelines_def exPipe_facts emptyString_def)

lemma exPipelines_query:
  "query ''PIPELINE'' (pipelineFilter emptyString ''p1'' ''latest'') True exPipelines
     = [exPipe1, exPipe2, exPipe3]"
proof -
  have "query ''PIPELINE'' (pipelineFilter emptyString ''p1'' ''latest'') (''asc'' = ''asc'') exPipelines
      = liveRecords ''PIPELINE''
          (\<lambda>it. notDeleted it \<and> (emptyString ''latest'' \<or> it ''versionTag'' = Some (S ''latest''))
                \<and> (emptyString ''p1'' \<or> it ''id'' = Some (S ''p1''))) ''asc'' exPipelines"
    by (rule query_as_live) (rule pipelineFilter_holds)
  then show ?thesis by (simp add: exPipelines_live)
qed

theorem listing_page_clamped_witness:
  "(1::int) \<le> 2 \<and> atLeastOne (Num 7) \<and> atLeastOne PosInf
   \<and> listPipeline emptyString ''p1'' ''latest'' ''asc'' True (Num 2) (Num 7) exPipelines
       = \<lparr>totalCount = 3, items = [exPipe3]\<rparr>
   \<and> listPipeline emptyString ''p1'' ''latest'' ''asc'' True (Num 2) (Num 1) exPipelines
       = \<lparr>totalCount = 3, items = [exPipe1, exPipe2]\<rparr>
   \<and> listPipeline emptyString ''p1'' ''latest'' ''asc'' True (Num 2) PosInf exPipelines
       = \<lparr>totalCount = 3, items = [exPipe3]\<rparr>"
proof -
  have l: "lastPage [exPipe1, exPipe2, exPipe3] 2 = 2"
    by (simp add: lastPage_def ceilDiv_def)
  have a: "listPipeline emptyString ''p1'' ''latest'' ''asc'' True (Num 2) pn exPipelines
      = \<lparr>totalCount = 3, items = pageOf [exPipe1, exPipe2, exPipe3] 2 (servedPage 2 pn)\<rparr>"
    if "atLeastOne pn" for pn
    using listing_page_clamped[of 2 pn "''asc''" exPipelines "''p1''" emptyString "''latest''"] that
    by (simp add: exPipelines_live clampedPage_def l)
  show ?thesis
    using a[of "Num 7"] a[of "Num 1"] a[of PosInf] by (simp add: pageOf_def)
qed

text \<open>
  The claim as stated fails for the page size \<open>Infinity\<close>, which is a number of at least
  1: the quotient is 0, the page number becomes 0, the start index is minus infinity and
  the end index is \<open>NaN\<close>, and the slice is empty although three records are counted.
\<close>

theorem listing_page_clamped_counterexample:
  "listPipeline emptyString ''p1'' ''latest'' ''asc'' True PosInf (Num 1) exPipelines
     = \<lparr>totalCount = 3, items = []\<rparr>"
  by (simp add: listPipeline_def exPipelines_query paginate_def slice_def Let_def)
lemma set_slice: "set (slice xs a b) \<subseteq> set xs"
  by (auto simp: slice_def Let_def dest: in_set_takeD in_set_dropD)

lemma set_paginate: "set (items (paginate records pg ps pn)) \<subseteq> set records"
  using set_slice[of records] by (auto simp: paginate_def Let_def)

lemma query_holds: "x \<in> set (query prefix flt fwd tb) \<Longrightarrow> holds flt x"
  by (auto simp: query_def Let_def split: if_splits)

lemma pipelineFilter_live:
  "holds (pipelineFilter isEmpty projectId version) x \<Longrightarrow> x ''deleted'' = Some (BOOL False)"
  by (auto simp: pipelineFilter_def Let_def split: if_splits)

lemma pluginFilter_live:
  "holds (pluginFilter isEmpty pluginType) x \<Longrightarrow> x ''deleted'' = Some (BOOL False)"
  by (auto simp: pluginFilter_def split: if_splits)

lemma listed_live:
  assumes "x \<in> set (items (paginate (query prefix flt fwd tb) pg ps pn))"
    and "\<And>y. holds flt y \<Longrightarrow> y ''deleted'' = Some (BOOL False)"
  shows "x ''deleted'' = Some (BOOL False)"
  using assms set_paginate[of "query prefix flt fwd tb" pg ps pn] query_holds[of x prefix flt fwd tb]
  by blast

text \<open>
  Claim C3, as amended.  A record of the table whose \<open>deleted\<close> attribute is \<open>true\<close> is not
  returned by \<open>getProject\<close>, \<open>getApplication\<close>, \<open>getPipeline\<close> or, where \<open>getPlugin\<close> reads the
  table, by \<open>getPlugin\<close>; and it is not among the items of \<open>listProjects\<close>,
  \<open>listApplication\<close> and \<open>listPipeline\<close>, nor among the items that \<open>listPlugin\<close> takes from
  the table.
\<close>

theorem deleted_records_hidden:
  assumes d: "it ''deleted'' = Some (BOOL True)"
  shows "(getItem tb i (''METADATA#'' @ i) = Some it \<longrightarrow> getProject i tb = None)
     \<and> (getItem tb p (''APP#'' @ a) = Some it \<longrightarrow> getApplication p a tb = None)
     \<and> (getItem tb p (pipelineType pl (case v of None \<Rightarrow> ''latest'' | Some x \<Rightarrow> x)) = Some it \<longrightarrow>
          getPipeline p pl v tb = None)
     \<and> (getItem tb i (''PLUGIN#'' @ i) = Some it
          \<and> (take 7 i \<noteq> ''BUILDIN'' \<or> getDictionary ''BuildInPlugins'' dict = None) \<longrightarrow>
          getPlugin isEmptyList unaryPlus i dict tb = Inr None)
     \<and> it \<notin> set (items (listProjects order pg ps pn tb))
     \<and> it \<notin> set (items (listApplication p order pg ps pn tb))
     \<and> it \<notin> set (items (listPipeline isEmpty p version order pg ps pn tb))
     \<and> (\<forall>r builtIns.
          listPlugin isEmpty unaryPlus pluginType order pg ps pn dict tb = Inr r
          \<and> listedBuiltIns isEmpty unaryPlus pluginType dict = Inr builtIns
          \<and> it \<in> set (items r) \<longrightarrow> it \<in> set builtIns)"
proof -
  have t: "truthy (it ''deleted'')" using d by simp
  have g1: "getItem tb i (''METADATA#'' @ i) = Some it \<Longrightarrow> getProject i tb = None"
    using t by (simp add: getProject_def)
  have g2: "getItem tb p (''APP#'' @ a) = Some it \<Longrightarrow> getApplication p a tb = None"
    using t by (simp add: getApplication_def)
  have g3: "getItem tb p (pipelineType pl (case v of None \<Rightarrow> ''latest'' | Some x \<Rightarrow> x)) = Some it
      \<Longrightarrow> getPipeline p pl v tb = None"
    using t by (simp add: getPipeline_def)
  have g4: "getPlugin isEmptyList unaryPlus i dict tb = Inr None"
    if "getItem tb i (''PLUGIN#'' @ i) = Some it"
      and "take 7 i \<noteq> ''BUILDIN'' \<or> getDictionary ''BuildInPlugins'' dict = None"
    using that t by (auto simp: getPlugin_def getPluginRecord_def)
  have l1: "it \<notin> set (items (listProjects order pg ps pn tb))"
    using d listed_live[of it "''METADATA''" "Equals ''deleted'' (BOOL False)"]
    by (auto simp: listProjects_def)
  have l2: "it \<notin> set (items (listApplication p order pg ps pn tb))"
    using d listed_live[of it "''APP''"
        "AndC (Equals ''projectId'' (S p)) (Equals ''deleted'' (BOOL False))"]
    by (auto simp: listApplication_def)
  have l3: "it \<notin> set (items (listPipeline isEmpty p version order pg ps pn tb))"
    using d listed_live[of it "''PIPELINE''" "pipelineFilter isEmpty p version"]
      pipelineFilter_live[of isEmpty p version]
    by (auto simp: listPipeline_def)
  have l4: "it \<in> set builtIns"
    if "listPlugin isEmpty unaryPlus pluginType order pg ps pn dict tb = Inr r"
      "listedBuiltIns isEmpty unaryPlus pluginType dict = Inr builtIns"
      "it \<in> set (items r)" for r builtIns
  proof -
    from that(1,2) have "items r = items (paginate
        (builtIns @ query ''PLUGIN'' (pluginFilter isEmpty pluginType) (order = ''asc'') tb)
        pg ps pn)"
      by (auto simp: listPlugin_def)
    with that(3) set_paginate have "it \<in> set builtIns
        \<or> it \<in> set (query ''PLUGIN'' (pluginFilter isEmpty pluginType) (order = ''asc'') tb)"
      by fastforce
    then show ?thesis
      using d query_holds pluginFilter_live by fastforce
  qed
  show ?thesis
    using g1 g2 g3 g4 l1 l2 l3 l4 by blast
qed

lemma exGone_facts:
  "getItem exGoneTable ''p9'' (''METADATA#'' @ ''p9'') = Some exGoneProject"
  "getItem exGoneTable ''p9'' (''APP#'' @ ''a9'') = Some exGoneApp"
  "getItem exGoneTable ''plug9'' (''PLUGIN#'' @ ''plug9'') = Some exGonePlugin"
  "exGoneProject ''deleted'' = Some (BOOL True)"
  "exGoneApp ''deleted'' = Some (BOOL True)"
  "exGonePlugin ''deleted'' = Some (BOOL True)"
  by (simp_all add: exGoneTable_def exGoneProject_def exGoneApp_def exGonePlugin_def
      getItem_def hasKey_def)

theorem deleted_records_hidden_witness:
  "exGoneProject ''deleted'' = Some (BOOL True)
   \<and> getItem exGoneTable ''p9'' ''METADATA#p9'' = Some exGoneProject
   \<and> getProject ''p9'' exGoneTable = None
   \<and> getApplication ''p9'' ''a9'' exGoneTable = None
   \<and> getPlugin emptyList plusOnNumbers ''plug9'' exDictionary exGoneTable = Inr None
   \<and> exGoneProject \<notin> set (items (listProjects ''asc'' False (Num 10) (Num 1) exGoneTable))
   \<and> exGoneApp \<notin> set (items (listApplication ''p9'' ''asc'' False (Num 10) (Num 1) exGoneTable))"
  using deleted_records_hidden[where it = exGoneProject and tb = exGoneTable and i = "''p9''"
      and order = "''asc''" and pg = False and ps = "Num 10" and pn = "Num 1"]
    deleted_records_hidden[where it = exGoneApp and tb = exGoneTable and p = "''p9''"
      and a = "''a9''" and order = "''asc''" and pg = False and ps = "Num 10" and pn = "Num 1"]
    deleted_records_hidden[where it = exGonePlugin and tb = exGoneTable and i = "''plug9''"
      and dict = exDictionary and isEmptyList = emptyList and unaryPlus = plusOnNumbers]
    exGone_facts
  by simp

text \<open>
  The claim as stated fails for the built-in plugins: an entry of the dictionary whose
  \<open>deleted\<close> is \<open>true\<close> is returned by \<open>getPlugin\<close> and listed by \<open>listPlugin\<close>.
\<close>

theorem deleted_records_hidden_counterexample:
  "exBuiltIn ''deleted'' = Some (BOOL True)
   \<and> getPlugin emptyList plusOnNumbers ''BUILDIN-1'' exDictionary [] = Inr (Some exBuiltIn)
   \<and> map_sum id items (listPlugin emptyString plusOnNumbers '''' ''asc'' False (Num 10) (Num 1) exDictionary [])
       = Inr [exBuiltIn]"
proof -
  have a: "exBuiltIn ''deleted'' = Some (BOOL True)" "exBuiltIn ''id'' = Some (S ''BUILDIN-1'')"
    by (simp_all add: exBuiltIn_def convertBuiltIn_def exBuiltInEntry_def)
  have b: "buildInPlugins plusOnNumbers [''name'' \<mapsto> S ''BuildInPlugins'', ''data'' \<mapsto> L [M exBuiltInEntry]]
      = Inr [exBuiltIn]"
    by (simp add: buildInPlugins_def objectOf_def exBuiltIn_def)
  have c: "getDictionary ''BuildInPlugins'' exDictionary
      = Some [''name'' \<mapsto> S ''BuildInPlugins'', ''data'' \<mapsto> L [M exBuiltInEntry]]"
    by (simp add: getDictionary_def exDictionary_def)
  show ?thesis
    using a
    by (simp add: getPlugin_def listPlugin_def listedBuiltIns_def b c emptyList_def
        emptyString_def paginate_def query_def)
qed

lemma reconcile_parts:
  "fst (snd (reconcile eng upd p tb)) = reconciled eng p"
  "snd (snd (snd (reconcile eng upd p tb))) = expectedCalls eng p"
  by (auto simp: reconcile_def reconciled_def expectedCalls_def Let_def
      split: option.splits prod.splits)

lemma expectedCalls_no_engineWrite: "\<not> list_ex engineWrite (expectedCalls eng p)"
  by (simp add: expectedCalls_def engineWrite_def split: option.splits)

lemma reconcileAll_no_engineWrite:
  "\<not> list_ex engineWrite (snd (snd (snd (reconcileAll eng upd ps tb))))"
proof (induction ps arbitrary: tb)
  case Nil
  show ?case by simp
next
  case (Cons p ps)
  obtain e p' tb' cs where r: "reconcile eng upd p tb = (e, p', tb', cs)"
    by (metis prod_cases4)
  have cs: "cs = expectedCalls eng p"
    using reconcile_parts(2)[of eng upd p tb] by (simp add: r)
  show ?case
    using Cons.IH[of tb'] expectedCalls_no_engineWrite[of eng p] cs
    by (cases e) (auto simp: r split: prod.splits)
qed


lemma details_reconcile:
  assumes g: "getPipeline pid i None tb = Some p"
  shows "calls (PipelineServ_details eng upd pid i tb) = expectedCalls eng p"
    "store (PipelineServ_details eng upd pid i tb) = fst (snd (snd (reconcile eng upd p tb)))"
    "response (PipelineServ_details eng upd pid i tb) =
       (case fst (reconcile eng upd p tb) of
          None \<Rightarrow> ApiSuccess 200 (PItem (reconciled eng p)) None
        | Some e \<Rightarrow> Next e)"
proof -
  obtain e p' tb' cs where r: "reconcile eng upd p tb = (e, p', tb', cs)"
    by (metis prod_cases4)
  have p': "p' = reconciled eng p" and cs: "cs = expectedCalls eng p"
    using reconcile_parts[of eng upd p tb] by (simp_all add: r)
  show "calls (PipelineServ_details eng upd pid i tb) = expectedCalls eng p"
    using cs by (cases e) (simp_all add: PipelineServ_details_def g r)
  show "store (PipelineServ_details eng upd pid i tb) = fst (snd (snd (reconcile eng upd p tb)))"
    by (cases e) (simp_all add: PipelineServ_details_def g r)
  show "response (PipelineServ_details eng upd pid i tb) =
       (case fst (reconcile eng upd p tb) of
          None \<Rightarrow> ApiSuccess 200 (PItem (reconciled eng p)) None
        | Some e \<Rightarrow> Next e)"
    using p' by (cases e) (simp_all add: PipelineServ_details_def g r)
qed

lemma details_missing:
  "getPipeline pid i None tb = None \<Longrightarrow>
     PipelineServ_details eng upd pid i tb
       = \<lparr>response = ApiFail 404 ''Pipeline not found'', store = tb, calls = []\<rparr>"
  by (simp add: PipelineServ_details_def)

lemma list_no_engineWrite:
  "\<not> list_ex engineWrite
       (calls (PipelineServ_list eng upd isEmpty pid version order pageSize pageNumber tb))"
proof -
  let ?page = "items (listPipeline isEmpty pid version order True pageSize pageNumber tb)"
  obtain e ps tb' cs where r: "reconcileAll eng upd ?page tb = (e, ps, tb', cs)"
    by (metis prod_cases4)
  have c: "calls (PipelineServ_list eng upd isEmpty pid version order pageSize pageNumber tb) = cs"
    by (cases e) (simp_all add: PipelineServ_list_def Let_def r)
  show ?thesis
    using reconcileAll_no_engineWrite[of eng upd ?page tb] by (simp add: c r)
qed

lemma details_no_engineWrite:
  "\<not> list_ex engineWrite (calls (PipelineServ_details eng upd pid i tb))"
proof (cases "getPipeline pid i None tb")
  case None
  then show ?thesis by (simp add: details_missing)
next
  case (Some p)
  then show ?thesis
    using expectedCalls_no_engineWrite[of eng p] by (simp add: details_reconcile(1))
qed

text \<open>The loop of \<open>list\<close>, when no write raises and when one does.\<close>

lemma reconcile_cases:
  "reconcile eng upd p tb =
     (if needsWrite eng p
      then (fst (upd (p(''status'' \<mapsto> S (statusReported eng p))) (statusReported eng p) tb),
            reconciled eng p,
            snd (upd (p(''status'' \<mapsto> S (statusReported eng p))) (statusReported eng p) tb),
            expectedCalls eng p)
      else (None, reconciled eng p, tb, expectedCalls eng p))"
  by (auto simp: reconcile_def needsWrite_def statusReported_def reconciled_def expectedCalls_def
      Let_def split: option.splits prod.splits)

lemma reconcileAll_written:
  "noWriteRaises eng upd ps tb \<Longrightarrow>
     reconcileAll eng upd ps tb
       = (None, map (reconciled eng) ps, writeBacks eng upd ps tb,
          concat (map (expectedCalls eng) ps))"
proof (induction ps arbitrary: tb)
  case Nil
  show ?case by simp
next
  case (Cons p ps)
  show ?case
  proof (cases "needsWrite eng p")
    case True
    with Cons.prems have
      e: "fst (upd (p(''status'' \<mapsto> S (statusReported eng p))) (statusReported eng p) tb) = None"
      and rest: "noWriteRaises eng upd ps
        (snd (upd (p(''status'' \<mapsto> S (statusReported eng p))) (statusReported eng p) tb))"
      by simp_all
    show ?thesis
      using True e Cons.IH[OF rest] by (simp add: reconcile_cases)
  next
    case False
    with Cons.prems have rest: "noWriteRaises eng upd ps tb" by simp
    show ?thesis
      using False Cons.IH[OF rest] by (simp add: reconcile_cases)
  qed
qed

lemma reconcileAll_raised:
  "\<not> noWriteRaises eng upd ps tb \<Longrightarrow> fst (reconcileAll eng upd ps tb) \<noteq> None"
proof (induction ps arbitrary: tb)
  case Nil
  then show ?case by simp
next
  case (Cons p ps)
  show ?case
  proof (cases "needsWrite eng p")
    case True
    let ?u = "upd (p(''status'' \<mapsto> S (statusReported eng p))) (statusReported eng p) tb"
    show ?thesis
    proof (cases "fst ?u")
      case None
      with True Cons.prems have "\<not> noWriteRaises eng upd ps (snd ?u)" by simp
      from Cons.IH[OF this] True None show ?thesis
        by (auto simp: reconcile_cases split: prod.splits)
    next
      case (Some e)
      with True show ?thesis by (simp add: reconcile_cases)
    qed
  next
    case False
    with Cons.prems have "\<not> noWriteRaises eng upd ps tb" by simp
    from Cons.IH[OF this] False show ?thesis
      by (auto simp: reconcile_cases split: prod.splits)
  qed
qed

lemma itemList_update: "r\<lparr>items := xs\<rparr> = \<lparr>totalCount = totalCount r, items = xs\<rparr>"
  by (cases r) simp

lemma list_written:
  assumes "noWriteRaises eng upd
     (items (listPipeline isEmpty pid version order True pageSize pageNumber tb)) tb"
  shows "PipelineServ_list eng upd isEmpty pid version order pageSize pageNumber tb
     = \<lparr>response = ApiSuccess 200
          (PList \<lparr>totalCount = totalCount (listPipeline isEmpty pid version order True pageSize pageNumber tb),
                  items = map (reconciled eng)
                    (items (listPipeline isEmpty pid version order True pageSize pageNumber tb))\<rparr>)
          None,
        store = writeBacks eng upd
          (items (listPipeline isEmpty pid version order True pageSize pageNumber tb)) tb,
        calls = concat (map (expectedCalls eng)
          (items (listPipeline isEmpty pid version order True pageSize pageNumber tb)))\<rparr>"
  by (simp add: PipelineServ_list_def Let_def reconcileAll_written[OF assms] itemList_update)

lemma list_raised:
  assumes "\<not> noWriteRaises eng upd
     (items (listPipeline isEmpty pid version order True pageSize pageNumber tb)) tb"
  shows "\<exists>e. response (PipelineServ_list eng upd isEmpty pid version order pageSize pageNumber tb)
           = Next e"
proof -
  let ?page = "items (listPipeline isEmpty pid version order True pageSize pageNumber tb)"
  obtain e ps tb' cs where r: "reconcileAll eng upd ?page tb = (e, ps, tb', cs)"
    by (metis prod_cases4)
  from reconcileAll_raised[OF assms] r obtain x where "e = Some x" by auto
  then show ?thesis by (simp add: PipelineServ_list_def Let_def r)
qed

lemma reads_of_one:
  "q ''executionArn'' = Some arn \<Longrightarrow> truthy (Some arn) \<Longrightarrow>
     expectedCalls eng q =
       GetExecutionStatus arn #
         (if q ''status'' \<noteq> Some (S (liveStatus eng arn))
          then [UpdatePipelineStatus (q(''status'' \<mapsto> S (liveStatus eng arn))) (liveStatus eng arn)]
          else [])
     \<and> needsWrite eng q = (q ''status'' \<noteq> Some (S (liveStatus eng arn)))
     \<and> statusReported eng q = liveStatus eng arn
     \<and> reconciled eng q = q(''status'' \<mapsto> S (liveStatus eng arn))"
  by (simp add: expectedCalls_def needsWrite_def statusReported_def reconciled_def)

lemma reads_of_none:
  "\<not> truthy (q ''executionArn'') \<Longrightarrow>
     expectedCalls eng q = [] \<and> \<not> needsWrite eng q \<and> reconciled eng q = q"
  by (auto simp: expectedCalls_def needsWrite_def reconciled_def split: option.splits)

lemma exSecond_at:
  "exSecond ''id'' = Some (S ''proj1'')"
  "exSecond ''type'' = Some (S ''PIPELINE#pl2#latest'')"
  "exSecond ''prefix'' = Some (S ''PIPELINE'')"
  "exSecond ''pipelineId'' = Some (S ''pl2'')"
  "exSecond ''projectId'' = Some (S ''proj1'')"
  "exSecond ''name'' = Some (S ''clicks'')"
  "exSecond ''description'' = Some (S ''first'')"
  "exSecond ''region'' = Some (S ''us-east-1'')"
  "exSecond ''dataCollectionSDK'' = Some (S ''sdk'')"
  "exSecond ''status'' = Some (S ''FAILED'')"
  "exSecond ''tags'' = Some (L [])"
  "exSecond ''network'' = Some (M [])"
  "exSecond ''bucket'' = Some (M [])"
  "exSecond ''ingestionServer'' = Some (M [])"
  "exSecond ''etl'' = Some (M [])"
  "exSecond ''dataAnalytics'' = Some (M [])"
  "exSecond ''report'' = Some (M [])"
  "exSecond ''workflow'' = Some (M [])"
  "exSecond ''executionName'' = Some (S ''main-1'')"
  "exSecond ''executionArn'' = Some (S ''arn:2'')"
  "exSecond ''version'' = Some (S ''100'')"
  "exSecond ''versionTag'' = Some (S ''latest'')"
  "exSecond ''createAt'' = Some (N 200)"
  "exSecond ''updateAt'' = Some (N 100)"
  "exSecond ''operator'' = Some (S ''alice'')"
  "exSecond ''deleted'' = Some (BOOL False)"
  by (simp_all add: exSecond_def exStored_at)

lemma exIdle_at:
  "exIdle ''id'' = Some (S ''proj1'')"
  "exIdle ''type'' = Some (S ''PIPELINE#pl3#latest'')"
  "exIdle ''prefix'' = Some (S ''PIPELINE'')"
  "exIdle ''pipelineId'' = Some (S ''pl3'')"
  "exIdle ''projectId'' = Some (S ''proj1'')"
  "exIdle ''name'' = Some (S ''clicks'')"
  "exIdle ''description'' = Some (S ''first'')"
  "exIdle ''region'' = Some (S ''us-east-1'')"
  "exIdle ''dataCollectionSDK'' = Some (S ''sdk'')"
  "exIdle ''status'' = Some (S ''RUNNING'')"
  "exIdle ''tags'' = Some (L [])"
  "exIdle ''network'' = Some (M [])"
  "exIdle ''bucket'' = Some (M [])"
  "exIdle ''ingestionServer'' = Some (M [])"
  "exIdle ''etl'' = Some (M [])"
  "exIdle ''dataAnalytics'' = Some (M [])"
  "exIdle ''report'' = Some (M [])"
  "exIdle ''workflow'' = Some (M [])"
  "exIdle ''executionName'' = Some (S ''main-1'')"
  "exIdle ''executionArn'' = Some (S [])"
  "exIdle ''version'' = Some (S ''100'')"
  "exIdle ''versionTag'' = Some (S ''latest'')"
  "exIdle ''createAt'' = Some (N 300)"
  "exIdle ''updateAt'' = Some (N 100)"
  "exIdle ''operator'' = Some (S ''alice'')"
  "exIdle ''deleted'' = Some (BOOL False)"
  by (simp_all add: exIdle_def exStored_at)

lemma ex_read: "getPipeline ''proj1'' ''pl1'' None [exStored] = Some exStored"
  by (simp add: getPipeline_def getItem_def hasKey_def pipelineType_def exStored_at)

lemma ex_write:
  "writeStatus (exStored(''status'' \<mapsto> S s)) s [exStored]
     = (None, [exStored(''status'' \<mapsto> S s)])"
  by (simp add: writeStatus_def sendWrite_def condPasses_def writeUpdate_def getItem_def
      hasKey_def exStored_at)

lemma exFleet_listed:
  "listPipeline emptyString ''proj1'' ''latest'' ''asc'' True (Num 10) (Num 1) exFleet
     = \<lparr>totalCount = 3, items = [exStored, exSecond, exIdle]\<rparr>"
  by (simp add: listPipeline_def query_def indexed_def timeOf_def pipelineFilter_def
      emptyString_def paginate_def slice_def ceilDiv_def exFleet_def exStored_at exSecond_at
      exIdle_at Let_def)

lemma exFleet_write:
  "writeStatus (exStored(''status'' \<mapsto> S s)) s exFleet
     = (None, [exStored(''status'' \<mapsto> S s), exSecond, exIdle])"
  by (simp add: writeStatus_def sendWrite_def condPasses_def writeUpdate_def getItem_def
      hasKey_def exFleet_def exStored_at exSecond_at exIdle_at)

lemma exSecond_same: "exSecond(''status'' \<mapsto> S ''FAILED'') = exSecond"
  using exSecond_at(10) by (rule fun_upd_idem[of exSecond "''status''" "Some (S ''FAILED'')"])

lemma exFleet_reads:
  "needsWrite exEngine exStored" "statusReported exEngine exStored = ''SUCCEEDED''"
  "\<not> needsWrite exEngine exSecond" "\<not> needsWrite exEngine exIdle"
  "reconciled exEngine exStored = exStored(''status'' \<mapsto> S ''SUCCEEDED'')"
  "reconciled exEngine exSecond = exSecond" "reconciled exEngine exIdle = exIdle"
  "expectedCalls exEngine exStored
     = [GetExecutionStatus (S ''arn:1''),
        UpdatePipelineStatus (exStored(''status'' \<mapsto> S ''SUCCEEDED'')) ''SUCCEEDED'']"
  "expectedCalls exEngine exSecond = [GetExecutionStatus (S ''arn:2'')]"
  "expectedCalls exEngine exIdle = []"
  by (simp_all add: needsWrite_def statusReported_def reconciled_def expectedCalls_def
      liveStatus_def exEngine_def exStored_at exSecond_at exIdle_at exSecond_same)

text \<open>
  Claim C6.  \<open>details\<close> of a live pipeline whose \<open>executionArn\<close> is truthy asks the engine
  for the status of that execution and calls \<open>updatePipelineStatus\<close>, with the live status,
  exactly when the stored status differs from it; the table it leaves is then the one
  that call leaves, and the table as it was otherwise; a pipeline without a truthy
  \<open>executionArn\<close> causes no call.  \<open>list\<close> does the same for the pipelines of its page, in
  order: when no write raises it answers with the reconciled pipelines, the table it
  leaves is the one the writes leave, one after the other, and its calls are those of
  the pipelines in turn; when a write raises it passes the error on.  For a pipeline with
  a truthy \<open>executionArn\<close> the calls are the query and, exactly when the stored status
  differs from the live one, the write of the live status.  Neither read calls
  \<open>generateWorkflow\<close> or \<open>execute\<close>.
\<close>

theorem reads_reconcile_status:
  "(getPipeline pid i None tb = Some p \<and> p ''executionArn'' = Some arn \<and> truthy (Some arn) \<longrightarrow>
      (p ''status'' \<noteq> Some (S (liveStatus eng arn)) \<longrightarrow>
         calls (PipelineServ_details eng upd pid i tb)
           = [GetExecutionStatus arn,
              UpdatePipelineStatus (p(''status'' \<mapsto> S (liveStatus eng arn))) (liveStatus eng arn)]
       \<and> store (PipelineServ_details eng upd pid i tb)
           = snd (upd (p(''status'' \<mapsto> S (liveStatus eng arn))) (liveStatus eng arn) tb))
    \<and> (p ''status'' = Some (S (liveStatus eng arn)) \<longrightarrow>
         calls (PipelineServ_details eng upd pid i tb) = [GetExecutionStatus arn]
       \<and> store (PipelineServ_details eng upd pid i tb) = tb))
   \<and> (getPipeline pid i None tb = Some p \<and> \<not> truthy (p ''executionArn'') \<longrightarrow>
        calls (PipelineServ_details eng upd pid i tb) = []
      \<and> store (PipelineServ_details eng upd pid i tb) = tb)
   \<and> (noWriteRaises eng upd
         (items (listPipeline isEmpty pid version order True pageSize pageNumber tb)) tb \<longrightarrow>
        PipelineServ_list eng upd isEmpty pid version order pageSize pageNumber tb
          = \<lparr>response = ApiSuccess 200
               (PList \<lparr>totalCount =
                         totalCount (listPipeline isEmpty pid version order True pageSize pageNumber tb),
                       items = map (reconciled eng)
                         (items (listPipeline isEmpty pid version order True pageSize pageNumber tb))\<rparr>)
               None,
             store = writeBacks eng upd
               (items (listPipeline isEmpty pid version order True pageSize pageNumber tb)) tb,
             calls = concat (map (expectedCalls eng)
               (items (listPipeline isEmpty pid version order True pageSize pageNumber tb)))\<rparr>)
   \<and> (\<not> noWriteRaises eng upd
           (items (listPipeline isEmpty pid version order True pageSize pageNumber tb)) tb \<longrightarrow>
        (\<exists>e. response (PipelineServ_list eng upd isEmpty pid version order pageSize pageNumber tb)
                = Next e))
   \<and> (q ''executionArn'' = Some arn \<and> truthy (Some arn) \<longrightarrow>
        expectedCalls eng q =
          GetExecutionStatus arn #
            (if q ''status'' \<noteq> Some (S (liveStatus eng arn))
             then [UpdatePipelineStatus (q(''status'' \<mapsto> S (liveStatus eng arn))) (liveStatus eng arn)]
             else [])
      \<and> needsWrite eng q = (q ''status'' \<noteq> Some (S (liveStatus eng arn)))
      \<and> statusReported eng q = liveStatus eng arn
      \<and> reconciled eng q = q(''status'' \<mapsto> S (liveStatus eng arn)))
   \<and> (\<not> truthy (q ''executionArn'') \<longrightarrow>
        expectedCalls eng q = [] \<and> \<not> needsWrite eng q \<and> reconciled eng q = q)
   \<and> \<not> list_ex engineWrite (calls (PipelineServ_details eng upd pid i tb))
   \<and> \<not> list_ex engineWrite
        (calls (PipelineServ_list eng upd isEmpty pid version order pageSize pageNumber tb))"
proof -
  let ?d = "PipelineServ_details eng upd pid i tb"
  let ?live = "liveStatus eng arn"
  have d1: "calls ?d = [GetExecutionStatus arn, UpdatePipelineStatus (p(''status'' \<mapsto> S ?live)) ?live]
      \<and> store ?d = snd (upd (p(''status'' \<mapsto> S ?live)) ?live tb)"
    if "getPipeline pid i None tb = Some p" "p ''executionArn'' = Some arn" "truthy (Some arn)"
      "p ''status'' \<noteq> Some (S ?live)"
    using that(2-4) details_reconcile(1,2)[OF that(1), of eng upd]
    by (simp add: expectedCalls_def reconcile_def Let_def split: prod.splits)
  have d2: "calls ?d = [GetExecutionStatus arn] \<and> store ?d = tb"
    if "getPipeline pid i None tb = Some p" "p ''executionArn'' = Some arn" "truthy (Some arn)"
      "p ''status'' = Some (S ?live)"
    using that(2-4) details_reconcile(1,2)[OF that(1), of eng upd]
    by (simp add: expectedCalls_def reconcile_def Let_def)
  have d3: "calls ?d = [] \<and> store ?d = tb"
    if "getPipeline pid i None tb = Some p" "\<not> truthy (p ''executionArn'')"
    using that(2) details_reconcile(1,2)[OF that(1), of eng upd]
    by (auto simp: expectedCalls_def reconcile_def Let_def split: option.splits)
  note l1 = list_written[of eng upd isEmpty pid version order pageSize pageNumber tb]
  note l2 = list_raised[of eng upd isEmpty pid version order pageSize pageNumber tb]
  note e1 = reads_of_one[of q arn eng]
  note e2 = reads_of_none[of q eng]
  note w1 = details_no_engineWrite[of eng upd pid i tb]
  note w2 = list_no_engineWrite[of eng upd isEmpty pid version order pageSize pageNumber tb]
  show ?thesis
    apply (intro conjI impI)
    subgoal using d1 by blast
    subgoal using d1 by blast
    subgoal using d2 by blast
    subgoal using d2 by blast
    subgoal using d3 by blast
    subgoal using d3 by blast
    subgoal by (rule l1)
    subgoal by (rule l2)
    subgoal using e1 by blast
    subgoal using e1 by blast
    subgoal using e1 by blast
    subgoal using e1 by blast
    subgoal using e2 by blast
    subgoal using e2 by blast
    subgoal using e2 by blast
    subgoal by (rule w1)
    subgoal by (rule w2)
    done
qed

theorem reads_reconcile_status_witness:
  "calls (PipelineServ_details exEngine writeStatus ''proj1'' ''pl1'' [exStored])
     = [GetExecutionStatus (S ''arn:1''),
        UpdatePipelineStatus (exStored(''status'' \<mapsto> S ''SUCCEEDED'')) ''SUCCEEDED'']
   \<and> store (PipelineServ_details exEngine writeStatus ''proj1'' ''pl1'' [exStored])
       = [exStored(''status'' \<mapsto> S ''SUCCEEDED'')]
   \<and> calls (PipelineServ_details exRunningEngine writeStatus ''proj1'' ''pl1'' [exStored])
       = [GetExecutionStatus (S ''arn:1'')]
   \<and> store (PipelineServ_details exRunningEngine writeStatus ''proj1'' ''pl1'' [exStored])
       = [exStored]
   \<and> noWriteRaises exEngine writeStatus [exStored, exSecond, exIdle] exFleet
   \<and> PipelineServ_list exEngine writeStatus emptyString ''proj1'' ''latest'' ''asc''
         (Num 10) (Num 1) exFleet
       = \<lparr>response = ApiSuccess 200
            (PList \<lparr>totalCount = 3,
                    items = [exStored(''status'' \<mapsto> S ''SUCCEEDED''), exSecond, exIdle]\<rparr>) None,
          store = [exStored(''status'' \<mapsto> S ''SUCCEEDED''), exSecond, exIdle],
          calls = [GetExecutionStatus (S ''arn:1''),
                   UpdatePipelineStatus (exStored(''status'' \<mapsto> S ''SUCCEEDED'')) ''SUCCEEDED'',
                   GetExecutionStatus (S ''arn:2'')]\<rparr>"
proof -
  have live: "liveStatus exEngine (S ''arn:1'') = ''SUCCEEDED''"
    "liveStatus exRunningEngine (S ''arn:1'') = ''RUNNING''"
    by (simp_all add: liveStatus_def exEngine_def exRunningEngine_def)
  have nr: "noWriteRaises exEngine writeStatus [exStored, exSecond, exIdle] exFleet"
    by (simp add: exFleet_reads exFleet_write)
  note a = reads_reconcile_status[of "''proj1''" "''pl1''" "[exStored]" exStored "S ''arn:1''"
      exEngine writeStatus emptyString "''latest''" "''asc''" "Num 10" "Num 1" exStored]
  note b = reads_reconcile_status[of "''proj1''" "''pl1''" "[exStored]" exStored "S ''arn:1''"
      exRunningEngine writeStatus emptyString "''latest''" "''asc''" "Num 10" "Num 1" exStored]
  note c = reads_reconcile_status[of "''proj1''" "''pl1''" exFleet exStored "S ''arn:1''"
      exEngine writeStatus emptyString "''latest''" "''asc''" "Num 10" "Num 1" exStored]
  have 1: "calls (PipelineServ_details exEngine writeStatus ''proj1'' ''pl1'' [exStored])
     = [GetExecutionStatus (S ''arn:1''),
        UpdatePipelineStatus (exStored(''status'' \<mapsto> S ''SUCCEEDED'')) ''SUCCEEDED'']"
    "store (PipelineServ_details exEngine writeStatus ''proj1'' ''pl1'' [exStored])
     = [exStored(''status'' \<mapsto> S ''SUCCEEDED'')]"
    using a by (simp_all add: ex_read exStored_at live ex_write)
  have 2: "calls (PipelineServ_details exRunningEngine writeStatus ''proj1'' ''pl1'' [exStored])
       = [GetExecutionStatus (S ''arn:1'')]"
    "store (PipelineServ_details exRunningEngine writeStatus ''proj1'' ''pl1'' [exStored])
       = [exStored]"
    using b by (simp_all add: ex_read exStored_at live)
  from c have "noWriteRaises exEngine writeStatus
         (items (listPipeline emptyString ''proj1'' ''latest'' ''asc'' True (Num 10) (Num 1) exFleet))
         exFleet \<longrightarrow>
        PipelineServ_list exEngine writeStatus emptyString ''proj1'' ''latest'' ''asc''
            (Num 10) (Num 1) exFleet
          = \<lparr>response = ApiSuccess 200
               (PList \<lparr>totalCount =
                         totalCount (listPipeline emptyString ''proj1'' ''latest'' ''asc'' True
                           (Num 10) (Num 1) exFleet),
                       items = map (reconciled exEngine)
                         (items (listPipeline emptyString ''proj1'' ''latest'' ''asc'' True
                           (Num 10) (Num 1) exFleet))\<rparr>)
               None,
             store = writeBacks exEngine writeStatus
               (items (listPipeline emptyString ''proj1'' ''latest'' ''asc'' True
                  (Num 10) (Num 1) exFleet)) exFleet,
             calls = concat (map (expectedCalls exEngine)
               (items (listPipeline emptyString ''proj1'' ''latest'' ''asc'' True
                  (Num 10) (Num 1) exFleet)))\<rparr>"
    by (elim conjE)
  with nr have 3: "PipelineServ_list exEngine writeStatus emptyString ''proj1'' ''latest'' ''asc''
         (Num 10) (Num 1) exFleet
       = \<lparr>response = ApiSuccess 200
            (PList \<lparr>totalCount = 3,
                    items = [exStored(''status'' \<mapsto> S ''SUCCEEDED''), exSecond, exIdle]\<rparr>) None,
          store = [exStored(''status'' \<mapsto> S ''SUCCEEDED''), exSecond, exIdle],
          calls = [GetExecutionStatus (S ''arn:1''),
                   UpdatePipelineStatus (exStored(''status'' \<mapsto> S ''SUCCEEDED'')) ''SUCCEEDED'',
                   GetExecutionStatus (S ''arn:2'')]\<rparr>"
    by (simp add: exFleet_listed exFleet_reads exFleet_write)
  show ?thesis
    by (intro conjI) (rule 1 2 nr 3)+
qed
lemma writeBacks_append:
  "writeBacks eng upd (xs @ ys) tb = writeBacks eng upd ys (writeBacks eng upd xs tb)"
  by (induction xs arbitrary: tb) simp_all

lemma lost_reads:
  "q ''executionArn'' = Some a \<Longrightarrow> truthy (Some a) \<Longrightarrow> eng a = None \<Longrightarrow>
     reconciled eng q = q(''status'' \<mapsto> S ''FAILED'')
     \<and> statusReported eng q = ''FAILED''
     \<and> needsWrite eng q = (q ''status'' \<noteq> Some (S ''FAILED''))
     \<and> expectedCalls eng q =
         GetExecutionStatus a #
           (if q ''status'' \<noteq> Some (S ''FAILED'')
            then [UpdatePipelineStatus (q(''status'' \<mapsto> S ''FAILED'')) ''FAILED'']
            else [])
     \<and> writeBacks eng upd [q] tb =
         (if q ''status'' \<noteq> Some (S ''FAILED'')
          then snd (upd (q(''status'' \<mapsto> S ''FAILED'')) ''FAILED'' tb)
          else tb)"
  by (simp add: expectedCalls_def needsWrite_def statusReported_def reconciled_def liveStatus_def)

lemma exFleet_lost:
  "needsWrite exLostEngine exStored" "statusReported exLostEngine exStored = ''FAILED''"
  "\<not> needsWrite exLostEngine exSecond" "\<not> needsWrite exLostEngine exIdle"
  "reconciled exLostEngine exStored = exStored(''status'' \<mapsto> S ''FAILED'')"
  "reconciled exLostEngine exSecond = exSecond" "reconciled exLostEngine exIdle = exIdle"
  "expectedCalls exLostEngine exStored
     = [GetExecutionStatus (S ''arn:1''),
        UpdatePipelineStatus (exStored(''status'' \<mapsto> S ''FAILED'')) ''FAILED'']"
  "expectedCalls exLostEngine exSecond = [GetExecutionStatus (S ''arn:2'')]"
  "expectedCalls exLostEngine exIdle = []"
  by (simp_all add: needsWrite_def statusReported_def reconciled_def expectedCalls_def
      liveStatus_def exLostEngine_def exStored_at exSecond_at exIdle_at exSecond_same)

text \<open>
  Claim C9.  When the engine reports no status for the truthy \<open>executionArn\<close> of a pipeline
  that is read, the live status is \<open>FAILED\<close>.  \<open>details\<close> returns a record whose stored status
  is already \<open>FAILED\<close> as it is and writes nothing; otherwise it calls
  \<open>updatePipelineStatus\<close> with \<open>FAILED\<close>, the table it leaves is the one that call leaves,
  and, when the call does not raise, it returns the pipeline with status \<open>FAILED\<close>.  A
  listing in which no write raises returns the reconciled pipelines of its page and
  leaves the table that the writes leave, one after the other; the reconciled form of
  such a pipeline has status \<open>FAILED\<close>, and its write, made exactly when the stored
  status was another, is that of \<open>updatePipelineStatus\<close> with \<open>FAILED\<close>.
\<close>

theorem reads_default_to_failed:
  "(getPipeline pid i None tb = Some p \<and> p ''executionArn'' = Some arn \<and> truthy (Some arn)
      \<and> eng arn = None \<longrightarrow>
      (p ''status'' = Some (S ''FAILED'') \<longrightarrow>
         PipelineServ_details eng upd pid i tb
           = \<lparr>response = ApiSuccess 200 (PItem p) None, store = tb,
              calls = [GetExecutionStatus arn]\<rparr>)
    \<and> (p ''status'' \<noteq> Some (S ''FAILED'') \<longrightarrow>
         calls (PipelineServ_details eng upd pid i tb)
           = [GetExecutionStatus arn, UpdatePipelineStatus (p(''status'' \<mapsto> S ''FAILED'')) ''FAILED'']
       \<and> store (PipelineServ_details eng upd pid i tb)
           = snd (upd (p(''status'' \<mapsto> S ''FAILED'')) ''FAILED'' tb)
       \<and> (fst (upd (p(''status'' \<mapsto> S ''FAILED'')) ''FAILED'' tb) = None \<longrightarrow>
            response (PipelineServ_details eng upd pid i tb)
              = ApiSuccess 200 (PItem (p(''status'' \<mapsto> S ''FAILED''))) None)))
   \<and> (noWriteRaises eng upd
         (items (listPipeline isEmpty pid version order True pageSize pageNumber tb)) tb \<longrightarrow>
        response (PipelineServ_list eng upd isEmpty pid version order pageSize pageNumber tb)
          = ApiSuccess 200
              (PList \<lparr>totalCount =
                        totalCount (listPipeline isEmpty pid version order True pageSize pageNumber tb),
                      items = map (reconciled eng)
                        (items (listPipeline isEmpty pid version order True pageSize pageNumber tb))\<rparr>)
              None
      \<and> store (PipelineServ_list eng upd isEmpty pid version order pageSize pageNumber tb)
          = writeBacks eng upd
              (items (listPipeline isEmpty pid version order True pageSize pageNumber tb)) tb)
   \<and> (q ''executionArn'' = Some a \<and> truthy (Some a) \<and> eng a = None \<longrightarrow>
        reconciled eng q = q(''status'' \<mapsto> S ''FAILED'')
      \<and> statusReported eng q = ''FAILED''
      \<and> needsWrite eng q = (q ''status'' \<noteq> Some (S ''FAILED''))
      \<and> expectedCalls eng q =
          GetExecutionStatus a #
            (if q ''status'' \<noteq> Some (S ''FAILED'')
             then [UpdatePipelineStatus (q(''status'' \<mapsto> S ''FAILED'')) ''FAILED'']
             else [])
      \<and> writeBacks eng upd [q] tb' =
          (if q ''status'' \<noteq> Some (S ''FAILED'')
           then snd (upd (q(''status'' \<mapsto> S ''FAILED'')) ''FAILED'' tb')
           else tb'))
   \<and> writeBacks eng upd (xs @ ys) tb' = writeBacks eng upd ys (writeBacks eng upd xs tb')"
proof -
  let ?d = "PipelineServ_details eng upd pid i tb"
  let ?l = "PipelineServ_list eng upd isEmpty pid version order pageSize pageNumber tb"
  let ?page = "items (listPipeline isEmpty pid version order True pageSize pageNumber tb)"
  let ?f = "p(''status'' \<mapsto> S ''FAILED'')"
  have d1: "?d = \<lparr>response = ApiSuccess 200 (PItem p) None, store = tb,
              calls = [GetExecutionStatus arn]\<rparr>"
    if "getPipeline pid i None tb = Some p" "p ''executionArn'' = Some arn" "truthy (Some arn)"
      "eng arn = None" "p ''status'' = Some (S ''FAILED'')"
    using that by (simp add: PipelineServ_details_def reconcile_def liveStatus_def)
  have d2: "calls ?d = [GetExecutionStatus arn, UpdatePipelineStatus ?f ''FAILED'']
       \<and> store ?d = snd (upd ?f ''FAILED'' tb)
       \<and> (fst (upd ?f ''FAILED'' tb) = None \<longrightarrow> response ?d = ApiSuccess 200 (PItem ?f) None)"
    if "getPipeline pid i None tb = Some p" "p ''executionArn'' = Some arn" "truthy (Some arn)"
      "eng arn = None" "p ''status'' \<noteq> Some (S ''FAILED'')"
    using that(2-5) details_reconcile[OF that(1), of eng upd]
    by (auto simp: expectedCalls_def reconciled_def reconcile_def liveStatus_def Let_def
        split: prod.splits)
  have l: "response ?l
          = ApiSuccess 200
              (PList \<lparr>totalCount =
                        totalCount (listPipeline isEmpty pid version order True pageSize pageNumber tb),
                      items = map (reconciled eng) ?page\<rparr>) None
      \<and> store ?l = writeBacks eng upd ?page tb"
    if "noWriteRaises eng upd ?page tb"
    by (simp add: list_written[OF that])
  note r = lost_reads[of q a eng upd tb']
  note w = writeBacks_append[of eng upd xs ys tb']
  show ?thesis
    apply (intro conjI impI)
    subgoal using d1 by blast
    subgoal using d2 by blast
    subgoal using d2 by blast
    subgoal using d2 by blast
    subgoal using l by blast
    subgoal using l by blast
    subgoal using r by blast
    subgoal using r by blast
    subgoal using r by blast
    subgoal using r by blast
    subgoal using r by blast
    subgoal by (rule w)
    done
qed

theorem reads_default_to_failed_witness:
  "exLostEngine (S ''arn:1'') = None
   \<and> exStored ''status'' = Some (S ''RUNNING'')
   \<and> PipelineServ_details exLostEngine writeStatus ''proj1'' ''pl1'' [exStored]
       = \<lparr>response = ApiSuccess 200 (PItem (exStored(''status'' \<mapsto> S ''FAILED''))) None,
          store = [exStored(''status'' \<mapsto> S ''FAILED'')],
          calls = [GetExecutionStatus (S ''arn:1''),
                   UpdatePipelineStatus (exStored(''status'' \<mapsto> S ''FAILED'')) ''FAILED'']\<rparr>
   \<and> PipelineServ_details exLostEngine writeStatus ''proj1'' ''pl1''
         [exStored(''status'' \<mapsto> S ''FAILED'')]
       = \<lparr>response = ApiSuccess 200 (PItem (exStored(''status'' \<mapsto> S ''FAILED''))) None,
          store = [exStored(''status'' \<mapsto> S ''FAILED'')],
          calls = [GetExecutionStatus (S ''arn:1'')]\<rparr>
   \<and> noWriteRaises exLostEngine writeStatus [exStored, exSecond, exIdle] exFleet
   \<and> response (PipelineServ_list exLostEngine writeStatus emptyString ''proj1'' ''latest'' ''asc''
         (Num 10) (Num 1) exFleet)
       = ApiSuccess 200
           (PList \<lparr>totalCount = 3,
                   items = [exStored(''status'' \<mapsto> S ''FAILED''), exSecond, exIdle]\<rparr>) None
   \<and> store (PipelineServ_list exLostEngine writeStatus emptyString ''proj1'' ''latest'' ''asc''
         (Num 10) (Num 1) exFleet)
       = [exStored(''status'' \<mapsto> S ''FAILED''), exSecond, exIdle]"
proof -
  let ?f = "exStored(''status'' \<mapsto> S ''FAILED'')"
  have live: "liveStatus exLostEngine (S ''arn:1'') = ''FAILED''" "exLostEngine (S ''arn:1'') = None"
    by (simp_all add: liveStatus_def exLostEngine_def)
  have rd: "getPipeline ''proj1'' ''pl1'' None [?f] = Some ?f"
    by (simp add: getPipeline_def getItem_def hasKey_def pipelineType_def exStored_at)
  have nr: "noWriteRaises exLostEngine writeStatus [exStored, exSecond, exIdle] exFleet"
    by (simp add: exFleet_lost exFleet_write)
  note a = reads_default_to_failed[of "''proj1''" "''pl1''" "[exStored]" exStored "S ''arn:1''"
      exLostEngine writeStatus emptyString "''latest''" "''asc''" "Num 10" "Num 1"]
  note b = reads_default_to_failed[of "''proj1''" "''pl1''" "[?f]" ?f "S ''arn:1''"
      exLostEngine writeStatus emptyString "''latest''" "''asc''" "Num 10" "Num 1"]
  note c = reads_default_to_failed[of "''proj1''" "''pl1''" exFleet exStored "S ''arn:1''"
      exLostEngine writeStatus emptyString "''latest''" "''asc''" "Num 10" "Num 1"]
  have 1: "PipelineServ_details exLostEngine writeStatus ''proj1'' ''pl1'' [exStored]
       = \<lparr>response = ApiSuccess 200 (PItem ?f) None, store = [?f],
          calls = [GetExecutionStatus (S ''arn:1''), UpdatePipelineStatus ?f ''FAILED'']\<rparr>"
    using a by (simp add: ex_read exStored_at live ex_write outcome.equality)
  have 2: "PipelineServ_details exLostEngine writeStatus ''proj1'' ''pl1'' [?f]
       = \<lparr>response = ApiSuccess 200 (PItem ?f) None, store = [?f],
          calls = [GetExecutionStatus (S ''arn:1'')]\<rparr>"
    using b by (simp add: rd exStored_at live)
  note c2 = c[THEN conjunct2, THEN conjunct1]
  from c2 nr have 3: "response (PipelineServ_list exLostEngine writeStatus emptyString ''proj1''
         ''latest'' ''asc'' (Num 10) (Num 1) exFleet)
       = ApiSuccess 200 (PList \<lparr>totalCount = 3, items = [?f, exSecond, exIdle]\<rparr>) None"
    "store (PipelineServ_list exLostEngine writeStatus emptyString ''proj1'' ''latest'' ''asc''
         (Num 10) (Num 1) exFleet) = [?f, exSecond, exIdle]"
    by (simp_all add: exFleet_listed exFleet_lost exFleet_write)
  show ?thesis
    by (intro conjI) (rule live(2) exStored_at(10) 1 2 nr 3)+
qed







end
